theory Spec2Isabelle
  imports Complex_Main "HOL-Library.AList"
begin

section \<open>JavaScript values used by the storage layer\<close>

text \<open>
  Identifiers and quantities are JavaScript numbers with integer values.  The in-memory
  and the relational backend copy, compare and increment the identifiers they are given,
  and are modelled over \<open>int\<close>.  The document-store backend computes identifiers
  with \<open>parseInt\<close>, whose result may be \<open>NaN\<close>; its identifiers are
  values of \<open>number\<close>.
\<close>

datatype number = Num int | NaN

text \<open>Strict equality \<open>a === b\<close> of two numbers: \<open>NaN\<close> equals nothing.\<close>

definition strictEq :: "number \<Rightarrow> number \<Rightarrow> bool" where
  "strictEq a b = (a = b \<and> a \<noteq> NaN)"

text \<open>
  A character of the model is a UTF-16 code unit below 256, the Latin-1 range; a string
  with other code units is outside the model.  On such a string
  \<open>s.toLowerCase()\<close> replaces the capitals \<open>A\<close> to \<open>Z\<close>
  and the accented capitals \<open>0xC0\<close> to \<open>0xDE\<close> (the multiplication sign
  \<open>0xD7\<close> excepted) by the letter 32 places further, and nothing else.  A string
  is ASCII when every code unit of it is below 128, its eighth bit clear.
\<close>

definition upperCaseLetters :: string where
  "upperCaseLetters = ''ABCDEFGHIJKLMNOPQRSTUVWXYZ'' @
     [CHR 0xC0, CHR 0xC1, CHR 0xC2, CHR 0xC3, CHR 0xC4, CHR 0xC5, CHR 0xC6, CHR 0xC7,
      CHR 0xC8, CHR 0xC9, CHR 0xCA, CHR 0xCB, CHR 0xCC, CHR 0xCD, CHR 0xCE, CHR 0xCF,
      CHR 0xD0, CHR 0xD1, CHR 0xD2, CHR 0xD3, CHR 0xD4, CHR 0xD5, CHR 0xD6,
      CHR 0xD8, CHR 0xD9, CHR 0xDA, CHR 0xDB, CHR 0xDC, CHR 0xDD, CHR 0xDE]"

definition lowerCaseLetters :: string where
  "lowerCaseLetters = ''abcdefghijklmnopqrstuvwxyz'' @
     [CHR 0xE0, CHR 0xE1, CHR 0xE2, CHR 0xE3, CHR 0xE4, CHR 0xE5, CHR 0xE6, CHR 0xE7,
      CHR 0xE8, CHR 0xE9, CHR 0xEA, CHR 0xEB, CHR 0xEC, CHR 0xED, CHR 0xEE, CHR 0xEF,
      CHR 0xF0, CHR 0xF1, CHR 0xF2, CHR 0xF3, CHR 0xF4, CHR 0xF5, CHR 0xF6,
      CHR 0xF8, CHR 0xF9, CHR 0xFA, CHR 0xFB, CHR 0xFC, CHR 0xFD, CHR 0xFE]"

definition toLowerCase :: "string \<Rightarrow> string" where
  "toLowerCase s =
     map (\<lambda>c. case map_of (zip upperCaseLetters lowerCaseLetters) c of
                Some l \<Rightarrow> l
              | None \<Rightarrow> c) s"


subsection \<open>Addition\<close>

text \<open>
  \<open>x + y\<close> on two numbers with integer values is the exact sum rounded to the
  nearest double, a tie going to the even mantissa: every integer up to \<open>2\<^sup>5\<^sup>3\<close>
  in magnitude is a double, beyond it only the multiples of a power of two that leaves 53
  significant bits.  (Sums beyond the largest double, near \<open>2\<^sup>1\<^sup>0\<^sup>2\<^sup>4\<close>, are
  outside the model.)
\<close>

fun doubleExponent :: "nat \<Rightarrow> nat" where
  "doubleExponent a = (if a < 9007199254740992 then 0 else Suc (doubleExponent (a div 2)))"

declare doubleExponent.simps [simp del]

definition roundToDouble :: "int \<Rightarrow> int" where
  "roundToDouble n =
     (let a = nat \<bar>n\<bar>;
          q = 2 ^ doubleExponent a;
          lo = a div q;
          r = a mod q;
          m = (if 2 * r < q then lo else if q < 2 * r then lo + 1
               else if even lo then lo else lo + 1)
      in sgn n * int (m * q))"

definition jsAdd :: "int \<Rightarrow> int \<Rightarrow> int" where
  "jsAdd x y = roundToDouble (x + y)"

text \<open>\<open>Number.isSafeInteger\<close>: the integers a number holds exactly, each apart
  from its neighbours.\<close>

definition safeInteger :: "int \<Rightarrow> bool" where
  "safeInteger n = (\<bar>n\<bar> \<le> 9007199254740991)"

subsection \<open>Hexadecimal strings\<close>

definition hexDigit :: "nat \<Rightarrow> char" where
  "hexDigit d = ''0123456789abcdef'' ! (d mod 16)"

text \<open>\<open>n.toString(16)\<close> for a non-negative integer: lower-case digits, no leading zero.\<close>

fun toHex :: "nat \<Rightarrow> string" where
  "toHex n = (if n < 16 then [hexDigit n] else toHex (n div 16) @ [hexDigit (n mod 16)])"

declare toHex.simps [simp del]

definition toString16 :: "number \<Rightarrow> string" where
  "toString16 x =
     (case x of
        NaN \<Rightarrow> ''NaN''
      | Num n \<Rightarrow> if n < 0 then CHR ''-'' # toHex (nat (- n)) else toHex (nat n))"

definition padStart :: "nat \<Rightarrow> char \<Rightarrow> string \<Rightarrow> string" where
  "padStart targetLength c s = replicate (targetLength - length s) c @ s"

text \<open>\<open>s.substring(start)\<close>; a negative start (here: a string shorter than six
  characters) counts as 0, as truncating subtraction gives.\<close>

definition substring :: "string \<Rightarrow> nat \<Rightarrow> string" where
  "substring s start = drop start s"

definition hexVal :: "char \<Rightarrow> nat option" where
  "hexVal c = map_of (zip ''0123456789abcdefABCDEF''
                 [0, 1, 2, 3, 4, 5, 6, 7, 8, 9, 10, 11, 12, 13, 14, 15, 10, 11, 12, 13, 14, 15]) c"

definition isHexChar :: "char \<Rightarrow> bool" where
  "isHexChar c = (hexVal c \<noteq> None)"

definition hexValue :: "string \<Rightarrow> nat" where
  "hexValue ds = foldl (\<lambda>acc c. acc * 16 + (case hexVal c of Some d \<Rightarrow> d | None \<Rightarrow> 0)) 0 ds"

definition isWhiteSpace :: "char \<Rightarrow> bool" where
  "isWhiteSpace c = (c \<in> set [CHR '' '', CHR 0x09, CHR 0x0A, CHR 0x0B, CHR 0x0C, CHR 0x0D, CHR 0xA0])"

text \<open>
  \<open>parseInt(s, 16)\<close>: leading white space is skipped, then an optional sign and an
  optional \<open>0x\<close> prefix; the longest run of hexadecimal digits that follows is the
  value, and the result is \<open>NaN\<close> when that run is empty.
\<close>

definition stripPrefix0x :: "string \<Rightarrow> string" where
  "stripPrefix0x s = (if take 2 s = ''0x'' \<or> take 2 s = ''0X'' then drop 2 s else s)"

definition parseDigits16 :: "string \<Rightarrow> int option" where
  "parseDigits16 s =
     (let ds = takeWhile isHexChar (stripPrefix0x s)
      in if ds = [] then None else Some (int (hexValue ds)))"

definition parseInt16 :: "string \<Rightarrow> number" where
  "parseInt16 s =
     (let t = dropWhile isWhiteSpace s;
          (neg, body) = (case t of
                           c # r \<Rightarrow> if c = CHR ''-'' then (True, r)
                                    else if c = CHR ''+'' then (False, r) else (False, t)
                         | [] \<Rightarrow> (False, t))
      in case parseDigits16 body of
           None \<Rightarrow> NaN
         | Some v \<Rightarrow> Num (if neg then - v else v))"

section \<open>Identifier translation of the document-store backend\<close>

text \<open>
  A document-store object identifier is handled through its \<open>toString()\<close>: 24 lower-case
  hexadecimal digits.
\<close>

definition lowerHex :: "char \<Rightarrow> bool" where
  "lowerHex c = (c \<in> set ''0123456789abcdef'')"

definition isObjectId :: "string \<Rightarrow> bool" where
  "isObjectId s = (length s = 24 \<and> list_all lowerHex s)"

text \<open>
  \<open>objectIdToNumericId\<close>: the falsy guard returns 0 (for a string that is the empty
  string); otherwise the last six characters are parsed as a hexadecimal number.
\<close>

definition objectIdToNumericId :: "string \<Rightarrow> number" where
  "objectIdToNumericId idStr =
     (if idStr = [] then Num 0
      else parseInt16 (substring idStr (length idStr - 6)))"

text \<open>\<open>id.toString(16).padStart(24, '0')\<close>, the string every lookup by numeric id builds.\<close>

definition toStringId :: "number \<Rightarrow> string" where
  "toStringId n = padStart 24 (CHR ''0'') (toString16 n)"

section \<open>Shared schema\<close>

text \<open>
  The row types of \<open>shared/schema.ts\<close>.  A nullable column is an option
  (\<open>None\<close> is \<open>null\<close>); prices, totals and ratings are opaque to the
  storage layer and taken as reals; a timestamp is a number of milliseconds.  The
  identifier type is a parameter: \<open>int\<close> for the in-memory and the relational
  backend, \<open>number\<close> for the document store.  Insert values carry every key
  of their schema.
\<close>

record 'n user =
  id_u :: 'n
  username_u :: string
  password_u :: string
  name_u :: "string option"
  email_u :: "string option"
  isAdmin_u :: "bool option"

record insertUser =
  username_iu :: string
  password_iu :: string
  name_iu :: "string option"
  email_iu :: "string option"
  isAdmin_iu :: "bool option"

record 'n menuItem =
  id_m :: 'n
  name_m :: string
  description_m :: string
  price_m :: real
  imageUrl_m :: "string option"
  category_m :: string
  rating_m :: "real option"
  isPopular_m :: "bool option"

record insertMenuItem =
  name_im :: string
  description_im :: string
  price_im :: real
  imageUrl_im :: "string option"
  category_im :: string
  isPopular_im :: "bool option"

record 'n cartItem =
  id_c :: 'n
  userId_c :: 'n
  menuItemId_c :: 'n
  quantity_c :: int

record 'n insertCartItem =
  userId_ic :: 'n
  menuItemId_ic :: 'n
  quantity_ic :: int

text \<open>An element of the \<open>items\<close> JSON array of an order: the two keys the
  storage layer reads.  The key type is \<open>int\<close> as supplied by the caller, and
  \<open>string\<close> once the document store has rewritten it.\<close>

record 'k orderItem =
  menuItemId_oi :: 'k
  quantity_oi :: int

record ('n, 'k) order =
  id_o :: 'n
  userId_o :: 'n
  items_o :: "'k orderItem list"
  status_o :: string
  total_o :: real
  createdAt_o :: "int option"
  address_o :: "string option"
  paymentId_o :: "string option"

record 'n insertOrder =
  userId_io :: 'n
  items_io :: "'n orderItem list"
  total_io :: real
  address_io :: "string option"
  paymentId_io :: "string option"

datatype orderStatus = Pending | Processing | Delivering | Delivered | Cancelled

fun statusText :: "orderStatus \<Rightarrow> string" where
  "statusText Pending = ''pending''"
| "statusText Processing = ''processing''"
| "statusText Delivering = ''delivering''"
| "statusText Delivered = ''delivered''"
| "statusText Cancelled = ''cancelled''"

text \<open>\<open>CartItemWithDetails\<close> and \<open>OrderWithItems\<close>.  The in-memory backend
  stores whatever \<open>getMenuItemById\<close> returned, also \<open>undefined\<close>
  (\<open>menuItem!\<close>), hence the option.\<close>

record 'n cartItemWithDetails =
  item_wd :: "'n cartItem"
  menuItem_wd :: "'n menuItem option"

record 'n itemWithDetails =
  menuItem_d :: "'n menuItem option"
  quantity_d :: int

record 'n orderWithItems =
  id_w :: 'n
  userId_w :: 'n
  items_w :: "'n itemWithDetails list"
  status_w :: string
  total_w :: real
  createdAt_w :: "int option"
  address_w :: "string option"
  paymentId_w :: "string option"

text \<open>The calls of the \<open>IStorage\<close> contract.\<close>

datatype 'n call =
    GetUser 'n
  | GetUserByUsername string
  | CreateUser insertUser
  | GetAllMenuItems
  | GetMenuItemById 'n
  | GetMenuItemsByCategory string
  | CreateMenuItem insertMenuItem
  | UpdateMenuItem 'n insertMenuItem
  | DeleteMenuItem 'n
  | GetCartItems 'n
  | GetCartItemsWithDetails 'n
  | AddToCart "'n insertCartItem"
  | RemoveFromCart 'n 'n
  | UpdateCartItemQuantity 'n 'n int
  | ClearCart 'n
  | CreateOrder "'n insertOrder"
  | GetOrderById 'n
  | GetOrdersByUserId 'n
  | GetAllOrders
  | UpdateOrderStatus 'n orderStatus

section \<open>In-memory backend (MemStorage)\<close>

text \<open>
  A JavaScript \<open>Map\<close> keeps its entries in insertion order: an association list.
  \<open>set\<close> on an existing key keeps the entry's place, on a new key it appends;
  \<open>delete\<close> answers whether the key was there; \<open>values()\<close> lists the
  values in order.
\<close>

definition Map_get :: "(int \<times> 'v) list \<Rightarrow> int \<Rightarrow> 'v option" where
  "Map_get m k = map_of m k"

definition Map_set :: "int \<Rightarrow> 'v \<Rightarrow> (int \<times> 'v) list \<Rightarrow> (int \<times> 'v) list" where
  "Map_set k v m = AList.update k v m"

definition Map_delete :: "int \<Rightarrow> (int \<times> 'v) list \<Rightarrow> (int \<times> 'v) list" where
  "Map_delete k m = AList.delete k m"

definition Map_values :: "(int \<times> 'v) list \<Rightarrow> 'v list" where
  "Map_values m = map snd m"

record memStorage =
  users :: "(int \<times> int user) list"
  menuItems :: "(int \<times> int menuItem) list"
  cartItems :: "(int \<times> int cartItem) list"
  orders :: "(int \<times> (int, int) order) list"
  userIdCounter :: int
  menuItemIdCounter :: int
  cartItemIdCounter :: int
  orderIdCounter :: int

text \<open>The fields as the constructor sets them before it seeds.\<close>

definition Mem_empty :: memStorage where
  "Mem_empty = \<lparr>users = [], menuItems = [], cartItems = [], orders = [],
     userIdCounter = 1, menuItemIdCounter = 1, cartItemIdCounter = 1, orderIdCounter = 1\<rparr>"



definition Mem_createUser :: "memStorage \<Rightarrow> insertUser \<Rightarrow> int user \<times> memStorage" where
  "Mem_createUser s insertUser =
     (let id' = userIdCounter s;
          user = \<lparr>id_u = id', username_u = username_iu insertUser,
                  password_u = password_iu insertUser, name_u = name_iu insertUser,
                  email_u = email_iu insertUser, isAdmin_u = isAdmin_iu insertUser\<rparr>
      in (user, s\<lparr>userIdCounter := id' + 1, users := Map_set id' user (users s)\<rparr>))"

definition Mem_getAllMenuItems :: "memStorage \<Rightarrow> int menuItem list" where
  "Mem_getAllMenuItems s = Map_values (menuItems s)"

definition Mem_getMenuItemById :: "memStorage \<Rightarrow> int \<Rightarrow> int menuItem option" where
  "Mem_getMenuItemById s id' = Map_get (menuItems s) id'"


definition Mem_createMenuItem :: "memStorage \<Rightarrow> insertMenuItem \<Rightarrow> int menuItem \<times> memStorage" where
  "Mem_createMenuItem s insertMenuItem =
     (let id' = menuItemIdCounter s;
          menuItem = \<lparr>id_m = id', name_m = name_im insertMenuItem,
                      description_m = description_im insertMenuItem,
                      price_m = price_im insertMenuItem, imageUrl_m = imageUrl_im insertMenuItem,
                      category_m = category_im insertMenuItem, rating_m = Some 0,
                      isPopular_m = isPopular_im insertMenuItem\<rparr>
      in (menuItem, s\<lparr>menuItemIdCounter := id' + 1,
                          menuItems := Map_set id' menuItem (menuItems s)\<rparr>))"

text \<open>The spread \<open>{...existingMenuItem, ...insertMenuItem}\<close>: the six keys of the
  insert value replace those of the stored item; \<open>id\<close> and \<open>rating\<close> stay.\<close>

definition spreadMenuItem :: "'n menuItem \<Rightarrow> insertMenuItem \<Rightarrow> 'n menuItem" where
  "spreadMenuItem existingMenuItem insertMenuItem =
     existingMenuItem\<lparr>name_m := name_im insertMenuItem,
       description_m := description_im insertMenuItem, price_m := price_im insertMenuItem,
       imageUrl_m := imageUrl_im insertMenuItem, category_m := category_im insertMenuItem,
       isPopular_m := isPopular_im insertMenuItem\<rparr>"

definition Mem_updateMenuItem ::
  "memStorage \<Rightarrow> int \<Rightarrow> insertMenuItem \<Rightarrow> int menuItem option \<times> memStorage" where
  "Mem_updateMenuItem s id' insertMenuItem =
     (case Map_get (menuItems s) id' of
        None \<Rightarrow> (None, s)
      | Some existingMenuItem \<Rightarrow>
          (let updatedMenuItem = spreadMenuItem existingMenuItem insertMenuItem
           in (Some updatedMenuItem,
               s\<lparr>menuItems := Map_set id' updatedMenuItem (menuItems s)\<rparr>)))"

definition Mem_deleteMenuItem :: "memStorage \<Rightarrow> int \<Rightarrow> bool \<times> memStorage" where
  "Mem_deleteMenuItem s id' =
     (Map_get (menuItems s) id' \<noteq> None, s\<lparr>menuItems := Map_delete id' (menuItems s)\<rparr>)"

definition Mem_getCartItems :: "memStorage \<Rightarrow> int \<Rightarrow> int cartItem list" where
  "Mem_getCartItems s userId = filter (\<lambda>item. userId_c item = userId) (Map_values (cartItems s))"

definition Mem_getCartItemsWithDetails :: "memStorage \<Rightarrow> int \<Rightarrow> int cartItemWithDetails list" where
  "Mem_getCartItemsWithDetails s userId =
     map (\<lambda>item. \<lparr>item_wd = item, menuItem_wd = Mem_getMenuItemById s (menuItemId_c item)\<rparr>)
       (Mem_getCartItems s userId)"

definition Mem_updateCartItemQuantity ::
  "memStorage \<Rightarrow> int \<Rightarrow> int \<Rightarrow> int \<Rightarrow> int cartItem option \<times> memStorage" where
  "Mem_updateCartItemQuantity s id' userId quantity =
     (case Map_get (cartItems s) id' of
        None \<Rightarrow> (None, s)
      | Some cartItem \<Rightarrow>
          if userId_c cartItem \<noteq> userId then (None, s)
          else (let updatedCartItem = cartItem\<lparr>quantity_c := quantity\<rparr>
                in (Some updatedCartItem,
                    s\<lparr>cartItems := Map_set id' updatedCartItem (cartItems s)\<rparr>)))"

definition Mem_addToCart ::
  "memStorage \<Rightarrow> int insertCartItem \<Rightarrow> int cartItem option \<times> memStorage" where
  "Mem_addToCart s insertCartItem =
     (case find (\<lambda>item. userId_c item = userId_ic insertCartItem \<and>
                          menuItemId_c item = menuItemId_ic insertCartItem)
             (Map_values (cartItems s)) of
        Some existingCartItem \<Rightarrow>
          Mem_updateCartItemQuantity s (id_c existingCartItem) (userId_ic insertCartItem)
            (jsAdd (quantity_c existingCartItem) (quantity_ic insertCartItem))
      | None \<Rightarrow>
          (let id' = cartItemIdCounter s;
               cartItem = \<lparr>id_c = id', userId_c = userId_ic insertCartItem,
                           menuItemId_c = menuItemId_ic insertCartItem,
                           quantity_c = quantity_ic insertCartItem\<rparr>
           in (Some cartItem, s\<lparr>cartItemIdCounter := id' + 1,
                                   cartItems := Map_set id' cartItem (cartItems s)\<rparr>)))"

definition Mem_removeFromCart :: "memStorage \<Rightarrow> int \<Rightarrow> int \<Rightarrow> bool \<times> memStorage" where
  "Mem_removeFromCart s id' userId =
     (case Map_get (cartItems s) id' of
        None \<Rightarrow> (False, s)
      | Some cartItem \<Rightarrow>
          if userId_c cartItem \<noteq> userId then (False, s)
          else (True, s\<lparr>cartItems := Map_delete id' (cartItems s)\<rparr>))"

definition Mem_clearCart :: "memStorage \<Rightarrow> int \<Rightarrow> bool \<times> memStorage" where
  "Mem_clearCart s userId =
     (True, s\<lparr>cartItems := foldl (\<lambda>m item. Map_delete (id_c item) m) (cartItems s)
                                 (Mem_getCartItems s userId)\<rparr>)"

text \<open>\<open>now\<close> is the clock reading \<open>new Date()\<close> takes.\<close>

definition Mem_createOrder ::
  "int \<Rightarrow> memStorage \<Rightarrow> int insertOrder \<Rightarrow> (int, int) order \<times> memStorage" where
  "Mem_createOrder now s insertOrder =
     (let id' = orderIdCounter s;
          order = \<lparr>id_o = id', userId_o = userId_io insertOrder, items_o = items_io insertOrder,
                   status_o = ''pending'', total_o = total_io insertOrder,
                   createdAt_o = Some now, address_o = address_io insertOrder,
                   paymentId_o = paymentId_io insertOrder\<rparr>
      in (order, s\<lparr>orderIdCounter := id' + 1, orders := Map_set id' order (orders s)\<rparr>))"

definition Mem_getOrderById :: "memStorage \<Rightarrow> int \<Rightarrow> (int, int) order option" where
  "Mem_getOrderById s id' = Map_get (orders s) id'"

definition Mem_getOrdersByUserId :: "memStorage \<Rightarrow> int \<Rightarrow> int orderWithItems list" where
  "Mem_getOrdersByUserId s userId =
     map (\<lambda>order.
            \<lparr>id_w = id_o order, userId_w = userId_o order,
             items_w = map (\<lambda>item. \<lparr>menuItem_d = Mem_getMenuItemById s (menuItemId_oi item),
                                      quantity_d = quantity_oi item\<rparr>) (items_o order),
             status_w = status_o order, total_w = total_o order,
             createdAt_w = createdAt_o order, address_w = address_o order,
             paymentId_w = paymentId_o order\<rparr>)
       (filter (\<lambda>order. userId_o order = userId) (Map_values (orders s)))"

definition Mem_getAllOrders :: "memStorage \<Rightarrow> (int, int) order list" where
  "Mem_getAllOrders s = Map_values (orders s)"

definition Mem_updateOrderStatus ::
  "memStorage \<Rightarrow> int \<Rightarrow> orderStatus \<Rightarrow> (int, int) order option \<times> memStorage" where
  "Mem_updateOrderStatus s id' status =
     (case Map_get (orders s) id' of
        None \<Rightarrow> (None, s)
      | Some order \<Rightarrow>
          (let updatedOrder = order\<lparr>status_o := statusText status\<rparr>
           in (Some updatedOrder, s\<lparr>orders := Map_set id' updatedOrder (orders s)\<rparr>)))"

text \<open>The state a call leaves behind; \<open>now\<close> is the clock of that call.\<close>

fun Mem_exec :: "int \<Rightarrow> int call \<Rightarrow> memStorage \<Rightarrow> memStorage" where
  "Mem_exec now (CreateUser u) s = snd (Mem_createUser s u)"
| "Mem_exec now (CreateMenuItem m) s = snd (Mem_createMenuItem s m)"
| "Mem_exec now (UpdateMenuItem id' m) s = snd (Mem_updateMenuItem s id' m)"
| "Mem_exec now (DeleteMenuItem id') s = snd (Mem_deleteMenuItem s id')"
| "Mem_exec now (AddToCart c) s = snd (Mem_addToCart s c)"
| "Mem_exec now (RemoveFromCart id' userId) s = snd (Mem_removeFromCart s id' userId)"
| "Mem_exec now (UpdateCartItemQuantity id' userId q) s = snd (Mem_updateCartItemQuantity s id' userId q)"
| "Mem_exec now (ClearCart userId) s = snd (Mem_clearCart s userId)"
| "Mem_exec now (CreateOrder ord) s = snd (Mem_createOrder now s ord)"
| "Mem_exec now (UpdateOrderStatus id' st) s = snd (Mem_updateOrderStatus s id' st)"
| "Mem_exec now (GetUser id') s = s"
| "Mem_exec now (GetUserByUsername n) s = s"
| "Mem_exec now GetAllMenuItems s = s"
| "Mem_exec now (GetMenuItemById id') s = s"
| "Mem_exec now (GetMenuItemsByCategory c) s = s"
| "Mem_exec now (GetCartItems userId) s = s"
| "Mem_exec now (GetCartItemsWithDetails userId) s = s"
| "Mem_exec now (GetOrderById id') s = s"
| "Mem_exec now (GetOrdersByUserId userId) s = s"
| "Mem_exec now GetAllOrders s = s"

text \<open>The states any sequence of calls reaches from the empty store.  The seeding of
  the constructor is itself a sequence of \<open>createUser\<close> and
  \<open>createMenuItem\<close> calls.\<close>

inductive Mem_reachable :: "memStorage \<Rightarrow> bool" where
  Mem_init: "Mem_reachable Mem_empty"
| Mem_step: "Mem_reachable s \<Longrightarrow> Mem_reachable (Mem_exec now c s)"

section \<open>Relational backend (DatabaseStorage)\<close>

text \<open>
  A table is the list of its rows, in the order \<open>select\<close> returns them; an insert
  appends, an update rewrites rows in place, a delete filters.  A \<open>serial\<close>
  column draws its value from a sequence that starts at 1; the sequence also advances
  when the insert is rejected.  \<open>users.username\<close> is \<open>unique\<close>: an insert
  that repeats a name is rejected, and the call throws.  An insert value has no
  \<open>rating\<close>, \<open>status\<close> or \<open>createdAt\<close>, so the column defaults
  \<open>0\<close>, \<open>'pending'\<close> and \<open>now()\<close> apply.  A \<open>delete\<close>
  without \<open>returning\<close> resolves to the driver's result object, whatever it
  deleted: \<open>!!result\<close> is \<open>true\<close>.  \<open>cart_items.quantity\<close> is
  an \<open>integer\<close> column, 32 bits wide: a statement that carries a quantity out of
  that range is rejected, nothing is written, and the call throws.  (Identifiers are taken
  within the range of their columns.)
\<close>

record dbStorage =
  users_t :: "int user list"
  menuItems_t :: "int menuItem list"
  cartItems_t :: "int cartItem list"
  orders_t :: "(int, int) order list"
  users_id_seq :: int
  menuItems_id_seq :: int
  cartItems_id_seq :: int
  orders_id_seq :: int

datatype dbError = UniqueViolation | IntegerOutOfRange

definition int4 :: "int \<Rightarrow> bool" where
  "int4 n = (- 2147483648 \<le> n \<and> n \<le> 2147483647)"

definition Db_empty :: dbStorage where
  "Db_empty = \<lparr>users_t = [], menuItems_t = [], cartItems_t = [], orders_t = [],
     users_id_seq = 1, menuItems_id_seq = 1, cartItems_id_seq = 1, orders_id_seq = 1\<rparr>"

definition Db_getUser :: "dbStorage \<Rightarrow> int \<Rightarrow> int user option" where
  "Db_getUser s id' = find (\<lambda>row. id_u row = id') (users_t s)"


definition Db_createUser :: "dbStorage \<Rightarrow> insertUser \<Rightarrow> (dbError + int user) \<times> dbStorage" where
  "Db_createUser s insertUser =
     (let id' = users_id_seq s;
          user = \<lparr>id_u = id', username_u = username_iu insertUser,
                  password_u = password_iu insertUser, name_u = name_iu insertUser,
                  email_u = email_iu insertUser, isAdmin_u = isAdmin_iu insertUser\<rparr>
      in if list_ex (\<lambda>row. username_u row = username_iu insertUser) (users_t s)
         then (Inl UniqueViolation, s\<lparr>users_id_seq := id' + 1\<rparr>)
         else (Inr user, s\<lparr>users_id_seq := id' + 1, users_t := users_t s @ [user]\<rparr>))"

definition Db_getAllMenuItems :: "dbStorage \<Rightarrow> int menuItem list" where
  "Db_getAllMenuItems s = menuItems_t s"

definition Db_getMenuItemById :: "dbStorage \<Rightarrow> int \<Rightarrow> int menuItem option" where
  "Db_getMenuItemById s id' = find (\<lambda>row. id_m row = id') (menuItems_t s)"


definition Db_createMenuItem :: "dbStorage \<Rightarrow> insertMenuItem \<Rightarrow> int menuItem \<times> dbStorage" where
  "Db_createMenuItem s insertMenuItem =
     (let id' = menuItems_id_seq s;
          menuItem = \<lparr>id_m = id', name_m = name_im insertMenuItem,
                      description_m = description_im insertMenuItem,
                      price_m = price_im insertMenuItem, imageUrl_m = imageUrl_im insertMenuItem,
                      category_m = category_im insertMenuItem, rating_m = Some 0,
                      isPopular_m = isPopular_im insertMenuItem\<rparr>
      in (menuItem, s\<lparr>menuItems_id_seq := id' + 1, menuItems_t := menuItems_t s @ [menuItem]\<rparr>))"

definition Db_updateMenuItem ::
  "dbStorage \<Rightarrow> int \<Rightarrow> insertMenuItem \<Rightarrow> int menuItem option \<times> dbStorage" where
  "Db_updateMenuItem s id' insertMenuItem =
     (let rows = map (\<lambda>row. if id_m row = id' then spreadMenuItem row insertMenuItem else row)
                   (menuItems_t s)
      in (find (\<lambda>row. id_m row = id') rows, s\<lparr>menuItems_t := rows\<rparr>))"

definition Db_deleteMenuItem :: "dbStorage \<Rightarrow> int \<Rightarrow> bool \<times> dbStorage" where
  "Db_deleteMenuItem s id' =
     (True, s\<lparr>menuItems_t := filter (\<lambda>row. id_m row \<noteq> id') (menuItems_t s)\<rparr>)"

definition Db_getCartItems :: "dbStorage \<Rightarrow> int \<Rightarrow> int cartItem list" where
  "Db_getCartItems s userId = filter (\<lambda>row. userId_c row = userId) (cartItems_t s)"

definition Db_getCartItemsWithDetails :: "dbStorage \<Rightarrow> int \<Rightarrow> int cartItemWithDetails list" where
  "Db_getCartItemsWithDetails s userId =
     List.map_filter
       (\<lambda>item. case Db_getMenuItemById s (menuItemId_c item) of
                 None \<Rightarrow> None
               | Some menuItem \<Rightarrow> Some \<lparr>item_wd = item, menuItem_wd = Some menuItem\<rparr>)
       (Db_getCartItems s userId)"

definition Db_updateCartItemQuantity ::
  "dbStorage \<Rightarrow> int \<Rightarrow> int \<Rightarrow> int \<Rightarrow> (dbError + int cartItem option) \<times> dbStorage" where
  "Db_updateCartItemQuantity s id' userId quantity =
     (let rows = map (\<lambda>row. if id_c row = id' \<and> userId_c row = userId
                            then row\<lparr>quantity_c := quantity\<rparr> else row) (cartItems_t s)
      in if \<not> int4 quantity then (Inl IntegerOutOfRange, s)
         else (Inr (find (\<lambda>row. id_c row = id' \<and> userId_c row = userId) rows),
               s\<lparr>cartItems_t := rows\<rparr>))"

definition Db_addToCart ::
  "dbStorage \<Rightarrow> int insertCartItem \<Rightarrow> (dbError + int cartItem option) \<times> dbStorage" where
  "Db_addToCart s insertCartItem =
     (case find (\<lambda>row. userId_c row = userId_ic insertCartItem \<and>
                         menuItemId_c row = menuItemId_ic insertCartItem) (cartItems_t s) of
        Some existingCartItem \<Rightarrow>
          Db_updateCartItemQuantity s (id_c existingCartItem) (userId_ic insertCartItem)
            (jsAdd (quantity_c existingCartItem) (quantity_ic insertCartItem))
      | None \<Rightarrow>
          (let id' = cartItems_id_seq s;
               cartItem = \<lparr>id_c = id', userId_c = userId_ic insertCartItem,
                           menuItemId_c = menuItemId_ic insertCartItem,
                           quantity_c = quantity_ic insertCartItem\<rparr>
           in if \<not> int4 (quantity_ic insertCartItem) then (Inl IntegerOutOfRange, s)
              else (Inr (Some cartItem), s\<lparr>cartItems_id_seq := id' + 1,
                                            cartItems_t := cartItems_t s @ [cartItem]\<rparr>)))"

definition Db_removeFromCart :: "dbStorage \<Rightarrow> int \<Rightarrow> int \<Rightarrow> bool \<times> dbStorage" where
  "Db_removeFromCart s id' userId =
     (True, s\<lparr>cartItems_t := filter (\<lambda>row. \<not> (id_c row = id' \<and> userId_c row = userId))
                                  (cartItems_t s)\<rparr>)"

definition Db_clearCart :: "dbStorage \<Rightarrow> int \<Rightarrow> bool \<times> dbStorage" where
  "Db_clearCart s userId =
     (True, s\<lparr>cartItems_t := filter (\<lambda>row. userId_c row \<noteq> userId) (cartItems_t s)\<rparr>)"

definition Db_createOrder ::
  "int \<Rightarrow> dbStorage \<Rightarrow> int insertOrder \<Rightarrow> (int, int) order \<times> dbStorage" where
  "Db_createOrder now s insertOrder =
     (let id' = orders_id_seq s;
          order = \<lparr>id_o = id', userId_o = userId_io insertOrder, items_o = items_io insertOrder,
                   status_o = ''pending'', total_o = total_io insertOrder,
                   createdAt_o = Some now, address_o = address_io insertOrder,
                   paymentId_o = paymentId_io insertOrder\<rparr>
      in (order, s\<lparr>orders_id_seq := id' + 1, orders_t := orders_t s @ [order]\<rparr>))"

definition Db_getOrderById :: "dbStorage \<Rightarrow> int \<Rightarrow> (int, int) order option" where
  "Db_getOrderById s id' = find (\<lambda>row. id_o row = id') (orders_t s)"

definition Db_getOrdersByUserId :: "dbStorage \<Rightarrow> int \<Rightarrow> int orderWithItems list" where
  "Db_getOrdersByUserId s userId =
     map (\<lambda>order.
            \<lparr>id_w = id_o order, userId_w = userId_o order,
             items_w = List.map_filter
                         (\<lambda>item. case Db_getMenuItemById s (menuItemId_oi item) of
                                   None \<Rightarrow> None
                                 | Some menuItem \<Rightarrow>
                                     Some \<lparr>menuItem_d = Some menuItem,
                                           quantity_d = quantity_oi item\<rparr>)
                         (items_o order),
             status_w = status_o order, total_w = total_o order,
             createdAt_w = createdAt_o order, address_w = address_o order,
             paymentId_w = paymentId_o order\<rparr>)
       (filter (\<lambda>row. userId_o row = userId) (orders_t s))"

definition Db_getAllOrders :: "dbStorage \<Rightarrow> (int, int) order list" where
  "Db_getAllOrders s = orders_t s"

definition Db_updateOrderStatus ::
  "dbStorage \<Rightarrow> int \<Rightarrow> orderStatus \<Rightarrow> (int, int) order option \<times> dbStorage" where
  "Db_updateOrderStatus s id' status =
     (let rows = map (\<lambda>row. if id_o row = id' then row\<lparr>status_o := statusText status\<rparr> else row)
                   (orders_t s)
      in (find (\<lambda>row. id_o row = id') rows, s\<lparr>orders_t := rows\<rparr>))"

fun Db_exec :: "int \<Rightarrow> int call \<Rightarrow> dbStorage \<Rightarrow> dbStorage" where
  "Db_exec now (CreateUser u) s = snd (Db_createUser s u)"
| "Db_exec now (CreateMenuItem m) s = snd (Db_createMenuItem s m)"
| "Db_exec now (UpdateMenuItem id' m) s = snd (Db_updateMenuItem s id' m)"
| "Db_exec now (DeleteMenuItem id') s = snd (Db_deleteMenuItem s id')"
| "Db_exec now (AddToCart c) s = snd (Db_addToCart s c)"
| "Db_exec now (RemoveFromCart id' userId) s = snd (Db_removeFromCart s id' userId)"
| "Db_exec now (UpdateCartItemQuantity id' userId q) s = snd (Db_updateCartItemQuantity s id' userId q)"
| "Db_exec now (ClearCart userId) s = snd (Db_clearCart s userId)"
| "Db_exec now (CreateOrder ord) s = snd (Db_createOrder now s ord)"
| "Db_exec now (UpdateOrderStatus id' st) s = snd (Db_updateOrderStatus s id' st)"
| "Db_exec now (GetUser id') s = s"
| "Db_exec now (GetUserByUsername n) s = s"
| "Db_exec now GetAllMenuItems s = s"
| "Db_exec now (GetMenuItemById id') s = s"
| "Db_exec now (GetMenuItemsByCategory c) s = s"
| "Db_exec now (GetCartItems userId) s = s"
| "Db_exec now (GetCartItemsWithDetails userId) s = s"
| "Db_exec now (GetOrderById id') s = s"
| "Db_exec now (GetOrdersByUserId userId) s = s"
| "Db_exec now GetAllOrders s = s"

inductive Db_reachable :: "dbStorage \<Rightarrow> bool" where
  Db_init: "Db_reachable Db_empty"
| Db_step: "Db_reachable s \<Longrightarrow> Db_reachable (Db_exec now c s)"

section \<open>Document-store backend (MongoStorage)\<close>

text \<open>
  Modelled from the spec: the document schemas and models (\<open>server/mongo-db\<close>:
  \<open>User\<close>, \<open>MenuItem\<close>, \<open>CartItem\<close>, \<open>Order\<close>) are not in the
  sources.  The spec calls this backend a collection-backed store with identifier
  translation.  A collection is the list of its documents in insertion order; a document
  carries its \<open>_id\<close> (here \<open>oid\<close>) as the string \<open>toString()\<close> renders
  and the fields the code reads and writes.  A reference to a user or a menu item is an
  object identifier; a string handed in where an identifier is expected is cast, and
  the call throws when the string is not 24 hexadecimal digits.  Saving a document
  whose \<open>_id\<close> is taken throws.  Every store call throws while the store is not
  connected.  What the schema defaults for \<open>rating\<close> and the identifier the
  driver generates are parameters of the creating calls.  The \<open>Order\<close> schema
  stamps \<open>createdAt\<close> with the clock when the document is created: the code
  passes no \<open>createdAt\<close> of its own, reads it back from the saved document and
  sorts the orders by it.
\<close>

record userDoc =
  oid_ud :: string
  username_ud :: string
  password_ud :: string
  name_ud :: "string option"
  email_ud :: "string option"
  isAdmin_ud :: "bool option"

record menuItemDoc =
  oid_md :: string
  name_md :: string
  description_md :: string
  price_md :: real
  imageUrl_md :: "string option"
  category_md :: string
  rating_md :: "real option"
  isPopular_md :: "bool option"

record cartItemDoc =
  oid_cd :: string
  userId_cd :: string
  menuItemId_cd :: string
  quantity_cd :: int

record orderDoc =
  oid_od :: string
  userId_od :: string
  items_od :: "string orderItem list"
  status_od :: string
  total_od :: real
  address_od :: "string option"
  paymentId_od :: "string option"
  createdAt_od :: "int option"

record mongoDb =
  User_c :: "userDoc list"
  MenuItem_c :: "menuItemDoc list"
  CartItem_c :: "cartItemDoc list"
  Order_c :: "orderDoc list"
  connected :: bool

datatype mongoError =
  StoreError | CastError | DuplicateKey | UserNotFound | MenuItemNotFound | TypeError

definition Mongo_empty :: mongoDb where
  "Mongo_empty = \<lparr>User_c = [], MenuItem_c = [], CartItem_c = [], Order_c = [], connected = True\<rparr>"

definition castObjectId :: "string \<Rightarrow> mongoError + string" where
  "castObjectId s =
     (if length s = 24 \<and> list_all isHexChar s then Inr (toLowerCase s) else Inl CastError)"

fun updateFirst :: "('a \<Rightarrow> bool) \<Rightarrow> ('a \<Rightarrow> 'a) \<Rightarrow> 'a list \<Rightarrow> 'a list" where
  "updateFirst P f [] = []"
| "updateFirst P f (x # xs) = (if P x then f x # xs else x # updateFirst P f xs)"

fun deleteFirst :: "('a \<Rightarrow> bool) \<Rightarrow> 'a list \<Rightarrow> 'a list" where
  "deleteFirst P [] = []"
| "deleteFirst P (x # xs) = (if P x then xs else x # deleteFirst P xs)"

definition convertUserDocToType :: "userDoc \<Rightarrow> number user" where
  "convertUserDocToType doc =
     \<lparr>id_u = objectIdToNumericId (oid_ud doc), username_u = username_ud doc,
      password_u = password_ud doc, name_u = name_ud doc, email_u = email_ud doc,
      isAdmin_u = isAdmin_ud doc\<rparr>"

definition convertMenuItemDocToType :: "menuItemDoc \<Rightarrow> number menuItem" where
  "convertMenuItemDocToType doc =
     \<lparr>id_m = objectIdToNumericId (oid_md doc), name_m = name_md doc,
      description_m = description_md doc, price_m = price_md doc,
      imageUrl_m = imageUrl_md doc, category_m = category_md doc,
      rating_m = rating_md doc, isPopular_m = isPopular_md doc\<rparr>"

definition convertCartItemDocToType :: "cartItemDoc \<Rightarrow> number cartItem" where
  "convertCartItemDocToType doc =
     \<lparr>id_c = objectIdToNumericId (oid_cd doc), userId_c = objectIdToNumericId (userId_cd doc),
      menuItemId_c = objectIdToNumericId (menuItemId_cd doc), quantity_c = quantity_cd doc\<rparr>"

definition convertOrderDocToType :: "orderDoc \<Rightarrow> (number, string) order" where
  "convertOrderDocToType doc =
     \<lparr>id_o = objectIdToNumericId (oid_od doc), userId_o = objectIdToNumericId (userId_od doc),
      items_o = items_od doc, status_o = status_od doc, total_o = total_od doc,
      createdAt_o = createdAt_od doc, address_o = address_od doc,
      paymentId_o = paymentId_od doc\<rparr>"

text \<open>The loop over \<open>User.find()\<close> that stops at the first user whose numeric id
  is the wanted one, and its twin over \<open>MenuItem.find()\<close>.\<close>

definition findUserByNumericId :: "mongoDb \<Rightarrow> number \<Rightarrow> userDoc option" where
  "findUserByNumericId db userId =
     find (\<lambda>potentialUser. strictEq (objectIdToNumericId (oid_ud potentialUser)) userId) (User_c db)"

definition findMenuItemByNumericId :: "mongoDb \<Rightarrow> number \<Rightarrow> menuItemDoc option" where
  "findMenuItemByNumericId db menuItemId =
     find (\<lambda>item. strictEq (objectIdToNumericId (oid_md item)) menuItemId) (MenuItem_c db)"

text \<open>
  \<open>getUser\<close> as the contract calls it, with a number: the branch for a 24-character
  string is skipped.  The body of the \<open>try\<close> first, then the method with its
  \<open>catch\<close>.
\<close>

definition Mongo_getUser_try :: "mongoDb \<Rightarrow> number \<Rightarrow> mongoError + number user option" where
  "Mongo_getUser_try db id' =
     (if \<not> connected db then Inl StoreError
      else case castObjectId (toStringId id') of
             Inl e \<Rightarrow> Inl e
           | Inr stringId \<Rightarrow>
               (let user = find (\<lambda>doc. oid_ud doc = stringId) (User_c db);
                    user = (case user of
                              Some u \<Rightarrow> Some u
                            | None \<Rightarrow> findUserByNumericId db id')
                in Inr (map_option convertUserDocToType user)))"

definition Mongo_getUser :: "mongoDb \<Rightarrow> number \<Rightarrow> number user option" where
  "Mongo_getUser db id' = (case Mongo_getUser_try db id' of Inl e \<Rightarrow> None | Inr r \<Rightarrow> r)"

definition Mongo_getUserByUsername :: "mongoDb \<Rightarrow> string \<Rightarrow> number user option" where
  "Mongo_getUserByUsername db username =
     (if \<not> connected db then None
      else map_option convertUserDocToType (find (\<lambda>doc. username_ud doc = username) (User_c db)))"

definition Mongo_createUser ::
  "string \<Rightarrow> mongoDb \<Rightarrow> insertUser \<Rightarrow> (mongoError + number user) \<times> mongoDb" where
  "Mongo_createUser oid db insertUser =
     (let newUser = \<lparr>oid_ud = oid, username_ud = username_iu insertUser,
                     password_ud = password_iu insertUser, name_ud = name_iu insertUser,
                     email_ud = email_iu insertUser, isAdmin_ud = isAdmin_iu insertUser\<rparr>
      in if \<not> connected db then (Inl StoreError, db)
         else if list_ex (\<lambda>doc. oid_ud doc = oid) (User_c db) then (Inl DuplicateKey, db)
         else (Inr (convertUserDocToType newUser), db\<lparr>User_c := User_c db @ [newUser]\<rparr>))"

definition Mongo_getAllMenuItems :: "mongoDb \<Rightarrow> number menuItem list" where
  "Mongo_getAllMenuItems db =
     (if \<not> connected db then [] else map convertMenuItemDocToType (MenuItem_c db))"

definition Mongo_getMenuItemById_try ::
  "mongoDb \<Rightarrow> number \<Rightarrow> mongoError + number menuItem option" where
  "Mongo_getMenuItemById_try db id' =
     (if \<not> connected db then Inl StoreError
      else case castObjectId (toStringId id') of
             Inl e \<Rightarrow> Inl e
           | Inr stringId \<Rightarrow>
               Inr (map_option convertMenuItemDocToType
                      (find (\<lambda>doc. oid_md doc = stringId) (MenuItem_c db))))"

definition Mongo_getMenuItemById :: "mongoDb \<Rightarrow> number \<Rightarrow> number menuItem option" where
  "Mongo_getMenuItemById db id' =
     (case Mongo_getMenuItemById_try db id' of Inl e \<Rightarrow> None | Inr r \<Rightarrow> r)"

definition Mongo_getMenuItemsByCategory :: "mongoDb \<Rightarrow> string \<Rightarrow> number menuItem list" where
  "Mongo_getMenuItemsByCategory db category =
     (if \<not> connected db then []
      else map convertMenuItemDocToType (filter (\<lambda>doc. category_md doc = category) (MenuItem_c db)))"

definition Mongo_createMenuItem ::
  "string \<Rightarrow> real option \<Rightarrow> mongoDb \<Rightarrow> insertMenuItem \<Rightarrow> (mongoError + number menuItem) \<times> mongoDb" where
  "Mongo_createMenuItem oid rating db insertMenuItem =
     (let newMenuItem = \<lparr>oid_md = oid, name_md = name_im insertMenuItem,
                         description_md = description_im insertMenuItem,
                         price_md = price_im insertMenuItem,
                         imageUrl_md = imageUrl_im insertMenuItem,
                         category_md = category_im insertMenuItem, rating_md = rating,
                         isPopular_md = isPopular_im insertMenuItem\<rparr>
      in if \<not> connected db then (Inl StoreError, db)
         else if list_ex (\<lambda>doc. oid_md doc = oid) (MenuItem_c db) then (Inl DuplicateKey, db)
         else (Inr (convertMenuItemDocToType newMenuItem),
               db\<lparr>MenuItem_c := MenuItem_c db @ [newMenuItem]\<rparr>))"

definition updateMenuItemDoc :: "menuItemDoc \<Rightarrow> insertMenuItem \<Rightarrow> menuItemDoc" where
  "updateMenuItemDoc doc insertMenuItem =
     doc\<lparr>name_md := name_im insertMenuItem, description_md := description_im insertMenuItem,
         price_md := price_im insertMenuItem, imageUrl_md := imageUrl_im insertMenuItem,
         category_md := category_im insertMenuItem, isPopular_md := isPopular_im insertMenuItem\<rparr>"

definition Mongo_updateMenuItem ::
  "mongoDb \<Rightarrow> number \<Rightarrow> insertMenuItem \<Rightarrow> number menuItem option \<times> mongoDb" where
  "Mongo_updateMenuItem db id' insertMenuItem =
     (if \<not> connected db then (None, db)
      else case castObjectId (toStringId id') of
             Inl e \<Rightarrow> (None, db)
           | Inr stringId \<Rightarrow>
               (case find (\<lambda>doc. oid_md doc = stringId) (MenuItem_c db) of
                  None \<Rightarrow> (None, db)
                | Some doc \<Rightarrow>
                    (Some (convertMenuItemDocToType (updateMenuItemDoc doc insertMenuItem)),
                     db\<lparr>MenuItem_c := updateFirst (\<lambda>doc. oid_md doc = stringId)
                                          (\<lambda>doc. updateMenuItemDoc doc insertMenuItem)
                                          (MenuItem_c db)\<rparr>)))"

definition Mongo_deleteMenuItem :: "mongoDb \<Rightarrow> number \<Rightarrow> bool \<times> mongoDb" where
  "Mongo_deleteMenuItem db id' =
     (if \<not> connected db then (False, db)
      else case castObjectId (toStringId id') of
             Inl e \<Rightarrow> (False, db)
           | Inr stringId \<Rightarrow>
               (find (\<lambda>doc. oid_md doc = stringId) (MenuItem_c db) \<noteq> None,
                db\<lparr>MenuItem_c := deleteFirst (\<lambda>doc. oid_md doc = stringId) (MenuItem_c db)\<rparr>))"

text \<open>
  Modelled from the spec: the \<open>CartItem\<close> schema is not in the sources.  A stored
  \<open>userId\<close> is a user's object identifier (\<open>addToCart\<close> stores
  \<open>user._id\<close>), which no number equals: the second query of
  \<open>getCartItems\<close>, by the bare number, selects no document.
\<close>

definition CartItem_find_numericUserId :: "mongoDb \<Rightarrow> number \<Rightarrow> cartItemDoc list" where
  "CartItem_find_numericUserId db userId = []"

definition Mongo_getCartItems_try :: "mongoDb \<Rightarrow> number \<Rightarrow> mongoError + number cartItem list" where
  "Mongo_getCartItems_try db userId =
     (if \<not> connected db then Inl StoreError
      else case castObjectId (toStringId userId) of
             Inl e \<Rightarrow> Inl e
           | Inr stringUserId \<Rightarrow>
               (let cartItems = filter (\<lambda>doc. userId_cd doc = stringUserId) (CartItem_c db);
                    cartItems = (if length cartItems = 0
                                 then CartItem_find_numericUserId db userId else cartItems)
                in Inr (map convertCartItemDocToType cartItems)))"

definition Mongo_getCartItems :: "mongoDb \<Rightarrow> number \<Rightarrow> number cartItem list" where
  "Mongo_getCartItems db userId =
     (case Mongo_getCartItems_try db userId of Inl e \<Rightarrow> [] | Inr r \<Rightarrow> r)"

text \<open>\<open>insertCartItem.quantity || 1\<close>: 0 is falsy.\<close>

definition quantityOr1 :: "int \<Rightarrow> int" where
  "quantityOr1 q = (if q = 0 then 1 else q)"

text \<open>\<open>addToCart\<close> rethrows what its \<open>try\<close> block throws;
  \<open>findByIdAndUpdate\<close> answers \<open>null\<close> when no document has the identifier,
  and converting \<open>null\<close> throws.\<close>

definition Mongo_addToCart ::
  "string \<Rightarrow> mongoDb \<Rightarrow> number insertCartItem \<Rightarrow> (mongoError + number cartItem) \<times> mongoDb" where
  "Mongo_addToCart oid db insertCartItem =
     (if \<not> connected db then (Inl StoreError, db)
      else case findUserByNumericId db (userId_ic insertCartItem) of
        None \<Rightarrow> (Inl UserNotFound, db)
      | Some user \<Rightarrow>
         (case findMenuItemByNumericId db (menuItemId_ic insertCartItem) of
            None \<Rightarrow> (Inl MenuItemNotFound, db)
          | Some menuItem \<Rightarrow>
             (case find (\<lambda>doc. userId_cd doc = oid_ud user \<and> menuItemId_cd doc = oid_md menuItem)
                     (CartItem_c db) of
                Some existingCartItem \<Rightarrow>
                  (let quantity = jsAdd (quantity_cd existingCartItem)
                                    (quantityOr1 (quantity_ic insertCartItem))
                   in case find (\<lambda>doc. oid_cd doc = oid_cd existingCartItem) (CartItem_c db) of
                        None \<Rightarrow> (Inl TypeError, db)
                      | Some doc \<Rightarrow>
                          (Inr (convertCartItemDocToType (doc\<lparr>quantity_cd := quantity\<rparr>)),
                           db\<lparr>CartItem_c := updateFirst (\<lambda>doc. oid_cd doc = oid_cd existingCartItem)
                                                (\<lambda>doc. doc\<lparr>quantity_cd := quantity\<rparr>)
                                                (CartItem_c db)\<rparr>))
              | None \<Rightarrow>
                  (let newCartItem = \<lparr>oid_cd = oid, userId_cd = oid_ud user,
                                      menuItemId_cd = oid_md menuItem,
                                      quantity_cd = quantityOr1 (quantity_ic insertCartItem)\<rparr>
                   in if list_ex (\<lambda>doc. oid_cd doc = oid) (CartItem_c db)
                      then (Inl DuplicateKey, db)
                      else (Inr (convertCartItemDocToType newCartItem),
                            db\<lparr>CartItem_c := CartItem_c db @ [newCartItem]\<rparr>)))))"

definition Mongo_removeFromCart :: "mongoDb \<Rightarrow> number \<Rightarrow> number \<Rightarrow> bool \<times> mongoDb" where
  "Mongo_removeFromCart db id' userId =
     (if \<not> connected db then (False, db)
      else case findUserByNumericId db userId of
        None \<Rightarrow> (False, db)
      | Some user \<Rightarrow>
         (case find (\<lambda>item. strictEq (objectIdToNumericId (oid_cd item)) id')
                 (filter (\<lambda>doc. userId_cd doc = oid_ud user) (CartItem_c db)) of
            Some item \<Rightarrow>
              (True, db\<lparr>CartItem_c := deleteFirst (\<lambda>doc. oid_cd doc = oid_cd item) (CartItem_c db)\<rparr>)
          | None \<Rightarrow> (False, db)))"

definition Mongo_updateCartItemQuantity ::
  "mongoDb \<Rightarrow> number \<Rightarrow> number \<Rightarrow> int \<Rightarrow> number cartItem option \<times> mongoDb" where
  "Mongo_updateCartItemQuantity db id' userId quantity =
     (if \<not> connected db then (None, db)
      else case findUserByNumericId db userId of
        None \<Rightarrow> (None, db)
      | Some user \<Rightarrow>
         (case find (\<lambda>item. strictEq (objectIdToNumericId (oid_cd item)) id')
                 (filter (\<lambda>doc. userId_cd doc = oid_ud user) (CartItem_c db)) of
            None \<Rightarrow> (None, db)
          | Some targetCartItem \<Rightarrow>
              (map_option (\<lambda>doc. convertCartItemDocToType (doc\<lparr>quantity_cd := quantity\<rparr>))
                 (find (\<lambda>doc. oid_cd doc = oid_cd targetCartItem) (CartItem_c db)),
               db\<lparr>CartItem_c := updateFirst (\<lambda>doc. oid_cd doc = oid_cd targetCartItem)
                                    (\<lambda>doc. doc\<lparr>quantity_cd := quantity\<rparr>) (CartItem_c db)\<rparr>)))"

definition Mongo_clearCart :: "mongoDb \<Rightarrow> number \<Rightarrow> bool \<times> mongoDb" where
  "Mongo_clearCart db userId =
     (if \<not> connected db then (False, db)
      else case findUserByNumericId db userId of
        None \<Rightarrow> (False, db)
      | Some user \<Rightarrow>
          (True, db\<lparr>CartItem_c := filter (\<lambda>doc. userId_cd doc \<noteq> oid_ud user) (CartItem_c db)\<rparr>))"

text \<open>Modelled from the spec: the \<open>Order\<close> schema is not in the sources;
  \<open>createdAt\<close> is what it is taken to assign, the clock reading \<open>now\<close>
  of the call.  The rest is the code: the identifiers rewritten as padded strings, the
  status \<open>'pending'\<close>, and \<open>createOrder\<close> rethrowing what its
  \<open>try\<close> block throws.\<close>

definition Mongo_createOrder ::
  "string \<Rightarrow> int \<Rightarrow> mongoDb \<Rightarrow> number insertOrder
     \<Rightarrow> (mongoError + (number, string) order) \<times> mongoDb" where
  "Mongo_createOrder oid now db insertOrder =
     (let stringUserId = toStringId (userId_io insertOrder);
          items = map (\<lambda>item. \<lparr>menuItemId_oi = toStringId (menuItemId_oi item),
                                 quantity_oi = quantity_oi item\<rparr>) (items_io insertOrder);
          newOrder = \<lparr>oid_od = oid, userId_od = stringUserId, items_od = items,
                      status_od = ''pending'', total_od = total_io insertOrder,
                      address_od = address_io insertOrder,
                      paymentId_od = paymentId_io insertOrder, createdAt_od = Some now\<rparr>
      in if \<not> connected db then (Inl StoreError, db)
         else if castObjectId stringUserId = Inl CastError
                 \<or> list_ex (\<lambda>item. castObjectId (menuItemId_oi item) = Inl CastError) items
         then (Inl CastError, db)
         else if list_ex (\<lambda>doc. oid_od doc = oid) (Order_c db) then (Inl DuplicateKey, db)
         else (Inr (convertOrderDocToType newOrder), db\<lparr>Order_c := Order_c db @ [newOrder]\<rparr>))"

definition Mongo_getOrderById :: "mongoDb \<Rightarrow> number \<Rightarrow> (number, string) order option" where
  "Mongo_getOrderById db id' =
     (if \<not> connected db then None
      else case castObjectId (toStringId id') of
             Inl e \<Rightarrow> None
           | Inr stringId \<Rightarrow>
               map_option convertOrderDocToType (find (\<lambda>doc. oid_od doc = stringId) (Order_c db)))"

definition Mongo_updateOrderStatus ::
  "mongoDb \<Rightarrow> number \<Rightarrow> orderStatus \<Rightarrow> (number, string) order option \<times> mongoDb" where
  "Mongo_updateOrderStatus db id' status =
     (if \<not> connected db then (None, db)
      else case castObjectId (toStringId id') of
             Inl e \<Rightarrow> (None, db)
           | Inr stringId \<Rightarrow>
               (map_option (\<lambda>doc. convertOrderDocToType (doc\<lparr>status_od := statusText status\<rparr>))
                  (find (\<lambda>doc. oid_od doc = stringId) (Order_c db)),
                db\<lparr>Order_c := updateFirst (\<lambda>doc. oid_od doc = stringId)
                                   (\<lambda>doc. doc\<lparr>status_od := statusText status\<rparr>) (Order_c db)\<rparr>))"

text \<open>
  \<open>sort({ createdAt: -1 })\<close>: the newest first, a document without
  \<open>createdAt\<close> last; documents of the same time stay in insertion order (the store
  promises no order among them).
\<close>

fun newerOrSame :: "int option \<Rightarrow> int option \<Rightarrow> bool" where
  "newerOrSame (Some a) (Some b) = (b \<le> a)"
| "newerOrSame (Some a) None = True"
| "newerOrSame None (Some b) = False"
| "newerOrSame None None = True"

fun insertNewest :: "orderDoc \<Rightarrow> orderDoc list \<Rightarrow> orderDoc list" where
  "insertNewest x [] = [x]"
| "insertNewest x (y # ys) =
     (if newerOrSame (createdAt_od x) (createdAt_od y) then x # y # ys else y # insertNewest x ys)"

definition sortNewestFirst :: "orderDoc list \<Rightarrow> orderDoc list" where
  "sortNewestFirst docs = foldr insertNewest docs []"

text \<open>\<open>getOrdersByUserId\<close> parses the last six characters of each stored menu item
  identifier and asks \<open>getMenuItemById\<close>, which answers \<open>undefined\<close> both
  when it fails and when it finds nothing; such an item is left out.\<close>

definition Mongo_getOrdersByUserId :: "mongoDb \<Rightarrow> number \<Rightarrow> number orderWithItems list" where
  "Mongo_getOrdersByUserId db userId =
     (if \<not> connected db then []
      else case castObjectId (toStringId userId) of
             Inl e \<Rightarrow> []
           | Inr stringUserId \<Rightarrow>
               map (\<lambda>order.
                      \<lparr>id_w = id_o (convertOrderDocToType order),
                       userId_w = userId_o (convertOrderDocToType order),
                       items_w = List.map_filter
                                   (\<lambda>item. case Mongo_getMenuItemById db
                                                  (parseInt16 (substring (menuItemId_oi item)
                                                     (length (menuItemId_oi item) - 6))) of
                                             None \<Rightarrow> None
                                           | Some menuItem \<Rightarrow>
                                               Some \<lparr>menuItem_d = Some menuItem,
                                                     quantity_d = quantity_oi item\<rparr>)
                                   (items_od order),
                       status_w = status_o (convertOrderDocToType order),
                       total_w = total_o (convertOrderDocToType order),
                       createdAt_w = createdAt_o (convertOrderDocToType order),
                       address_w = address_o (convertOrderDocToType order),
                       paymentId_w = paymentId_o (convertOrderDocToType order)\<rparr>)
                 (sortNewestFirst (filter (\<lambda>doc. userId_od doc = stringUserId) (Order_c db))))"

definition Mongo_getAllOrders :: "mongoDb \<Rightarrow> (number, string) order list" where
  "Mongo_getAllOrders db =
     (if \<not> connected db then [] else map convertOrderDocToType (sortNewestFirst (Order_c db)))"

text \<open>
  \<open>getCartItemsWithDetails\<close>.  \<open>populate('menuItemId')\<close> puts the menu item
  document in the place of the reference to it, or \<open>null\<close> when no document has
  that identifier.  \<open>convertCartItemDocToType\<close> then reads the cart item's
  \<open>menuItemId\<close> off the last six characters of the string the populated document
  renders as (\<open>documentToString\<close>, a parameter), and off \<open>null\<close> as 0.
\<close>

definition Mongo_getCartItemsWithDetails ::
  "(menuItemDoc \<Rightarrow> string) \<Rightarrow> mongoDb \<Rightarrow> number \<Rightarrow> number cartItemWithDetails list" where
  "Mongo_getCartItemsWithDetails documentToString db userId =
     (if \<not> connected db then []
      else case findUserByNumericId db userId of
        None \<Rightarrow> []
      | Some user \<Rightarrow>
          List.map_filter
            (\<lambda>item.
               let populated = find (\<lambda>doc. oid_md doc = menuItemId_cd item) (MenuItem_c db);
                   cartItemDoc =
                     \<lparr>id_c = objectIdToNumericId (oid_cd item),
                      userId_c = objectIdToNumericId (userId_cd item),
                      menuItemId_c =
                        (case populated of
                           None \<Rightarrow> Num 0
                         | Some doc \<Rightarrow>
                             parseInt16 (substring (documentToString doc)
                                           (length (documentToString doc) - 6))),
                      quantity_c = quantity_cd item\<rparr>;
                   menuItem = (case populated of
                                 Some doc \<Rightarrow> Some (convertMenuItemDocToType doc)
                               | None \<Rightarrow> Mongo_getMenuItemById db (menuItemId_c cartItemDoc))
               in map_option (\<lambda>menuItem. \<lparr>item_wd = cartItemDoc, menuItem_wd = Some menuItem\<rparr>)
                    menuItem)
            (filter (\<lambda>doc. userId_cd doc = oid_ud user) (CartItem_c db)))"

text \<open>The state a call leaves behind.  \<open>oid\<close> is the identifier the driver
  generates for a new document, \<open>rating\<close> what the schema defaults,
  \<open>now\<close> the clock of the call.\<close>

fun Mongo_exec :: "string \<Rightarrow> real option \<Rightarrow> int \<Rightarrow> number call \<Rightarrow> mongoDb \<Rightarrow> mongoDb" where
  "Mongo_exec oid rating now (CreateUser u) db = snd (Mongo_createUser oid db u)"
| "Mongo_exec oid rating now (CreateMenuItem m) db = snd (Mongo_createMenuItem oid rating db m)"
| "Mongo_exec oid rating now (UpdateMenuItem id' m) db = snd (Mongo_updateMenuItem db id' m)"
| "Mongo_exec oid rating now (DeleteMenuItem id') db = snd (Mongo_deleteMenuItem db id')"
| "Mongo_exec oid rating now (AddToCart c) db = snd (Mongo_addToCart oid db c)"
| "Mongo_exec oid rating now (RemoveFromCart id' userId) db = snd (Mongo_removeFromCart db id' userId)"
| "Mongo_exec oid rating now (UpdateCartItemQuantity id' userId q) db =
     snd (Mongo_updateCartItemQuantity db id' userId q)"
| "Mongo_exec oid rating now (ClearCart userId) db = snd (Mongo_clearCart db userId)"
| "Mongo_exec oid rating now (CreateOrder ord) db = snd (Mongo_createOrder oid now db ord)"
| "Mongo_exec oid rating now (UpdateOrderStatus id' st) db = snd (Mongo_updateOrderStatus db id' st)"
| "Mongo_exec oid rating now (GetUser id') db = db"
| "Mongo_exec oid rating now (GetUserByUsername n) db = db"
| "Mongo_exec oid rating now GetAllMenuItems db = db"
| "Mongo_exec oid rating now (GetMenuItemById id') db = db"
| "Mongo_exec oid rating now (GetMenuItemsByCategory c) db = db"
| "Mongo_exec oid rating now (GetCartItems userId) db = db"
| "Mongo_exec oid rating now (GetCartItemsWithDetails userId) db = db"
| "Mongo_exec oid rating now (GetOrderById id') db = db"
| "Mongo_exec oid rating now (GetOrdersByUserId userId) db = db"
| "Mongo_exec oid rating now GetAllOrders db = db"

text \<open>The states any sequence of calls reaches from the empty store, the connection
  going down and coming back at any moment; the driver generates well-formed
  identifiers.\<close>

inductive Mongo_reachable :: "mongoDb \<Rightarrow> bool" where
  Mongo_init: "Mongo_reachable Mongo_empty"
| Mongo_step: "Mongo_reachable db \<Longrightarrow> isObjectId oid
                 \<Longrightarrow> Mongo_reachable (Mongo_exec oid rating now c db)"
| Mongo_connection: "Mongo_reachable db \<Longrightarrow> Mongo_reachable (db\<lparr>connected := b\<rparr>)"

text \<open>
  The same with the identifiers as they occur.  An identifier the driver generates starts
  with the time of its creation, in seconds since 1970: eight hexadecimal digits that are
  not all zero.  An identifier a caller passes is \<open>NaN\<close> or an integer that a
  JavaScript number holds exactly (\<open>Number.isSafeInteger\<close>).
\<close>

definition driverId :: "string \<Rightarrow> bool" where
  "driverId oid = (isObjectId oid \<and> take 8 oid \<noteq> replicate 8 (CHR ''0''))"

definition safeIntegerOrNaN :: "number \<Rightarrow> bool" where
  "safeIntegerOrNaN x = (case x of Num n \<Rightarrow> safeInteger n | NaN \<Rightarrow> True)"

fun callIds :: "'n call \<Rightarrow> 'n list" where
  "callIds (GetUser id') = [id']"
| "callIds (GetMenuItemById id') = [id']"
| "callIds (UpdateMenuItem id' m) = [id']"
| "callIds (DeleteMenuItem id') = [id']"
| "callIds (GetCartItems userId) = [userId]"
| "callIds (GetCartItemsWithDetails userId) = [userId]"
| "callIds (AddToCart c) = [userId_ic c, menuItemId_ic c]"
| "callIds (RemoveFromCart id' userId) = [id', userId]"
| "callIds (UpdateCartItemQuantity id' userId q) = [id', userId]"
| "callIds (ClearCart userId) = [userId]"
| "callIds (CreateOrder ord) = userId_io ord # map menuItemId_oi (items_io ord)"
| "callIds (GetOrderById id') = [id']"
| "callIds (GetOrdersByUserId userId) = [userId]"
| "callIds (UpdateOrderStatus id' st) = [id']"
| "callIds (GetUserByUsername n) = []"
| "callIds (CreateUser u) = []"
| "callIds GetAllMenuItems = []"
| "callIds (GetMenuItemsByCategory c) = []"
| "callIds (CreateMenuItem m) = []"
| "callIds GetAllOrders = []"

inductive Mongo_session :: "mongoDb \<Rightarrow> bool" where
  Session_init: "Mongo_session Mongo_empty"
| Session_step: "Mongo_session db \<Longrightarrow> driverId oid \<Longrightarrow> list_all safeIntegerOrNaN (callIds c)
                 \<Longrightarrow> Mongo_session (Mongo_exec oid rating now c db)"
| Session_connection: "Mongo_session db \<Longrightarrow> Mongo_session (db\<lparr>connected := b\<rparr>)"

section \<open>Invariants of the reachable states\<close>

text \<open>Every entry of a map of the in-memory store sits under its own id, the keys are
  distinct and below the counter that hands out the next one.\<close>

definition keyed :: "(int \<times> 'v) list \<Rightarrow> ('v \<Rightarrow> int) \<Rightarrow> int \<Rightarrow> bool" where
  "keyed m idOf counter =
     (distinct (map fst m) \<and> list_all (\<lambda>(k, v). idOf v = k \<and> k < counter) m)"

definition Mem_inv :: "memStorage \<Rightarrow> bool" where
  "Mem_inv s =
     (keyed (users s) id_u (userIdCounter s) \<and> keyed (menuItems s) id_m (menuItemIdCounter s) \<and>
      keyed (cartItems s) id_c (cartItemIdCounter s) \<and> keyed (orders s) id_o (orderIdCounter s))"

text \<open>The ids of a table of the relational store are below the next value of its
  sequence.\<close>

definition Db_inv :: "dbStorage \<Rightarrow> bool" where
  "Db_inv d =
     (list_all (\<lambda>row. id_u row < users_id_seq d) (users_t d) \<and>
      list_all (\<lambda>row. id_m row < menuItems_id_seq d) (menuItems_t d) \<and>
      list_all (\<lambda>row. id_c row < cartItems_id_seq d) (cartItems_t d) \<and>
      list_all (\<lambda>row. id_o row < orders_id_seq d) (orders_t d))"

text \<open>The (user, menu item) pair of a cart row, and of a cart document.\<close>

definition cartKey :: "'n cartItem \<Rightarrow> 'n \<times> 'n" where
  "cartKey item = (userId_c item, menuItemId_c item)"

definition cartDocKey :: "cartItemDoc \<Rightarrow> string \<times> string" where
  "cartDocKey doc = (userId_cd doc, menuItemId_cd doc)"

text \<open>A cart document refers to the first user and to the first menu item that have
  the numeric ids of its two references: the documents \<open>addToCart\<close> finds for
  those ids.\<close>

definition refersFirst :: "userDoc list \<Rightarrow> menuItemDoc list \<Rightarrow> cartItemDoc \<Rightarrow> bool" where
  "refersFirst us ms row =
     (map_option oid_ud
        (find (\<lambda>u. strictEq (objectIdToNumericId (oid_ud u)) (objectIdToNumericId (userId_cd row))) us)
        = Some (userId_cd row) \<and>
      map_option oid_md
        (find (\<lambda>m. strictEq (objectIdToNumericId (oid_md m)) (objectIdToNumericId (menuItemId_cd row))) ms)
        = Some (menuItemId_cd row))"

definition Mongo_cart_inv :: "mongoDb \<Rightarrow> bool" where
  "Mongo_cart_inv db =
     (list_all (refersFirst (User_c db) (MenuItem_c db)) (CartItem_c db) \<and>
      list_all (\<lambda>doc. take 8 (oid_md doc) \<noteq> replicate 8 (CHR ''0'')) (MenuItem_c db))"



text \<open>What the contract says of an update: \<open>updated\<close> is \<open>existing\<close> with the
  fields of the insert value in place of its own; its id and its rating are kept.\<close>

definition fieldsReplaced :: "'n menuItem \<Rightarrow> insertMenuItem \<Rightarrow> 'n menuItem \<Rightarrow> bool" where
  "fieldsReplaced existing m updated =
     (id_m updated = id_m existing \<and> rating_m updated = rating_m existing \<and>
      name_m updated = name_im m \<and> description_m updated = description_im m \<and>
      price_m updated = price_im m \<and> imageUrl_m updated = imageUrl_im m \<and>
      category_m updated = category_im m \<and> isPopular_m updated = isPopular_im m)"


text \<open>What \<open>getOrdersByUserId\<close> reports per item of an order.\<close>

definition orderItemPrices :: "'n orderWithItems \<Rightarrow> real option list" where
  "orderItemPrices ord = map (\<lambda>d. map_option price_m (menuItem_d d)) (items_w ord)"

definition orderItemQuantities :: "'n orderWithItems \<Rightarrow> int list" where
  "orderItemQuantities ord = map quantity_d (items_w ord)"

section \<open>Sample data\<close>

text \<open>The admin user and two of the menu items the constructor seeds (their image URLs
  left out), a cart line and an order for them, and the stores a short session leaves
  behind.\<close>

definition adminUser :: insertUser where
  "adminUser = \<lparr>username_iu = ''admin'', password_iu = ''admin_password'',
     name_iu = Some ''Admin User'', email_iu = Some ''admin@quickbite.com'',
     isAdmin_iu = Some True\<rparr>"

definition pepperoniPizza :: insertMenuItem where
  "pepperoniPizza = \<lparr>name_im = ''Pepperoni Pizza'',
     description_im = ''Classic pepperoni pizza with mozzarella and our special sauce'',
     price_im = 12.99, imageUrl_im = None, category_im = ''Pizza'', isPopular_im = Some True\<rparr>"

definition margheritaPizza :: insertMenuItem where
  "margheritaPizza = \<lparr>name_im = ''Margherita Pizza'',
     description_im = ''Classic pizza with tomato sauce, mozzarella cheese, and fresh basil'',
     price_im = 11.99, imageUrl_im = None, category_im = ''Pizza'', isPopular_im = Some False\<rparr>"

definition sampleCartItem :: "int insertCartItem" where
  "sampleCartItem = \<lparr>userId_ic = 1, menuItemId_ic = 1, quantity_ic = 2\<rparr>"

definition sampleOrder :: "int insertOrder" where
  "sampleOrder = \<lparr>userId_io = 1, items_io = [\<lparr>menuItemId_oi = 1, quantity_oi = 2\<rparr>],
     total_io = 28.97, address_io = Some ''1 Main Street'', paymentId_io = None\<rparr>"

definition sampleCalls :: "int call list" where
  "sampleCalls = [CreateUser adminUser, CreateMenuItem pepperoniPizza,
     AddToCart sampleCartItem, CreateOrder sampleOrder]"

definition memSample :: memStorage where
  "memSample = foldl (\<lambda>s c. Mem_exec 1000 c s) Mem_empty sampleCalls"

definition dbSample :: dbStorage where
  "dbSample = foldl (\<lambda>s c. Db_exec 1000 c s) Db_empty sampleCalls"

text \<open>The document store after it has saved the admin user and the pizza under
  identifiers as the driver generates them.\<close>

definition mongoSample :: mongoDb where
  "mongoSample =
     Mongo_exec ''507f1f77bcf86cd799439012'' (Some 0) 1000 (CreateMenuItem pepperoniPizza)
       (Mongo_exec ''507f1f77bcf86cd799439011'' (Some 0) 1000 (CreateUser adminUser) Mongo_empty)"


definition mongoOrder :: "number insertOrder" where
  "mongoOrder = \<lparr>userId_io = Num 4427793,
     items_io = [\<lparr>menuItemId_oi = Num 4427794, quantity_oi = 2\<rparr>],
     total_io = 28.97, address_io = Some ''1 Main Street'', paymentId_io = None\<rparr>"

definition mongoCartItem :: "number insertCartItem" where
  "mongoCartItem = \<lparr>userId_ic = Num 4427793, menuItemId_ic = Num 4427794, quantity_ic = 2\<rparr>"

definition mongoCartSample :: mongoDb where
  "mongoCartSample = Mongo_exec ''507f1f77bcf86cd799439013'' (Some 0) 1000 (AddToCart mongoCartItem) mongoSample"

text \<open>A session of the document store in which the driver's first identifier for a
  menu item has no creation time: the item is one \<open>deleteMenuItem\<close> finds, and a
  second menu item shares its last six digits.\<close>

definition mongoZeroPrefixed :: mongoDb where
  "mongoZeroPrefixed =
     Mongo_exec ''507f1f77bcf86cd799439014'' (Some 0) 1000 (AddToCart mongoCartItem)
       (Mongo_exec ''507f1f77bcf86cd799439015'' (Some 0) 1000 (DeleteMenuItem (Num 4427794))
         (Mongo_exec ''507f1f77bcf86cd799439013'' (Some 0) 1000 (AddToCart mongoCartItem)
           (Mongo_exec ''507f1f77bcf86cd799439012'' (Some 0) 1000 (CreateMenuItem margheritaPizza)
             (Mongo_exec ''000000000000000000439012'' (Some 0) 1000 (CreateMenuItem pepperoniPizza)
               (Mongo_exec ''507f1f77bcf86cd799439011'' (Some 0) 1000 (CreateUser adminUser)
                  Mongo_empty)))))"





definition mongoDown :: mongoDb where
  "mongoDown = mongoSample\<lparr>connected := False\<rparr>"

section \<open>Identifier translation: facts\<close>

lemma replicate_18: "replicate 18 c = [c, c, c, c, c, c, c, c, c, c, c, c, c, c, c, c, c, c]"
  by (simp add: eval_nat_numeral)

lemma replicate_8: "replicate 8 c = [c, c, c, c, c, c, c, c]"
  by (simp add: eval_nat_numeral)

lemma lowerHex_cases:
  "lowerHex c \<Longrightarrow> isHexChar c \<and> \<not> isWhiteSpace c \<and> c \<noteq> CHR ''-'' \<and> c \<noteq> CHR ''+'' \<and> c \<noteq> CHR ''x'' \<and> c \<noteq> CHR ''X''"
  by (auto simp: lowerHex_def isHexChar_def hexVal_def isWhiteSpace_def)

lemma hexDigit_hexVal: "lowerHex c \<Longrightarrow> \<exists>d<16. hexVal c = Some d \<and> hexDigit d = c"
  by (auto simp: lowerHex_def hexVal_def hexDigit_def)

lemma hexVal_hexDigit: "d < 16 \<Longrightarrow> hexVal (hexDigit d) = Some d \<and> lowerHex (hexDigit d)"
proof -
  assume "d < 16"
  then have "d = 0 \<or> d = 1 \<or> d = 2 \<or> d = 3 \<or> d = 4 \<or> d = 5 \<or> d = 6 \<or> d = 7 \<or> d = 8
     \<or> d = 9 \<or> d = 10 \<or> d = 11 \<or> d = 12 \<or> d = 13 \<or> d = 14 \<or> d = 15" by arith
  then show ?thesis
    by (elim disjE) (simp_all add: hexVal_def hexDigit_def lowerHex_def)
qed

lemma hexValue_snoc: "hexValue (ds @ [c]) = hexValue ds * 16 + (case hexVal c of Some d \<Rightarrow> d | None \<Rightarrow> 0)"
  by (simp add: hexValue_def)

lemma hexValue_bound: "list_all lowerHex ds \<Longrightarrow> hexValue ds < 16 ^ length ds"
proof (induction ds rule: rev_induct)
  case Nil
  then show ?case by (simp add: hexValue_def)
next
  case (snoc c ds)
  then obtain d where d: "d < 16" "hexVal c = Some d" using hexDigit_hexVal by auto
  from snoc have "hexValue ds < 16 ^ length ds" by simp
  then have "hexValue ds * 16 + d < 16 ^ length ds * 16" using d(1) by arith
  then show ?case by (simp add: hexValue_snoc d mult.commute)
qed

lemma toHex_step: "d < 16 \<Longrightarrow> toHex (v * 16 + d) = (if v = 0 then [hexDigit d] else toHex v @ [hexDigit d])"
  by (subst toHex.simps) auto

lemma toHex_small: "d < 16 \<Longrightarrow> toHex d = [hexDigit d]"
  by (subst toHex.simps) simp

lemma toHex_length_pos: "0 < length (toHex n)"
  by (subst toHex.simps) auto

lemma toHex_hexValue:
  "list_all lowerHex ds \<Longrightarrow> ds \<noteq> [] \<Longrightarrow>
     length (toHex (hexValue ds)) \<le> length ds \<and>
     replicate (length ds - length (toHex (hexValue ds))) (CHR ''0'') @ toHex (hexValue ds) = ds"
proof (induction ds rule: rev_induct)
  case Nil
  then show ?case by simp
next
  case (snoc c ds)
  then obtain d where d: "d < 16" "hexVal c = Some d" "hexDigit d = c" using hexDigit_hexVal by auto
  have v: "hexValue (ds @ [c]) = hexValue ds * 16 + d" by (simp add: hexValue_snoc d)
  show ?case
  proof (cases "ds = []")
    case True
    then show ?thesis using d by (simp add: v hexValue_def toHex_small)
  next
    case False
    with snoc have ih: "length (toHex (hexValue ds)) \<le> length ds"
      "replicate (length ds - length (toHex (hexValue ds))) (CHR ''0'') @ toHex (hexValue ds) = ds"
      by simp_all
    show ?thesis
    proof (cases "hexValue ds = 0")
      case True
      have "toHex 0 = ''0''" by (simp add: toHex.simps hexDigit_def)
      with ih(2) True have "ds = replicate (length ds - 1) (CHR ''0'') @ ''0''" by simp
      then have "ds = replicate (length ds) (CHR ''0'')"
        using False by (metis One_nat_def Suc_pred length_greater_0_conv replicate_Suc replicate_append_same)
      then have "replicate (length ds) (CHR ''0'') = ds" by simp
      then show ?thesis using True d by (simp add: v toHex_small)
    next
      case nz: False
      have "toHex (hexValue (ds @ [c])) = toHex (hexValue ds) @ [c]"
        using nz d by (simp add: v toHex_step)
      then show ?thesis using ih by simp
    qed
  qed
qed

lemma parseInt16_lowerHex:
  assumes "list_all lowerHex ds" "ds \<noteq> []"
  shows "parseInt16 ds = Num (int (hexValue ds))"
proof -
  obtain c r where ds: "ds = c # r" using assms(2) by (cases ds) auto
  have c: "lowerHex c" using assms(1) ds by simp
  have all: "\<forall>x\<in>set ds. isHexChar x" using assms(1) lowerHex_cases by (auto simp: list_all_iff)
  have strip: "stripPrefix0x ds = ds"
  proof (cases r)
    case Nil
    then show ?thesis by (simp add: stripPrefix0x_def ds)
  next
    case (Cons c2 r2)
    then have "lowerHex c2" using assms(1) ds by simp
    then have "c2 \<noteq> CHR ''x''" "c2 \<noteq> CHR ''X''" using lowerHex_cases by auto
    then show ?thesis by (simp add: stripPrefix0x_def ds Cons)
  qed
  have tw: "takeWhile isHexChar ds = ds" using all by (simp add: takeWhile_eq_all_conv)
  have pd: "parseDigits16 ds = Some (int (hexValue ds))"
    using assms(2) by (simp add: parseDigits16_def strip tw)
  have dw: "dropWhile isWhiteSpace ds = ds" using lowerHex_cases[OF c] by (simp add: ds)
  show ?thesis
    using lowerHex_cases[OF c] pd unfolding parseInt16_def dw by (simp add: ds)
qed

lemma isObjectId_lowerHex: "isObjectId s = (length s = 24 \<and> list_all lowerHex s)"
  by (simp add: isObjectId_def)

lemma objectId_translate:
  assumes "isObjectId s"
  shows "objectIdToNumericId s = Num (int (hexValue (drop 18 s)))"
    and "hexValue (drop 18 s) < 16 ^ 6"
    and "toStringId (Num (int (hexValue (drop 18 s)))) = replicate 18 (CHR ''0'') @ drop 18 s"
proof -
  let ?b = "drop 18 s"
  from assms have len: "length s = 24" and lh: "list_all lowerHex s"
    by (simp_all add: isObjectId_lowerHex)
  have lb: "length ?b = 6" using len by simp
  have hb: "list_all lowerHex ?b" using lh by (auto simp: list_all_iff dest: in_set_dropD)
  have ne: "?b \<noteq> []" using lb by auto
  show "objectIdToNumericId s = Num (int (hexValue ?b))"
    using len parseInt16_lowerHex[OF hb ne] by (auto simp: objectIdToNumericId_def substring_def)
  show "hexValue ?b < 16 ^ 6" using hexValue_bound[OF hb] lb by simp
  have l: "length (toHex (hexValue ?b)) \<le> 6"
    and r: "replicate (6 - length (toHex (hexValue ?b))) (CHR ''0'') @ toHex (hexValue ?b) = ?b"
    using toHex_hexValue[OF hb ne] by (simp_all only: lb)
  have "replicate (24 - length (toHex (hexValue ?b))) (CHR ''0'')
        = replicate 18 (CHR ''0'') @ replicate (6 - length (toHex (hexValue ?b))) (CHR ''0'')"
    using l by (simp add: replicate_add[symmetric])
  then show "toStringId (Num (int (hexValue ?b))) = replicate 18 (CHR ''0'') @ ?b"
    using r by (simp add: toStringId_def padStart_def toString16_def)
qed

lemma toHex_digits: "list_all lowerHex (toHex n) \<and> hexValue (toHex n) = n \<and> toHex n \<noteq> []"
proof (induction n rule: toHex.induct)
  case (1 n)
  show ?case
  proof (cases "n < 16")
    case True
    then show ?thesis using hexVal_hexDigit[of n]
      by (simp add: toHex_small hexValue_def)
  next
    case False
    have d: "n mod 16 < 16" by simp
    have "toHex n = toHex (n div 16) @ [hexDigit (n mod 16)]"
      using False by (subst toHex.simps) simp
    then show ?thesis using 1[OF False] hexVal_hexDigit[OF d]
      by (simp add: hexValue_snoc)
  qed
qed

lemma toHex_length: "n < 16 ^ k \<Longrightarrow> 0 < k \<Longrightarrow> length (toHex n) \<le> k"
proof (induction n arbitrary: k rule: toHex.induct)
  case (1 n)
  show ?case
  proof (cases "n < 16")
    case True
    then show ?thesis using 1(3) by (simp add: toHex_small)
  next
    case False
    then obtain j where k: "k = Suc j" using 1(3) by (cases k) auto
    have j0: "0 < j" using False 1(2) k by (cases j) auto
    have "n div 16 < 16 ^ j" using 1(2) k by (simp add: less_mult_imp_div_less mult.commute)
    then have "length (toHex (n div 16)) \<le> j" using 1(1)[OF False _ j0] by simp
    moreover have "toHex n = toHex (n div 16) @ [hexDigit (n mod 16)]"
      using False by (subst toHex.simps) simp
    ultimately show ?thesis using k by simp
  qed
qed

lemma hexValue_zeros: "hexValue (replicate k (CHR ''0'') @ ds) = hexValue ds"
proof -
  have z: "hexVal (CHR ''0'') = Some 0" by (simp add: hexVal_def)
  have "hexValue (replicate k (CHR ''0'')) = 0"
  proof (induction k)
    case 0
    show ?case by (simp add: hexValue_def)
  next
    case (Suc k)
    have "hexValue (replicate (Suc k) (CHR ''0'')) = hexValue (replicate k (CHR ''0'') @ ''0'')"
      by (simp add: replicate_append_same)
    then show ?case using Suc by (simp add: hexValue_snoc z del: replicate_Suc)
  qed
  then show ?thesis by (simp add: hexValue_def)
qed

lemma numericId_roundtrip:
  assumes "0 \<le> n" "n < 16 ^ 6"
  shows "isObjectId (toStringId (Num n)) \<and> objectIdToNumericId (toStringId (Num n)) = Num n"
proof -
  let ?h = "toHex (nat n)"
  have lt: "nat n < 16 ^ 6" using assms by (simp add: nat_less_iff)
  have len: "length ?h \<le> 6" using toHex_length[OF lt] by simp
  note dg = toHex_digits[of "nat n"]
  have s: "toStringId (Num n) = replicate (24 - length ?h) (CHR ''0'') @ ?h"
    using assms(1) by (simp add: toStringId_def padStart_def toString16_def)
  have z: "lowerHex (CHR ''0'')" by (simp add: lowerHex_def)
  have oid: "isObjectId (toStringId (Num n))"
    using len dg z by (simp add: s isObjectId_def list_all_iff)
  have d: "drop 18 (toStringId (Num n)) = replicate (6 - length ?h) (CHR ''0'') @ ?h"
    using len by (simp add: s)
  have "objectIdToNumericId (toStringId (Num n)) = Num (int (hexValue (drop 18 (toStringId (Num n)))))"
    using objectId_translate(1)[OF oid] .
  also have "\<dots> = Num n" using dg assms(1) by (simp add: d hexValue_zeros)
  finally show ?thesis using oid by simp
qed

text \<open>
  Claim C1, as the code has it.  For every object identifier \<open>s\<close> (24 lower-case
  hexadecimal digits) \<open>objectIdToNumericId\<close> yields the number \<open>n\<close> its last
  six digits denote, \<open>0 \<le> n < 16\<^sup>6\<close>, and \<open>n.toString(16).padStart(24, '0')\<close>
  is eighteen zeros followed by those six digits.  The round trip gives \<open>s\<close> back
  exactly when the first eighteen digits of \<open>s\<close> are zeros.
\<close>

theorem objectId_roundtrip:
  assumes "isObjectId s"
  shows "\<exists>n. objectIdToNumericId s = Num n \<and> 0 \<le> n \<and> n < 16 ^ 6 \<and>
             toStringId (Num n) = replicate 18 (CHR ''0'') @ drop 18 s \<and>
             (toStringId (Num n) = s \<longleftrightarrow> take 18 s = replicate 18 (CHR ''0''))"
proof -
  let ?n = "int (hexValue (drop 18 s))"
  note t = objectId_translate[OF assms]
  have "(replicate 18 (CHR ''0'') @ drop 18 s = s) = (take 18 s = replicate 18 (CHR ''0''))"
  proof
    assume "replicate 18 (CHR ''0'') @ drop 18 s = s"
    then have "take 18 (replicate 18 (CHR ''0'') @ drop 18 s) = take 18 s" by simp
    then show "take 18 s = replicate 18 (CHR ''0'')" by simp
  next
    assume "take 18 s = replicate 18 (CHR ''0'')"
    then have "replicate 18 (CHR ''0'') @ drop 18 s = take 18 s @ drop 18 s" by simp
    then show "replicate 18 (CHR ''0'') @ drop 18 s = s" by simp
  qed
  moreover have "?n < 16 ^ 6" using t(2) by (metis of_nat_less_iff of_nat_numeral of_nat_power)
  ultimately show ?thesis using t by auto
qed

theorem objectId_roundtrip_witness:
  "isObjectId ''000000000000000000439011'' \<and>
   (\<exists>n. objectIdToNumericId ''000000000000000000439011'' = Num n \<and>
        toStringId (Num n) = ''000000000000000000439011'')"
proof -
  have h: "isObjectId ''000000000000000000439011''"
    by (simp add: isObjectId_def lowerHex_def)
  have z: "take 18 ''000000000000000000439011'' = replicate 18 (CHR ''0'')"
    by (simp add: replicate_18)
  from objectId_roundtrip[OF h] z h show ?thesis by blast
qed

text \<open>The round trip of claim C1 fails on an identifier as the driver generates them.\<close>

theorem objectId_roundtrip_counterexample:
  "isObjectId ''507f1f77bcf86cd799439011'' \<and>
   objectIdToNumericId ''507f1f77bcf86cd799439011'' = Num 4427793 \<and>
   toStringId (Num 4427793) = ''000000000000000000439011'' \<and>
   toStringId (Num 4427793) \<noteq> ''507f1f77bcf86cd799439011''"
proof -
  have a: "isObjectId ''507f1f77bcf86cd799439011''"
    by (simp add: isObjectId_def lowerHex_def)
  have b: "objectIdToNumericId ''507f1f77bcf86cd799439011'' = Num 4427793"
    by (simp add: objectIdToNumericId_def substring_def parseInt16_def parseDigits16_def
        stripPrefix0x_def isHexChar_def hexVal_def hexValue_def isWhiteSpace_def)
  have h: "toString16 (Num 4427793) = ''439011''"
    by (simp add: toString16_def toHex.simps hexDigit_def)
  have c: "toStringId (Num 4427793) = ''000000000000000000439011''"
    unfolding toStringId_def padStart_def h by (simp add: replicate_18)
  show ?thesis using a b c by simp
qed

section \<open>Lists and maps: facts\<close>

lemma find_Some_P: "find P xs = Some x \<Longrightarrow> P x \<and> x \<in> set xs"
  by (induction xs) (auto split: if_splits)

lemma find_map_preserve:
  "(\<And>x. P (g x) = P x) \<Longrightarrow> find P (map g xs) = map_option g (find P xs)"
  by (induction xs) auto

lemma find_None_map_id:
  "find P xs = None \<Longrightarrow> map (\<lambda>x. if P x then g x else x) xs = xs"
  by (induction xs) (auto split: if_splits)


lemma find_append_new:
  "list_all (\<lambda>row. \<not> P row) rows \<Longrightarrow> P x \<Longrightarrow> find P (rows @ [x]) = Some x"
  by (induction rows) auto

lemma find_None_notin: "find P xs = None \<Longrightarrow> x \<in> set xs \<Longrightarrow> \<not> P x"
  by (simp add: find_None_iff)


lemma find_map_proj: "find (\<lambda>x. f x = v) xs = None \<longleftrightarrow> find (\<lambda>y. y = v) (map f xs) = None"
  by (induction xs) auto

lemma list_all_mono_less: "list_all (\<lambda>row. f row < (n::int)) rows \<Longrightarrow> list_all (\<lambda>row. f row < n + 1) rows"
  by (auto simp: list_all_iff)

lemma map_updateFirst_same:
  "(\<And>x. g (f x) = g x) \<Longrightarrow> map g (updateFirst P f xs) = map g xs"
  by (induction xs) auto

lemma distinct_map_deleteFirst:
  "distinct (map g xs) \<Longrightarrow> distinct (map g (deleteFirst P xs))"
proof (induction xs)
  case Nil
  then show ?case by simp
next
  case (Cons x xs)
  have sub: "set (deleteFirst P xs) \<subseteq> set xs" by (induction xs) auto
  from Cons show ?case using sub by auto
qed

lemma update_fresh: "k \<notin> fst ` set m \<Longrightarrow> AList.update k v m = m @ [(k, v)]"
  by (induction m) auto

lemma update_same_image:
  "map_of m k = Some e \<Longrightarrow> g v = g e \<Longrightarrow> map (\<lambda>p. g (snd p)) (AList.update k v m) = map (\<lambda>p. g (snd p)) m"
  by (induction m) (auto split: if_splits)

lemma Map_get_set: "Map_get (Map_set k v m) k' = (if k' = k then Some v else Map_get m k')"
  by (simp add: Map_get_def Map_set_def update_conv')

lemma Map_get_delete: "Map_get (Map_delete k m) k' = (if k' = k then None else Map_get m k')"
  by (simp add: Map_get_def Map_delete_def delete_conv')

lemma Map_delete_filter: "Map_delete k m = filter (\<lambda>(k', v). k' \<noteq> k) m"
  by (induction m) (auto simp: Map_delete_def)

lemma foldl_Map_delete:
  "foldl (\<lambda>m item. Map_delete (f item) m) m xs = filter (\<lambda>(k, v). k \<notin> f ` set xs) m"
proof (induction xs arbitrary: m)
  case Nil
  then show ?case by simp
next
  case (Cons x xs)
  have "foldl (\<lambda>m item. Map_delete (f item) m) m (x # xs)
        = filter (\<lambda>(k, v). k \<notin> f ` set xs) (Map_delete (f x) m)"
    by (simp add: Cons.IH)
  also have "\<dots> = filter (\<lambda>(k, v). k \<notin> f ` set (x # xs)) m"
    unfolding Map_delete_filter filter_filter by (rule filter_cong) auto
  finally show ?case .
qed

lemma keyed_Nil: "keyed [] f n"
  by (simp add: keyed_def)

lemma keyed_fresh: "keyed m f n \<Longrightarrow> k \<in> fst ` set m \<Longrightarrow> k < n"
  by (auto simp: keyed_def list_all_iff)

lemma keyed_set_new:
  assumes "keyed m f n" "f v = n"
  shows "keyed (Map_set n v m) f (n + 1)"
proof -
  have nin: "n \<notin> fst ` set m" using keyed_fresh[OF assms(1)] by blast
  then have "Map_set n v m = m @ [(n, v)]"
    by (induction m) (auto simp: Map_set_def)
  then show ?thesis using assms nin by (auto simp: keyed_def list_all_iff)
qed

lemma keyed_set_old:
  assumes "keyed m f n" "Map_get m k = Some e" "f v = k"
  shows "keyed (Map_set k v m) f n"
proof -
  have kin: "k \<in> fst ` set m" using assms(2) by (auto simp: Map_get_def dest: map_of_SomeD intro: rev_image_eqI)
  have lt: "k < n" using keyed_fresh[OF assms(1) kin] .
  have d: "distinct (map fst (Map_set k v m))"
    using assms(1) by (simp add: keyed_def Map_set_def distinct_update)
  have "set (Map_set k v m) \<subseteq> insert (k, v) (set m)"
    unfolding Map_set_def by (induction m) auto
  then show ?thesis using assms(1,3) lt d by (auto simp: keyed_def list_all_iff)
qed

lemma keyed_delete: "keyed m f n \<Longrightarrow> keyed (Map_delete k m) f n"
  by (auto simp: keyed_def Map_delete_filter list_all_iff distinct_map_filter)

lemma keyed_get: "keyed m f n \<Longrightarrow> Map_get m k = Some v \<Longrightarrow> f v = k \<and> k < n"
  by (auto simp: keyed_def Map_get_def list_all_iff dest!: map_of_SomeD)

lemma keyed_get_iff: "keyed m f n \<Longrightarrow> (Map_get m k = Some v) = ((k, v) \<in> set m)"
  by (auto simp: keyed_def Map_get_def)

lemma keyed_filter: "keyed m f n \<Longrightarrow> keyed (filter P m) f n"
  by (auto simp: keyed_def list_all_iff distinct_map_filter)

section \<open>Invariants: facts\<close>

lemma spreadMenuItem_id [simp]: "id_m (spreadMenuItem e m) = id_m e"
  by (simp add: spreadMenuItem_def)

lemma Mem_inv_updateCartItemQuantity:
  "Mem_inv s \<Longrightarrow> Mem_inv (snd (Mem_updateCartItemQuantity s i u q))"
  by (auto simp: Mem_inv_def Mem_updateCartItemQuantity_def Let_def split: option.splits
      intro!: keyed_set_old dest: keyed_get)

lemma Mem_inv_exec: "Mem_inv s \<Longrightarrow> Mem_inv (Mem_exec now c s)"
proof (cases c)
  case (CreateUser u)
  then show "Mem_inv s \<Longrightarrow> ?thesis"
    by (auto simp: Mem_inv_def Mem_createUser_def Let_def intro!: keyed_set_new)
next
  case (CreateMenuItem m)
  then show "Mem_inv s \<Longrightarrow> ?thesis"
    by (auto simp: Mem_inv_def Mem_createMenuItem_def Let_def intro!: keyed_set_new)
next
  case (UpdateMenuItem i m)
  then show "Mem_inv s \<Longrightarrow> ?thesis"
    by (auto simp: Mem_inv_def Mem_updateMenuItem_def Let_def split: option.splits
        intro!: keyed_set_old dest: keyed_get)
next
  case (DeleteMenuItem i)
  then show "Mem_inv s \<Longrightarrow> ?thesis"
    by (auto simp: Mem_inv_def Mem_deleteMenuItem_def intro!: keyed_delete)
next
  case (AddToCart ins)
  then show "Mem_inv s \<Longrightarrow> ?thesis"
    using Mem_inv_updateCartItemQuantity
    by (auto simp: Mem_addToCart_def Let_def split: option.splits)
       (auto simp: Mem_inv_def intro!: keyed_set_new)
next
  case (RemoveFromCart i u)
  then show "Mem_inv s \<Longrightarrow> ?thesis"
    by (auto simp: Mem_inv_def Mem_removeFromCart_def split: option.splits intro!: keyed_delete)
next
  case (UpdateCartItemQuantity i u q)
  then show "Mem_inv s \<Longrightarrow> ?thesis"
    using Mem_inv_updateCartItemQuantity by simp
next
  case (ClearCart u)
  then show "Mem_inv s \<Longrightarrow> ?thesis"
    by (auto simp: Mem_inv_def Mem_clearCart_def foldl_Map_delete intro!: keyed_filter)
next
  case (CreateOrder ord)
  then show "Mem_inv s \<Longrightarrow> ?thesis"
    by (auto simp: Mem_inv_def Mem_createOrder_def Let_def intro!: keyed_set_new)
next
  case (UpdateOrderStatus i st)
  then show "Mem_inv s \<Longrightarrow> ?thesis"
    by (auto simp: Mem_inv_def Mem_updateOrderStatus_def Let_def split: option.splits
        intro!: keyed_set_old dest: keyed_get)
qed simp_all

lemma Mem_reachable_inv: "Mem_reachable s \<Longrightarrow> Mem_inv s"
proof (induction rule: Mem_reachable.induct)
  case Mem_init
  show ?case by (simp add: Mem_inv_def Mem_empty_def keyed_Nil)
next
  case (Mem_step s now c)
  then show ?case using Mem_inv_exec by blast
qed

lemma Db_inv_exec: "Db_inv d \<Longrightarrow> Db_inv (Db_exec now c d)"
  by (cases c)
     (auto simp: Db_inv_def Db_createUser_def Db_createMenuItem_def Db_updateMenuItem_def
        Db_deleteMenuItem_def Db_addToCart_def Db_removeFromCart_def Db_updateCartItemQuantity_def
        Db_clearCart_def Db_createOrder_def Db_updateOrderStatus_def Let_def list_all_iff
        split: option.splits intro: less_le_trans)

lemma Db_reachable_inv: "Db_reachable d \<Longrightarrow> Db_inv d"
proof (induction rule: Db_reachable.induct)
  case Db_init
  show ?case by (simp add: Db_inv_def Db_empty_def)
next
  case (Db_step s now c)
  then show ?case using Db_inv_exec by blast
qed

section \<open>The sample stores\<close>

lemma memSample_eval:
  "memSample = \<lparr>users = [(1, \<lparr>id_u = 1, username_u = ''admin'', password_u = ''admin_password'',
                      name_u = Some ''Admin User'', email_u = Some ''admin@quickbite.com'',
                      isAdmin_u = Some True\<rparr>)],
     menuItems = [(1, \<lparr>id_m = 1, name_m = ''Pepperoni Pizza'',
        description_m = ''Classic pepperoni pizza with mozzarella and our special sauce'',
        price_m = 12.99, imageUrl_m = None, category_m = ''Pizza'', rating_m = Some 0,
        isPopular_m = Some True\<rparr>)],
     cartItems = [(1, \<lparr>id_c = 1, userId_c = 1, menuItemId_c = 1, quantity_c = 2\<rparr>)],
     orders = [(1, \<lparr>id_o = 1, userId_o = 1, items_o = [\<lparr>menuItemId_oi = 1, quantity_oi = 2\<rparr>],
        status_o = ''pending'', total_o = 28.97, createdAt_o = Some 1000,
        address_o = Some ''1 Main Street'', paymentId_o = None\<rparr>)],
     userIdCounter = 2, menuItemIdCounter = 2, cartItemIdCounter = 2, orderIdCounter = 2\<rparr>"
  by (simp add: memSample_def sampleCalls_def Mem_empty_def Mem_createUser_def Mem_createMenuItem_def
      Mem_addToCart_def Mem_createOrder_def adminUser_def pepperoniPizza_def sampleCartItem_def
      sampleOrder_def Map_set_def Map_values_def Let_def)

lemma dbSample_eval:
  "dbSample = \<lparr>users_t = [\<lparr>id_u = 1, username_u = ''admin'', password_u = ''admin_password'',
                      name_u = Some ''Admin User'', email_u = Some ''admin@quickbite.com'',
                      isAdmin_u = Some True\<rparr>],
     menuItems_t = [\<lparr>id_m = 1, name_m = ''Pepperoni Pizza'',
        description_m = ''Classic pepperoni pizza with mozzarella and our special sauce'',
        price_m = 12.99, imageUrl_m = None, category_m = ''Pizza'', rating_m = Some 0,
        isPopular_m = Some True\<rparr>],
     cartItems_t = [\<lparr>id_c = 1, userId_c = 1, menuItemId_c = 1, quantity_c = 2\<rparr>],
     orders_t = [\<lparr>id_o = 1, userId_o = 1, items_o = [\<lparr>menuItemId_oi = 1, quantity_oi = 2\<rparr>],
        status_o = ''pending'', total_o = 28.97, createdAt_o = Some 1000,
        address_o = Some ''1 Main Street'', paymentId_o = None\<rparr>],
     users_id_seq = 2, menuItems_id_seq = 2, cartItems_id_seq = 2, orders_id_seq = 2\<rparr>"
  by (simp add: dbSample_def sampleCalls_def Db_empty_def Db_createUser_def Db_createMenuItem_def
      Db_addToCart_def Db_createOrder_def adminUser_def pepperoniPizza_def sampleCartItem_def
      sampleOrder_def int4_def Let_def)

lemma mongoSample_eval:
  "mongoSample = \<lparr>User_c = [\<lparr>oid_ud = ''507f1f77bcf86cd799439011'', username_ud = ''admin'',
        password_ud = ''admin_password'', name_ud = Some ''Admin User'',
        email_ud = Some ''admin@quickbite.com'', isAdmin_ud = Some True\<rparr>],
     MenuItem_c = [\<lparr>oid_md = ''507f1f77bcf86cd799439012'', name_md = ''Pepperoni Pizza'',
        description_md = ''Classic pepperoni pizza with mozzarella and our special sauce'',
        price_md = 12.99, imageUrl_md = None, category_md = ''Pizza'', rating_md = Some 0,
        isPopular_md = Some True\<rparr>],
     CartItem_c = [], Order_c = [], connected = True\<rparr>"
  by (simp add: mongoSample_def Mongo_empty_def Mongo_createUser_def Mongo_createMenuItem_def
      adminUser_def pepperoniPizza_def Let_def)

lemma memSample_reachable: "Mem_reachable memSample"
  unfolding memSample_def sampleCalls_def foldl.simps
  by (intro Mem_reachable.intros)

lemma dbSample_reachable: "Db_reachable dbSample"
  unfolding dbSample_def sampleCalls_def foldl.simps
  by (intro Db_reachable.intros)

lemma isObjectId_samples:
  "isObjectId ''507f1f77bcf86cd799439011''" "isObjectId ''507f1f77bcf86cd799439012''"
  by (simp_all add: isObjectId_def lowerHex_def)

lemma mongoSample_reachable: "Mongo_reachable mongoSample"
  unfolding mongoSample_def
  by (intro Mongo_reachable.intros isObjectId_samples)


lemma oid_numeric: "objectIdToNumericId ''507f1f77bcf86cd799439011'' = Num 4427793"
    by (simp add: objectIdToNumericId_def substring_def parseInt16_def parseDigits16_def
        stripPrefix0x_def isHexChar_def hexVal_def hexValue_def isWhiteSpace_def)

lemma oid_numeric2: "objectIdToNumericId ''507f1f77bcf86cd799439012'' = Num 4427794"
    by (simp add: objectIdToNumericId_def substring_def parseInt16_def parseDigits16_def
        stripPrefix0x_def isHexChar_def hexVal_def hexValue_def isWhiteSpace_def)

lemma oid_numeric3: "objectIdToNumericId ''507f1f77bcf86cd799439013'' = Num 4427795"
    by (simp add: objectIdToNumericId_def substring_def parseInt16_def parseDigits16_def
        stripPrefix0x_def isHexChar_def hexVal_def hexValue_def isWhiteSpace_def)

lemma toStringId_4427793: "toStringId (Num 4427793) = ''000000000000000000439011''"
proof -
  have h: "toString16 (Num 4427793) = ''439011''"
    by (simp add: toString16_def toHex.simps hexDigit_def)
  show ?thesis unfolding toStringId_def padStart_def h by (simp add: replicate_18)
qed

lemma toStringId_4427794: "toStringId (Num 4427794) = ''000000000000000000439012''"
proof -
  have h: "toString16 (Num 4427794) = ''439012''"
    by (simp add: toString16_def toHex.simps hexDigit_def)
  show ?thesis unfolding toStringId_def padStart_def h by (simp add: replicate_18)
qed

lemma toStringId_4427795: "toStringId (Num 4427795) = ''000000000000000000439013''"
proof -
  have h: "toString16 (Num 4427795) = ''439013''"
    by (simp add: toString16_def toHex.simps hexDigit_def)
  show ?thesis unfolding toStringId_def padStart_def h by (simp add: replicate_18)
qed

lemma toStringId_minus5: "toStringId (Num (- 5)) = ''0000000000000000000000-5''"
proof -
  have h: "toString16 (Num (- 5)) = ''-5''"
    by (simp add: toString16_def toHex.simps hexDigit_def)
  have r: "replicate 22 c = [c, c, c, c, c, c, c, c, c, c, c, c, c, c, c, c, c, c, c, c, c, c]"
    for c :: char by (simp add: eval_nat_numeral)
  show ?thesis unfolding toStringId_def padStart_def h by (simp add: r)
qed

lemma cast_439011: "castObjectId ''000000000000000000439011'' = Inr ''000000000000000000439011''"
  by (simp add: castObjectId_def isHexChar_def hexVal_def toLowerCase_def upperCaseLetters_def lowerCaseLetters_def)

lemma cast_439012: "castObjectId ''000000000000000000439012'' = Inr ''000000000000000000439012''"
  by (simp add: castObjectId_def isHexChar_def hexVal_def toLowerCase_def upperCaseLetters_def lowerCaseLetters_def)

lemma cast_439013: "castObjectId ''000000000000000000439013'' = Inr ''000000000000000000439013''"
  by (simp add: castObjectId_def isHexChar_def hexVal_def toLowerCase_def upperCaseLetters_def lowerCaseLetters_def)

lemma mongoCartSample_eval:
  "mongoCartSample = mongoSample\<lparr>CartItem_c := [\<lparr>oid_cd = ''507f1f77bcf86cd799439013'',
      userId_cd = ''507f1f77bcf86cd799439011'', menuItemId_cd = ''507f1f77bcf86cd799439012'',
      quantity_cd = 2\<rparr>]\<rparr>"
  by (simp add: mongoCartSample_def mongoSample_eval Mongo_addToCart_def mongoCartItem_def
      findUserByNumericId_def findMenuItemByNumericId_def oid_numeric oid_numeric2 strictEq_def
      quantityOr1_def Let_def)

lemma mongoCartSample_reachable: "Mongo_reachable mongoCartSample"
  unfolding mongoCartSample_def
  by (intro Mongo_reachable.intros mongoSample_reachable) (simp add: isObjectId_def lowerHex_def)

lemma driverId_samples:
  "driverId ''507f1f77bcf86cd799439011''" "driverId ''507f1f77bcf86cd799439012''"
  "driverId ''507f1f77bcf86cd799439013''"
  by (simp_all add: driverId_def isObjectId_def lowerHex_def replicate_8)

lemma mongoCartSample_session: "Mongo_session mongoCartSample"
  unfolding mongoCartSample_def mongoSample_def
  by (intro Mongo_session.intros driverId_samples)
     (simp_all add: mongoCartItem_def safeIntegerOrNaN_def safeInteger_def)

section \<open>The cart holds one row per pair\<close>

lemma doubleExponent_small: "a < 9007199254740992 \<Longrightarrow> doubleExponent a = 0"
  by (subst doubleExponent.simps) simp

lemma roundToDouble_exact: "\<bar>n\<bar> \<le> 9007199254740992 \<Longrightarrow> roundToDouble n = n"
proof (cases "\<bar>n\<bar> < 9007199254740992")
  case True
  then have "doubleExponent (nat \<bar>n\<bar>) = 0" by (intro doubleExponent_small) simp
  then show ?thesis by (simp add: roundToDouble_def Let_def sgn_if)
next
  case False
  assume "\<bar>n\<bar> \<le> 9007199254740992"
  with False have a: "n = 9007199254740992 \<or> n = - 9007199254740992" by arith
  have "doubleExponent 9007199254740992 = Suc (doubleExponent 4503599627370496)"
    by (subst doubleExponent.simps) simp
  then have e: "doubleExponent 9007199254740992 = 1" by (simp add: doubleExponent_small)
  from a show ?thesis by (auto simp: roundToDouble_def Let_def e)
qed

lemma jsAdd_exact: "\<bar>x + y\<bar> \<le> 9007199254740992 \<Longrightarrow> jsAdd x y = x + y"
  by (simp add: jsAdd_def roundToDouble_exact)

text \<open>Beyond \<open>2\<^sup>5\<^sup>3\<close> the sum is rounded: \<open>2\<^sup>5\<^sup>3 + 1\<close> is
  \<open>2\<^sup>5\<^sup>3\<close>, and \<open>2\<^sup>5\<^sup>3 + 3\<close> is \<open>2\<^sup>5\<^sup>3 + 4\<close>.\<close>

lemma jsAdd_rounds:
  "jsAdd 9007199254740992 1 = 9007199254740992"
  "jsAdd 9007199254740992 3 = 9007199254740996"
proof -
  have s: "doubleExponent 4503599627370496 = 0" "doubleExponent 4503599627370497 = 0"
    by (simp_all add: doubleExponent_small)
  have "doubleExponent 9007199254740993 = Suc (doubleExponent 4503599627370496)"
    by (subst doubleExponent.simps) simp
  then have e1: "doubleExponent 9007199254740993 = 1" by (simp add: s)
  have "doubleExponent 9007199254740995 = Suc (doubleExponent 4503599627370497)"
    by (subst doubleExponent.simps) simp
  then have e2: "doubleExponent 9007199254740995 = 1" by (simp add: s)
  show "jsAdd 9007199254740992 1 = 9007199254740992"
    by (simp add: jsAdd_def roundToDouble_def Let_def e1)
  show "jsAdd 9007199254740992 3 = 9007199254740996"
    by (simp add: jsAdd_def roundToDouble_def Let_def e2)
qed

lemma Mem_updateCartItemQuantity_keys:
  "map cartKey (Map_values (cartItems (snd (Mem_updateCartItemQuantity s i u q))))
     = map cartKey (Map_values (cartItems s))"
proof (cases "Map_get (cartItems s) i")
  case None
  then show ?thesis by (simp add: Mem_updateCartItemQuantity_def)
next
  case (Some e)
  have "map (\<lambda>p. cartKey (snd p)) (AList.update i (e\<lparr>quantity_c := q\<rparr>) (cartItems s))
        = map (\<lambda>p. cartKey (snd p)) (cartItems s)"
    using Some by (intro update_same_image) (auto simp: Map_get_def cartKey_def)
  then show ?thesis using Some
    by (simp add: Mem_updateCartItemQuantity_def Let_def Map_values_def Map_set_def comp_def)
qed

lemma Mem_cart_unique_exec:
  assumes "Mem_inv s" "distinct (map cartKey (Map_values (cartItems s)))"
  shows "distinct (map cartKey (Map_values (cartItems (Mem_exec now c s))))"
proof (cases c)
  case (AddToCart ins)
  show ?thesis
  proof (cases "find (\<lambda>item. userId_c item = userId_ic ins \<and> menuItemId_c item = menuItemId_ic ins)
                  (Map_values (cartItems s))")
    case None
    let ?n = "cartItemIdCounter s"
    let ?v = "\<lparr>id_c = ?n, userId_c = userId_ic ins, menuItemId_c = menuItemId_ic ins,
               quantity_c = quantity_ic ins\<rparr>"
    have nin: "?n \<notin> fst ` set (cartItems s)"
      using assms(1) keyed_fresh[of "cartItems s" id_c ?n ?n] by (auto simp: Mem_inv_def)
    then have app: "Map_set ?n ?v (cartItems s) = cartItems s @ [(?n, ?v)]"
      by (simp add: Map_set_def update_fresh)
    have "\<forall>x\<in>set (Map_values (cartItems s)).
            \<not> (userId_c x = userId_ic ins \<and> menuItemId_c x = menuItemId_ic ins)"
      using None by (simp add: find_None_iff)
    then have new: "cartKey ?v \<notin> set (map cartKey (Map_values (cartItems s)))"
      by (auto simp: cartKey_def)
    show ?thesis using None AddToCart assms(2) new
      by (simp add: Mem_addToCart_def Let_def app Map_values_def)
  next
    case (Some e)
    then show ?thesis using AddToCart assms(2)
      by (simp add: Mem_addToCart_def Mem_updateCartItemQuantity_keys)
  qed
next
  case (RemoveFromCart i u)
  then show ?thesis using assms(2)
    by (auto simp: Mem_removeFromCart_def Map_delete_filter Map_values_def filter_map[symmetric]
        distinct_map_filter comp_def split: option.splits)
next
  case (UpdateCartItemQuantity i u q)
  then show ?thesis using assms(2) by (simp add: Mem_updateCartItemQuantity_keys)
next
  case (ClearCart u)
  then show ?thesis using assms(2)
    by (auto simp: Mem_clearCart_def foldl_Map_delete Map_values_def distinct_map_filter comp_def)
qed (use assms(2) in \<open>auto simp: Mem_createUser_def Mem_createMenuItem_def
      Mem_updateMenuItem_def Mem_deleteMenuItem_def Mem_createOrder_def Mem_updateOrderStatus_def
      Let_def split: option.splits\<close>)

lemma Mem_cart_unique: "Mem_reachable s \<Longrightarrow> distinct (map cartKey (Map_values (cartItems s)))"
proof (induction rule: Mem_reachable.induct)
  case Mem_init
  show ?case by (simp add: Mem_empty_def Map_values_def)
next
  case (Mem_step s now c)
  then show ?case using Mem_cart_unique_exec Mem_reachable_inv by blast
qed

lemma Db_updateCartItemQuantity_keys:
  "map cartKey (cartItems_t (snd (Db_updateCartItemQuantity d i u q))) = map cartKey (cartItems_t d)"
  by (auto simp: Db_updateCartItemQuantity_def Let_def cartKey_def)

lemma Db_cart_unique_exec:
  assumes "distinct (map cartKey (cartItems_t d))"
  shows "distinct (map cartKey (cartItems_t (Db_exec now c d)))"
proof (cases c)
  case (AddToCart ins)
  show ?thesis
  proof (cases "find (\<lambda>row. userId_c row = userId_ic ins \<and> menuItemId_c row = menuItemId_ic ins)
                  (cartItems_t d)")
    case None
    have "\<forall>x\<in>set (cartItems_t d).
            \<not> (userId_c x = userId_ic ins \<and> menuItemId_c x = menuItemId_ic ins)"
      using None by (simp add: find_None_iff)
    then have "(userId_ic ins, menuItemId_ic ins) \<notin> set (map cartKey (cartItems_t d))"
      by (auto simp: cartKey_def)
    then show ?thesis using None AddToCart assms
      by (simp add: Db_addToCart_def Let_def cartKey_def)
  next
    case (Some e)
    then show ?thesis using AddToCart assms
      by (simp add: Db_addToCart_def Db_updateCartItemQuantity_keys)
  qed
next
  case (RemoveFromCart i u)
  then show ?thesis using assms by (simp add: Db_removeFromCart_def distinct_map_filter)
next
  case (UpdateCartItemQuantity i u q)
  then show ?thesis using assms by (simp add: Db_updateCartItemQuantity_keys)
next
  case (ClearCart u)
  then show ?thesis using assms by (simp add: Db_clearCart_def distinct_map_filter)
qed (use assms in \<open>auto simp: Db_createUser_def Db_createMenuItem_def
      Db_updateMenuItem_def Db_deleteMenuItem_def Db_createOrder_def Db_updateOrderStatus_def
      Let_def split: option.splits\<close>)

lemma Db_cart_unique: "Db_reachable d \<Longrightarrow> distinct (map cartKey (cartItems_t d))"
proof (induction rule: Db_reachable.induct)
  case Db_init
  show ?case by (simp add: Db_empty_def)
next
  case (Db_step s now c)
  then show ?case using Db_cart_unique_exec by blast
qed

lemma Mongo_cart_unique_exec:
  assumes "distinct (map cartDocKey (CartItem_c db))"
  shows "distinct (map cartDocKey (CartItem_c (Mongo_exec oid rating now c db)))"
proof (cases c)
  case (AddToCart ins)
  have upd: "\<And>P q. map cartDocKey (updateFirst P (\<lambda>doc. doc\<lparr>quantity_cd := q\<rparr>) (CartItem_c db))
               = map cartDocKey (CartItem_c db)"
    by (rule map_updateFirst_same) (simp add: cartDocKey_def)
  show ?thesis using AddToCart assms
    by (auto simp: Mongo_addToCart_def Let_def upd cartDocKey_def
        split: option.splits if_splits dest: find_None_notin)
next
  case (RemoveFromCart i u)
  then show ?thesis using assms
    by (auto simp: Mongo_removeFromCart_def distinct_map_deleteFirst split: option.splits)
next
  case (UpdateCartItemQuantity i u q)
  have upd: "\<And>P. map cartDocKey (updateFirst P (\<lambda>doc. doc\<lparr>quantity_cd := q\<rparr>) (CartItem_c db))
               = map cartDocKey (CartItem_c db)"
    by (rule map_updateFirst_same) (simp add: cartDocKey_def)
  show ?thesis using UpdateCartItemQuantity assms
    by (auto simp: Mongo_updateCartItemQuantity_def upd split: option.splits)
next
  case (ClearCart u)
  then show ?thesis using assms
    by (auto simp: Mongo_clearCart_def distinct_map_filter split: option.splits)
qed (use assms in \<open>auto simp: Mongo_createUser_def Mongo_createMenuItem_def
      Mongo_updateMenuItem_def Mongo_deleteMenuItem_def Mongo_createOrder_def
      Mongo_updateOrderStatus_def Let_def split: option.splits sum.splits if_splits\<close>)

lemma Mongo_cart_unique: "Mongo_reachable db \<Longrightarrow> distinct (map cartDocKey (CartItem_c db))"
proof (induction rule: Mongo_reachable.induct)
  case Mongo_init
  show ?case by (simp add: Mongo_empty_def)
next
  case (Mongo_step db oid rating now c)
  then show ?case using Mongo_cart_unique_exec by blast
next
  case (Mongo_connection db b)
  then show ?case by simp
qed

lemma find_map_update_first:
  assumes "find P xs = Some e" "Q e" "\<And>x. P (f x) = P x"
  shows "find P (map (\<lambda>x. if Q x then f x else x) xs) = Some (f e)"
  using assms(1,2)
proof (induction xs)
  case Nil
  then show ?case by simp
next
  case (Cons x xs)
  then show ?case using assms(3) by (auto split: if_splits)
qed

lemma update_map_keyed:
  assumes "distinct (map fst m)" "\<And>k v. (k, v) \<in> set m \<Longrightarrow> idOf v = k" "map_of m i = Some c"
  shows "map snd (AList.update i (g c) m) = map (\<lambda>v. if idOf v = i then g v else v) (map snd m)"
  using assms
proof (induction m)
  case Nil
  then show ?case by simp
next
  case (Cons p ps)
  obtain k v where p: "p = (k, v)" by (cases p)
  have kv: "idOf v = k" using Cons.prems(2)[of k v] p by simp
  have rest: "\<And>x y. (x, y) \<in> set ps \<Longrightarrow> idOf y = x \<and> x \<noteq> k"
    using Cons.prems(1,2) p by (auto simp: rev_image_eqI)
  show ?case
  proof (cases "k = i")
    case True
    then have vc: "v = c" using Cons.prems(3) p by simp
    have "\<And>y. y \<in> snd ` set ps \<Longrightarrow> idOf y \<noteq> i" using rest True by force
    then have "map (\<lambda>v. if idOf v = i then g v else v) (map snd ps) = map snd ps"
      by (induction ps) auto
    then show ?thesis using True vc kv p by simp
  next
    case False
    have "map snd (AList.update i (g c) ps) = map (\<lambda>v. if idOf v = i then g v else v) (map snd ps)"
      using Cons.IH Cons.prems False p rest by auto
    then show ?thesis using False kv p by simp
  qed
qed

lemma Mem_addToCart_present:
  assumes "Mem_inv s"
    and "find (\<lambda>item. userId_c item = userId_ic ins \<and> menuItemId_c item = menuItemId_ic ins)
           (Map_values (cartItems s)) = Some e"
  shows "fst (Mem_addToCart s ins) = Some (e\<lparr>quantity_c := jsAdd (quantity_c e) (quantity_ic ins)\<rparr>)"
    and "map cartKey (Map_values (cartItems (snd (Mem_addToCart s ins))))
           = map cartKey (Map_values (cartItems s))"
    and "find (\<lambda>item. userId_c item = userId_ic ins \<and> menuItemId_c item = menuItemId_ic ins)
           (Map_values (cartItems (snd (Mem_addToCart s ins))))
         = Some (e\<lparr>quantity_c := jsAdd (quantity_c e) (quantity_ic ins)\<rparr>)"
proof -
  let ?q = "jsAdd (quantity_c e) (quantity_ic ins)"
  have k: "keyed (cartItems s) id_c (cartItemIdCounter s)" using assms(1) by (simp add: Mem_inv_def)
  have e: "e \<in> set (Map_values (cartItems s))" "userId_c e = userId_ic ins"
    using find_Some_P[OF assms(2)] by auto
  then obtain j where j: "(j, e) \<in> set (cartItems s)" by (auto simp: Map_values_def)
  then have "id_c e = j" using k by (auto simp: keyed_def list_all_iff)
  then have g: "Map_get (cartItems s) (id_c e) = Some e" using j keyed_get_iff[OF k] by simp
  show "fst (Mem_addToCart s ins) = Some (e\<lparr>quantity_c := ?q\<rparr>)"
    using assms(2) g e(2) by (simp add: Mem_addToCart_def Mem_updateCartItemQuantity_def Let_def)
  show "map cartKey (Map_values (cartItems (snd (Mem_addToCart s ins))))
           = map cartKey (Map_values (cartItems s))"
    using assms(2) by (simp add: Mem_addToCart_def Mem_updateCartItemQuantity_keys)
  have st: "cartItems (snd (Mem_addToCart s ins)) = AList.update (id_c e) (e\<lparr>quantity_c := ?q\<rparr>) (cartItems s)"
    using assms(2) g e(2)
    by (simp add: Mem_addToCart_def Mem_updateCartItemQuantity_def Let_def Map_set_def)
  have d: "distinct (map fst (cartItems s))" using k by (simp add: keyed_def)
  have idk: "\<And>a b. (a, b) \<in> set (cartItems s) \<Longrightarrow> id_c b = a"
    using k by (auto simp: keyed_def list_all_iff)
  have g': "map_of (cartItems s) (id_c e) = Some e" using g by (simp add: Map_get_def)
  have vals: "Map_values (cartItems (snd (Mem_addToCart s ins)))
               = map (\<lambda>item. if id_c item = id_c e then item\<lparr>quantity_c := ?q\<rparr> else item)
                   (Map_values (cartItems s))"
    unfolding st Map_values_def
    using update_map_keyed[of "cartItems s" id_c "id_c e" e "\<lambda>item. item\<lparr>quantity_c := ?q\<rparr>",
        OF d idk g'] by simp
  show "find (\<lambda>item. userId_c item = userId_ic ins \<and> menuItemId_c item = menuItemId_ic ins)
           (Map_values (cartItems (snd (Mem_addToCart s ins))))
         = Some (e\<lparr>quantity_c := ?q\<rparr>)"
    unfolding vals by (rule find_map_update_first[OF assms(2)]) simp_all
qed

lemma Db_addToCart_present:
  assumes "find (\<lambda>row. userId_c row = userId_ic ins \<and> menuItemId_c row = menuItemId_ic ins)
           (cartItems_t d) = Some e"
  shows "map cartKey (cartItems_t (snd (Db_addToCart d ins))) = map cartKey (cartItems_t d)"
  using assms by (simp add: Db_addToCart_def Db_updateCartItemQuantity_keys)

lemma Db_updateCartItemQuantity_ids:
  "map id_c (cartItems_t (snd (Db_updateCartItemQuantity d i u q))) = map id_c (cartItems_t d)"
  by (auto simp: Db_updateCartItemQuantity_def Let_def)

lemma Db_cart_ids_exec:
  assumes "Db_inv d" "distinct (map id_c (cartItems_t d))"
  shows "distinct (map id_c (cartItems_t (Db_exec now c d)))"
proof (cases c)
  case (AddToCart ins)
  show ?thesis
  proof (cases "find (\<lambda>row. userId_c row = userId_ic ins \<and> menuItemId_c row = menuItemId_ic ins)
                  (cartItems_t d)")
    case None
    have "cartItems_id_seq d \<notin> id_c ` set (cartItems_t d)"
      using assms(1) by (auto simp: Db_inv_def list_all_iff)
    then show ?thesis using None AddToCart assms(2)
      by (simp add: Db_addToCart_def Let_def)
  next
    case (Some e)
    then show ?thesis using AddToCart assms(2)
      by (simp add: Db_addToCart_def Db_updateCartItemQuantity_ids)
  qed
next
  case (RemoveFromCart i u)
  then show ?thesis using assms(2) by (simp add: Db_removeFromCart_def distinct_map_filter)
next
  case (UpdateCartItemQuantity i u q)
  then show ?thesis using assms(2) by (simp add: Db_updateCartItemQuantity_ids)
next
  case (ClearCart u)
  then show ?thesis using assms(2) by (simp add: Db_clearCart_def distinct_map_filter)
qed (use assms(2) in \<open>auto simp: Db_createUser_def Db_createMenuItem_def
      Db_updateMenuItem_def Db_deleteMenuItem_def Db_createOrder_def Db_updateOrderStatus_def
      Let_def split: option.splits\<close>)

lemma Db_cart_ids: "Db_reachable d \<Longrightarrow> distinct (map id_c (cartItems_t d))"
proof (induction rule: Db_reachable.induct)
  case Db_init
  show ?case by (simp add: Db_empty_def)
next
  case (Db_step s now c)
  then show ?case using Db_cart_ids_exec Db_reachable_inv by blast
qed

lemma find_unique_key_and:
  "distinct (map k xs) \<Longrightarrow> e \<in> set xs \<Longrightarrow> Q e \<Longrightarrow> find (\<lambda>x. k x = k e \<and> Q x) xs = Some e"
  by (induction xs) (auto simp: rev_image_eqI)

lemma Db_addToCart_answers:
  assumes "Db_reachable d"
    and "find (\<lambda>row. userId_c row = userId_ic ins \<and> menuItemId_c row = menuItemId_ic ins)
           (cartItems_t d) = Some e"
    and "int4 (jsAdd (quantity_c e) (quantity_ic ins))"
  shows "fst (Db_addToCart d ins)
           = Inr (Some (e\<lparr>quantity_c := jsAdd (quantity_c e) (quantity_ic ins)\<rparr>))"
proof -
  let ?q = "jsAdd (quantity_c e) (quantity_ic ins)"
  let ?g = "\<lambda>row. if id_c row = id_c e \<and> userId_c row = userId_ic ins
                 then row\<lparr>quantity_c := ?q\<rparr> else row"
  have e: "e \<in> set (cartItems_t d)" "userId_c e = userId_ic ins"
    using find_Some_P[OF assms(2)] by auto
  have f: "find (\<lambda>row. id_c row = id_c e \<and> userId_c row = userId_ic ins) (cartItems_t d) = Some e"
    using find_unique_key_and[OF Db_cart_ids[OF assms(1)] e(1), of "\<lambda>row. userId_c row = userId_ic ins"]
      e(2) by simp
  have "find (\<lambda>row. id_c row = id_c e \<and> userId_c row = userId_ic ins) (map ?g (cartItems_t d))
          = map_option ?g (find (\<lambda>row. id_c row = id_c e \<and> userId_c row = userId_ic ins) (cartItems_t d))"
    by (rule find_map_preserve) simp
  then show ?thesis using assms(2,3) f e(2)
    by (simp add: Db_addToCart_def Db_updateCartItemQuantity_def Let_def)
qed

lemma Db_addToCart_merges:
  assumes "find (\<lambda>row. userId_c row = userId_ic ins \<and> menuItemId_c row = menuItemId_ic ins)
           (cartItems_t d) = Some e"
  shows "int4 (jsAdd (quantity_c e) (quantity_ic ins)) \<Longrightarrow>
           find (\<lambda>row. userId_c row = userId_ic ins \<and> menuItemId_c row = menuItemId_ic ins)
             (cartItems_t (snd (Db_addToCart d ins)))
           = Some (e\<lparr>quantity_c := jsAdd (quantity_c e) (quantity_ic ins)\<rparr>)"
    and "\<not> int4 (jsAdd (quantity_c e) (quantity_ic ins)) \<Longrightarrow>
           Db_addToCart d ins = (Inl IntegerOutOfRange, d)"
proof -
  let ?q = "jsAdd (quantity_c e) (quantity_ic ins)"
  have u: "userId_c e = userId_ic ins" using find_Some_P[OF assms] by simp
  have "find (\<lambda>row. userId_c row = userId_ic ins \<and> menuItemId_c row = menuItemId_ic ins)
          (map (\<lambda>row. if id_c row = id_c e \<and> userId_c row = userId_ic ins
                      then row\<lparr>quantity_c := ?q\<rparr> else row) (cartItems_t d))
        = Some (e\<lparr>quantity_c := ?q\<rparr>)"
    by (rule find_map_update_first[OF assms]) (simp_all add: u)
  then show "int4 ?q \<Longrightarrow>
           find (\<lambda>row. userId_c row = userId_ic ins \<and> menuItemId_c row = menuItemId_ic ins)
             (cartItems_t (snd (Db_addToCart d ins))) = Some (e\<lparr>quantity_c := ?q\<rparr>)"
    using assms by (simp add: Db_addToCart_def Db_updateCartItemQuantity_def Let_def)
  show "\<not> int4 ?q \<Longrightarrow> Db_addToCart d ins = (Inl IntegerOutOfRange, d)"
    using assms by (simp add: Db_addToCart_def Db_updateCartItemQuantity_def Let_def)
qed

lemma Mongo_addToCart_present:
  assumes "findUserByNumericId db (userId_ic ins) = Some user"
    and "findMenuItemByNumericId db (menuItemId_ic ins) = Some menuItem"
    and "find (\<lambda>doc. userId_cd doc = oid_ud user \<and> menuItemId_cd doc = oid_md menuItem)
           (CartItem_c db) = Some e"
  shows "map cartDocKey (CartItem_c (snd (Mongo_addToCart oid db ins))) = map cartDocKey (CartItem_c db)"
proof -
  have upd: "\<And>P q. map cartDocKey (updateFirst P (\<lambda>doc. doc\<lparr>quantity_cd := q\<rparr>) (CartItem_c db))
               = map cartDocKey (CartItem_c db)"
    by (rule map_updateFirst_same) (simp add: cartDocKey_def)
  show ?thesis using assms
    by (auto simp: Mongo_addToCart_def Let_def upd split: option.splits)
qed

lemma Mongo_cart_oids_exec:
  assumes "distinct (map oid_cd (CartItem_c db))"
  shows "distinct (map oid_cd (CartItem_c (Mongo_exec oid rating now c db)))"
proof (cases c)
  case (AddToCart ins)
  have upd: "\<And>P q. map oid_cd (updateFirst P (\<lambda>doc. doc\<lparr>quantity_cd := q\<rparr>) (CartItem_c db))
               = map oid_cd (CartItem_c db)"
    by (rule map_updateFirst_same) simp
  show ?thesis using AddToCart assms
    by (auto simp: Mongo_addToCart_def Let_def upd list_ex_iff split: option.splits if_splits)
next
  case (RemoveFromCart i u)
  then show ?thesis using assms
    by (auto simp: Mongo_removeFromCart_def distinct_map_deleteFirst split: option.splits)
next
  case (UpdateCartItemQuantity i u q)
  have upd: "\<And>P. map oid_cd (updateFirst P (\<lambda>doc. doc\<lparr>quantity_cd := q\<rparr>) (CartItem_c db))
               = map oid_cd (CartItem_c db)"
    by (rule map_updateFirst_same) simp
  show ?thesis using UpdateCartItemQuantity assms
    by (auto simp: Mongo_updateCartItemQuantity_def upd split: option.splits)
next
  case (ClearCart u)
  then show ?thesis using assms
    by (auto simp: Mongo_clearCart_def distinct_map_filter split: option.splits)
qed (use assms in \<open>auto simp: Mongo_createUser_def Mongo_createMenuItem_def
      Mongo_updateMenuItem_def Mongo_deleteMenuItem_def Mongo_createOrder_def
      Mongo_updateOrderStatus_def Let_def split: option.splits sum.splits if_splits\<close>)

lemma Mongo_cart_oids: "Mongo_reachable db \<Longrightarrow> distinct (map oid_cd (CartItem_c db))"
proof (induction rule: Mongo_reachable.induct)
  case Mongo_init
  show ?case by (simp add: Mongo_empty_def)
next
  case (Mongo_step db oid rating now c)
  then show ?case using Mongo_cart_oids_exec by blast
next
  case (Mongo_connection db b)
  then show ?case by simp
qed

lemma find_unique_key:
  "distinct (map k xs) \<Longrightarrow> e \<in> set xs \<Longrightarrow> find (\<lambda>x. k x = k e) xs = Some e"
  by (induction xs) (auto simp: rev_image_eqI)

lemma find_updateFirst:
  assumes "find P xs = Some e" "distinct (map k xs)" "\<And>x. P (f x) = P x"
  shows "find P (updateFirst (\<lambda>x. k x = k e) f xs) = Some (f e)"
  using assms(1,2)
proof (induction xs)
  case Nil
  then show ?case by simp
next
  case (Cons x xs)
  show ?case
  proof (cases "P x")
    case True
    then have "x = e" using Cons.prems(1) by simp
    then show ?thesis using True assms(3) by simp
  next
    case False
    then have f: "find P xs = Some e" using Cons.prems(1) by simp
    then have "e \<in> set xs" using find_Some_P by fast
    then have "k x \<noteq> k e" using Cons.prems(2) by (auto simp: rev_image_eqI)
    then show ?thesis using False Cons.IH[OF f] Cons.prems(2) by simp
  qed
qed

lemma Mongo_addToCart_merges:
  assumes "Mongo_reachable db"
    and "connected db"
    and "findUserByNumericId db (userId_ic ins) = Some user"
    and "findMenuItemByNumericId db (menuItemId_ic ins) = Some menuItem"
    and "find (\<lambda>doc. userId_cd doc = oid_ud user \<and> menuItemId_cd doc = oid_md menuItem)
           (CartItem_c db) = Some e"
  shows "find (\<lambda>doc. userId_cd doc = oid_ud user \<and> menuItemId_cd doc = oid_md menuItem)
           (CartItem_c (snd (Mongo_addToCart oid db ins)))
         = Some (e\<lparr>quantity_cd := jsAdd (quantity_cd e) (quantityOr1 (quantity_ic ins))\<rparr>)"
    and "fst (Mongo_addToCart oid db ins)
         = Inr (convertCartItemDocToType
                  (e\<lparr>quantity_cd := jsAdd (quantity_cd e) (quantityOr1 (quantity_ic ins))\<rparr>))"
proof -
  note d = Mongo_cart_oids[OF assms(1)]
  have ein: "e \<in> set (CartItem_c db)" using find_Some_P[OF assms(5)] by simp
  have g: "find (\<lambda>doc. oid_cd doc = oid_cd e) (CartItem_c db) = Some e"
    using find_unique_key[OF d ein] .
  have "find (\<lambda>doc. userId_cd doc = oid_ud user \<and> menuItemId_cd doc = oid_md menuItem)
          (updateFirst (\<lambda>doc. oid_cd doc = oid_cd e)
             (\<lambda>doc. doc\<lparr>quantity_cd := jsAdd (quantity_cd e) (quantityOr1 (quantity_ic ins))\<rparr>)
             (CartItem_c db))
        = Some (e\<lparr>quantity_cd := jsAdd (quantity_cd e) (quantityOr1 (quantity_ic ins))\<rparr>)"
    by (rule find_updateFirst[OF assms(5) d]) simp
  then show "find (\<lambda>doc. userId_cd doc = oid_ud user \<and> menuItemId_cd doc = oid_md menuItem)
           (CartItem_c (snd (Mongo_addToCart oid db ins)))
         = Some (e\<lparr>quantity_cd := jsAdd (quantity_cd e) (quantityOr1 (quantity_ic ins))\<rparr>)"
    using assms(2-5) g by (simp add: Mongo_addToCart_def Let_def)
  show "fst (Mongo_addToCart oid db ins)
         = Inr (convertCartItemDocToType
                  (e\<lparr>quantity_cd := jsAdd (quantity_cd e) (quantityOr1 (quantity_ic ins))\<rparr>))"
    using assms(2-5) g by (simp add: Mongo_addToCart_def Let_def)
qed

subsection \<open>Numeric pairs in the document store\<close>

lemma session_reachable: "Mongo_session db \<Longrightarrow> Mongo_reachable db"
proof (induction rule: Mongo_session.induct)
  case Session_init
  show ?case by (rule Mongo_init)
next
  case (Session_step db oid c rating now)
  then show ?case by (auto simp: driverId_def intro: Mongo_step)
next
  case (Session_connection db b)
  then show ?case by (auto intro: Mongo_connection)
qed

lemma toLowerCase_zero: "toLowerCase (replicate n (CHR ''0'')) = replicate n (CHR ''0'')"
  by (simp add: toLowerCase_def upperCaseLetters_def lowerCaseLetters_def)

lemma toLowerCase_take: "take n (toLowerCase s) = toLowerCase (take n s)"
  by (simp add: toLowerCase_def take_map)

lemma toString16_length:
  assumes "safeIntegerOrNaN x"
  shows "length (toString16 x) \<le> 16"
proof (cases x)
  case NaN
  then show ?thesis by (simp add: toString16_def)
next
  case (Num n)
  then have b: "\<bar>n\<bar> \<le> 9007199254740991"
    using assms by (simp add: safeIntegerOrNaN_def safeInteger_def)
  have "nat \<bar>n\<bar> < 16 ^ 14" using b by simp
  then have l: "length (toHex (nat \<bar>n\<bar>)) \<le> 14" by (rule toHex_length) simp
  show ?thesis
  proof (cases "n < 0")
    case True
    then have "nat (- n) = nat \<bar>n\<bar>" by simp
    then show ?thesis using l True Num by (simp add: toString16_def)
  next
    case False
    then have "nat n = nat \<bar>n\<bar>" by simp
    then show ?thesis using l False Num by (simp add: toString16_def)
  qed
qed

lemma safe_cast_zero_prefix:
  assumes "safeIntegerOrNaN x" "castObjectId (toStringId x) = Inr sid"
  shows "take 8 sid = replicate 8 (CHR ''0'')"
proof -
  have l: "length (toString16 x) \<le> 16" using toString16_length[OF assms(1)] .
  have "take 8 (toStringId x) = replicate 8 (CHR ''0'')"
    using l by (simp add: toStringId_def padStart_def min_def)
  moreover have "sid = toLowerCase (toStringId x)"
    using assms(2) by (simp add: castObjectId_def split: if_splits)
  ultimately show ?thesis by (simp add: toLowerCase_take toLowerCase_zero)
qed

lemma deleteFirst_none: "\<not> list_ex P xs \<Longrightarrow> deleteFirst P xs = xs"
  by (induction xs) auto

lemma list_all_deleteFirst: "list_all R xs \<Longrightarrow> list_all R (deleteFirst P xs)"
  by (induction xs) auto

lemma list_all_updateFirst:
  "list_all R xs \<Longrightarrow> (\<And>x. R x \<Longrightarrow> R (f x)) \<Longrightarrow> list_all R (updateFirst P f xs)"
  by (induction xs) auto

lemma find_updateFirst_key:
  "(\<And>x. P (f x) = P x) \<Longrightarrow> (\<And>x. k (f x) = k x) \<Longrightarrow>
     map_option k (find P (updateFirst Q f xs)) = map_option k (find P xs)"
  by (induction xs) auto

lemma find_append_key:
  "map_option k (find P xs) = Some v \<Longrightarrow> map_option k (find P (xs @ ys)) = Some v"
  by (induction xs) (auto split: if_splits)

lemma refersFirst_users_append: "refersFirst us ms row \<Longrightarrow> refersFirst (us @ us') ms row"
  unfolding refersFirst_def by (metis find_append_key)

lemma refersFirst_items_append: "refersFirst us ms row \<Longrightarrow> refersFirst us (ms @ ms') row"
  unfolding refersFirst_def by (metis find_append_key)

lemma refersFirst_items_update:
  "refersFirst us (updateFirst Q (\<lambda>doc. updateMenuItemDoc doc m) ms) = refersFirst us ms"
proof (rule ext)
  fix row
  have h: "map_option oid_md (find (\<lambda>d. strictEq (objectIdToNumericId (oid_md d)) v)
                (updateFirst Q (\<lambda>doc. updateMenuItemDoc doc m) ms))
           = map_option oid_md (find (\<lambda>d. strictEq (objectIdToNumericId (oid_md d)) v) ms)" for v
    by (rule find_updateFirst_key) (simp_all add: updateMenuItemDoc_def)
  show "refersFirst us (updateFirst Q (\<lambda>doc. updateMenuItemDoc doc m) ms) row = refersFirst us ms row"
    unfolding refersFirst_def h by (rule refl)
qed

lemma refersFirst_quantity: "refersFirst us ms (row\<lparr>quantity_cd := q\<rparr>) = refersFirst us ms row"
  by (simp add: refersFirst_def)

lemma refersFirst_new:
  assumes "find (\<lambda>u. strictEq (objectIdToNumericId (oid_ud u)) uid) us = Some user"
      and "find (\<lambda>m. strictEq (objectIdToNumericId (oid_md m)) mid) ms = Some menuItem"
  shows "refersFirst us ms \<lparr>oid_cd = oid, userId_cd = oid_ud user, menuItemId_cd = oid_md menuItem,
           quantity_cd = q\<rparr>"
proof -
  have u: "objectIdToNumericId (oid_ud user) = uid"
    using find_Some_P[OF assms(1)] by (simp add: strictEq_def)
  have m: "objectIdToNumericId (oid_md menuItem) = mid"
    using find_Some_P[OF assms(2)] by (simp add: strictEq_def)
  show ?thesis using assms by (simp add: refersFirst_def u m)
qed

lemma Mongo_cart_inv_exec:
  assumes "Mongo_cart_inv db" "driverId oid" "list_all safeIntegerOrNaN (callIds c)"
  shows "Mongo_cart_inv (Mongo_exec oid rating now c db)"
proof (cases c)
  case (CreateUser u)
  then show ?thesis using assms(1)
    by (auto simp: Mongo_cart_inv_def Mongo_createUser_def Let_def list_all_iff
        intro: refersFirst_users_append)
next
  case (CreateMenuItem m)
  then show ?thesis using assms(1,2)
    by (auto simp: Mongo_cart_inv_def Mongo_createMenuItem_def Let_def list_all_iff driverId_def
        intro: refersFirst_items_append)
next
  case (UpdateMenuItem i m)
  have "list_all (\<lambda>doc. take 8 (oid_md doc) \<noteq> replicate 8 (CHR ''0'')) (MenuItem_c db) \<Longrightarrow>
        list_all (\<lambda>doc. take 8 (oid_md doc) \<noteq> replicate 8 (CHR ''0''))
          (updateFirst Q (\<lambda>doc. updateMenuItemDoc doc m) (MenuItem_c db))" for Q
    by (rule list_all_updateFirst) (simp_all add: updateMenuItemDoc_def)
  then show ?thesis using UpdateMenuItem assms(1)
    by (auto simp: Mongo_cart_inv_def Mongo_updateMenuItem_def refersFirst_items_update
        split: sum.splits option.splits)
next
  case (DeleteMenuItem i)
  have safe: "safeIntegerOrNaN i" using assms(3) DeleteMenuItem by simp
  have "deleteFirst (\<lambda>doc. oid_md doc = sid) (MenuItem_c db) = MenuItem_c db"
    if "castObjectId (toStringId i) = Inr sid" for sid
  proof (rule deleteFirst_none)
    have z: "take 8 sid = replicate 8 (CHR ''0'')" using safe_cast_zero_prefix[OF safe that] .
    show "\<not> list_ex (\<lambda>doc. oid_md doc = sid) (MenuItem_c db)"
      using assms(1) z by (auto simp: Mongo_cart_inv_def list_all_iff list_ex_iff)
  qed
  then show ?thesis using DeleteMenuItem assms(1)
    by (auto simp: Mongo_deleteMenuItem_def split: sum.splits)
next
  case (AddToCart ins)
  have upd: "list_all (refersFirst (User_c db) (MenuItem_c db))
               (updateFirst P (\<lambda>doc. doc\<lparr>quantity_cd := q\<rparr>) (CartItem_c db))" for P q
    using assms(1) by (intro list_all_updateFirst) (simp_all add: Mongo_cart_inv_def refersFirst_quantity)
  show ?thesis using AddToCart assms(1) upd
    by (auto simp: Mongo_cart_inv_def Mongo_addToCart_def Let_def findUserByNumericId_def
        findMenuItemByNumericId_def refersFirst_new split: option.splits)
next
  case (RemoveFromCart i u)
  then show ?thesis using assms(1)
    by (auto simp: Mongo_cart_inv_def Mongo_removeFromCart_def list_all_deleteFirst
        split: option.splits)
next
  case (UpdateCartItemQuantity i u q)
  have upd: "list_all (refersFirst (User_c db) (MenuItem_c db))
               (updateFirst P (\<lambda>doc. doc\<lparr>quantity_cd := q\<rparr>) (CartItem_c db))" for P
    using assms(1) by (intro list_all_updateFirst) (simp_all add: Mongo_cart_inv_def refersFirst_quantity)
  show ?thesis using UpdateCartItemQuantity assms(1) upd
    by (auto simp: Mongo_cart_inv_def Mongo_updateCartItemQuantity_def split: option.splits)
next
  case (ClearCart u)
  then show ?thesis using assms(1)
    by (auto simp: Mongo_cart_inv_def Mongo_clearCart_def list_all_iff split: option.splits)
next
  case (CreateOrder ord)
  then show ?thesis using assms(1)
    by (auto simp: Mongo_cart_inv_def Mongo_createOrder_def Let_def)
next
  case (UpdateOrderStatus i st)
  then show ?thesis using assms(1)
    by (auto simp: Mongo_cart_inv_def Mongo_updateOrderStatus_def split: sum.splits)
qed (use assms(1) in simp_all)

lemma Mongo_session_inv: "Mongo_session db \<Longrightarrow> Mongo_cart_inv db"
proof (induction rule: Mongo_session.induct)
  case Session_init
  show ?case by (simp add: Mongo_cart_inv_def Mongo_empty_def)
next
  case (Session_step db oid c rating now)
  then show ?case using Mongo_cart_inv_exec by blast
next
  case (Session_connection db b)
  then show ?case by (simp add: Mongo_cart_inv_def)
qed

lemma numeric_pairs_distinct:
  assumes "distinct (map cartDocKey rows)" "list_all (refersFirst us ms) rows"
  shows "distinct (map cartKey (map convertCartItemDocToType rows))"
proof -
  have d: "distinct rows" and inj: "inj_on cartDocKey (set rows)"
    using assms(1) by (simp_all add: distinct_map)
  have "inj_on (\<lambda>row. cartKey (convertCartItemDocToType row)) (set rows)"
  proof (rule inj_onI)
    fix x y assume x: "x \<in> set rows" and y: "y \<in> set rows"
      and eq: "cartKey (convertCartItemDocToType x) = cartKey (convertCartItemDocToType y)"
    have rx: "refersFirst us ms x" and ry: "refersFirst us ms y"
      using assms(2) x y by (auto simp: list_all_iff)
    have n: "objectIdToNumericId (userId_cd x) = objectIdToNumericId (userId_cd y)"
      "objectIdToNumericId (menuItemId_cd x) = objectIdToNumericId (menuItemId_cd y)"
      using eq by (simp_all add: cartKey_def convertCartItemDocToType_def)
    have "Some (userId_cd x) = Some (userId_cd y)" "Some (menuItemId_cd x) = Some (menuItemId_cd y)"
      using rx ry unfolding refersFirst_def n by metis+
    then have "userId_cd x = userId_cd y" "menuItemId_cd x = menuItemId_cd y" by simp_all
    then have "cartDocKey x = cartDocKey y" by (simp add: cartDocKey_def)
    then show "x = y" using inj x y by (auto dest: inj_onD)
  qed
  then show ?thesis using d by (simp add: distinct_map comp_def)
qed

text \<open>The creation time in the generated identifiers is needed: in the session of
  \<open>mongoZeroPrefixed\<close> the first \<open>addToCart\<close> refers to the menu item
  with the zero-prefixed identifier, \<open>deleteMenuItem\<close> deletes that item, and the
  second \<open>addToCart\<close> resolves the same numeric id to the other menu item and
  adds a row.\<close>

lemma Mongo_numeric_pairs_repeat:
  "Mongo_reachable mongoZeroPrefixed \<and>
   map cartDocKey (CartItem_c mongoZeroPrefixed)
     = [(''507f1f77bcf86cd799439011'', ''000000000000000000439012''),
        (''507f1f77bcf86cd799439011'', ''507f1f77bcf86cd799439012'')] \<and>
   map cartKey (map convertCartItemDocToType (CartItem_c mongoZeroPrefixed))
     = [(Num 4427793, Num 4427794), (Num 4427793, Num 4427794)]"
proof -
  have n0: "objectIdToNumericId ''000000000000000000439012'' = Num 4427794"
    by (simp add: objectIdToNumericId_def substring_def parseInt16_def parseDigits16_def
        stripPrefix0x_def isHexChar_def hexVal_def hexValue_def isWhiteSpace_def)
  have c: "CartItem_c mongoZeroPrefixed =
     [\<lparr>oid_cd = ''507f1f77bcf86cd799439013'', userId_cd = ''507f1f77bcf86cd799439011'',
       menuItemId_cd = ''000000000000000000439012'', quantity_cd = 2\<rparr>,
      \<lparr>oid_cd = ''507f1f77bcf86cd799439014'', userId_cd = ''507f1f77bcf86cd799439011'',
       menuItemId_cd = ''507f1f77bcf86cd799439012'', quantity_cd = 2\<rparr>]"
    by (simp add: mongoZeroPrefixed_def Mongo_empty_def Mongo_createUser_def Mongo_createMenuItem_def
        Mongo_addToCart_def Mongo_deleteMenuItem_def mongoCartItem_def adminUser_def
        pepperoniPizza_def margheritaPizza_def findUserByNumericId_def findMenuItemByNumericId_def
        oid_numeric n0 oid_numeric2 strictEq_def quantityOr1_def toStringId_4427794
        cast_439012 Let_def)
  have r: "Mongo_reachable mongoZeroPrefixed"
    unfolding mongoZeroPrefixed_def
    by (intro Mongo_reachable.intros) (simp_all add: isObjectId_def lowerHex_def)
  show ?thesis
    using r by (simp add: c cartDocKey_def cartKey_def convertCartItemDocToType_def oid_numeric n0
        oid_numeric2)
qed

lemma Mongo_session_numeric_pairs:
  "Mongo_session db \<Longrightarrow> distinct (map cartKey (map convertCartItemDocToType (CartItem_c db)))"
  using numeric_pairs_distinct[OF Mongo_cart_unique[OF session_reachable]] Mongo_session_inv
  by (auto simp: Mongo_cart_inv_def)

text \<open>
  Claim C2.  In every state that a sequence of \<open>IStorage\<close> calls reaches, the cart
  holds at most one row per (user, menu item) pair, in each of the three backends.  In the
  document store the pair is the pair of referenced documents in every reachable state,
  and the pair of numeric ids as well in every state of a session whose generated
  identifiers carry a creation time and whose identifier arguments are safe integers.
  \<open>addToCart\<close> on a pair that is present adds no row: the pairs of the rows stay as
  they are, and, the two quantities being safe integers, the row the call answers and the
  store then holds for the pair is the existing row with the sum of the two quantities as
  JavaScript adds them, which is the exact sum up to \<open>2\<^sup>5\<^sup>3\<close>.  The
  relational store throws instead, and changes nothing, when that sum does not fit its
  32-bit column; the document store merges when it is connected, and counts a quantity of
  0 as 1.
\<close>

theorem cart_one_row_per_pair:
  assumes "Mem_reachable s" "Db_reachable d" "Mongo_reachable db"
  shows "distinct (map cartKey (Map_values (cartItems s))) \<and>
         distinct (map cartKey (cartItems_t d)) \<and>
         distinct (map cartDocKey (CartItem_c db)) \<and>
         (Mongo_session db \<longrightarrow>
            distinct (map cartKey (map convertCartItemDocToType (CartItem_c db)))) \<and>
         (\<bar>x + y\<bar> \<le> 9007199254740992 \<longrightarrow> jsAdd x y = x + y) \<and>
         (\<forall>e. find (\<lambda>item. userId_c item = userId_ic ins \<and> menuItemId_c item = menuItemId_ic ins)
                (Map_values (cartItems s)) = Some e \<longrightarrow>
              map cartKey (Map_values (cartItems (snd (Mem_addToCart s ins))))
                = map cartKey (Map_values (cartItems s)) \<and>
              (safeInteger (quantity_c e) \<longrightarrow> safeInteger (quantity_ic ins) \<longrightarrow>
                 fst (Mem_addToCart s ins) = Some (e\<lparr>quantity_c := jsAdd (quantity_c e) (quantity_ic ins)\<rparr>) \<and>
                 find (\<lambda>item. userId_c item = userId_ic ins \<and> menuItemId_c item = menuItemId_ic ins)
                   (Map_values (cartItems (snd (Mem_addToCart s ins)))) = Some (e\<lparr>quantity_c := jsAdd (quantity_c e) (quantity_ic ins)\<rparr>))) \<and>
         (\<forall>e. find (\<lambda>row. userId_c row = userId_ic ins \<and> menuItemId_c row = menuItemId_ic ins)
                (cartItems_t d) = Some e \<longrightarrow>
              map cartKey (cartItems_t (snd (Db_addToCart d ins))) = map cartKey (cartItems_t d) \<and>
              (safeInteger (quantity_c e) \<longrightarrow> safeInteger (quantity_ic ins) \<longrightarrow>
                 (int4 (jsAdd (quantity_c e) (quantity_ic ins)) \<longrightarrow>
                    fst (Db_addToCart d ins) = Inr (Some (e\<lparr>quantity_c := jsAdd (quantity_c e) (quantity_ic ins)\<rparr>)) \<and>
                    find (\<lambda>row. userId_c row = userId_ic ins \<and> menuItemId_c row = menuItemId_ic ins)
                      (cartItems_t (snd (Db_addToCart d ins))) = Some (e\<lparr>quantity_c := jsAdd (quantity_c e) (quantity_ic ins)\<rparr>)) \<and>
                 (\<not> int4 (jsAdd (quantity_c e) (quantity_ic ins)) \<longrightarrow>
                    Db_addToCart d ins = (Inl IntegerOutOfRange, d)))) \<and>
         (\<forall>user menuItem e.
              findUserByNumericId db (userId_ic mins) = Some user \<longrightarrow>
              findMenuItemByNumericId db (menuItemId_ic mins) = Some menuItem \<longrightarrow>
              find (\<lambda>doc. userId_cd doc = oid_ud user \<and> menuItemId_cd doc = oid_md menuItem)
                (CartItem_c db) = Some e \<longrightarrow>
              map cartDocKey (CartItem_c (snd (Mongo_addToCart oid db mins)))
                = map cartDocKey (CartItem_c db) \<and>
              (connected db \<longrightarrow> safeInteger (quantity_cd e) \<longrightarrow>
               safeInteger (quantityOr1 (quantity_ic mins)) \<longrightarrow>
                 fst (Mongo_addToCart oid db mins) = Inr (convertCartItemDocToType (e\<lparr>quantity_cd := jsAdd (quantity_cd e) (quantityOr1 (quantity_ic mins))\<rparr>)) \<and>
                 find (\<lambda>doc. userId_cd doc = oid_ud user \<and> menuItemId_cd doc = oid_md menuItem)
                   (CartItem_c (snd (Mongo_addToCart oid db mins))) = Some (e\<lparr>quantity_cd := jsAdd (quantity_cd e) (quantityOr1 (quantity_ic mins))\<rparr>)))"
proof -
  have c1: "distinct (map cartKey (Map_values (cartItems s)))"
    by (rule Mem_cart_unique[OF assms(1)])
  have c2: "distinct (map cartKey (cartItems_t d))"
    by (rule Db_cart_unique[OF assms(2)])
  have c3: "distinct (map cartDocKey (CartItem_c db))"
    by (rule Mongo_cart_unique[OF assms(3)])
  have c4: "(Mongo_session db \<longrightarrow>
            distinct (map cartKey (map convertCartItemDocToType (CartItem_c db))))"
    using Mongo_session_numeric_pairs[of db] by blast
  have c5: "(\<bar>x + y\<bar> \<le> 9007199254740992 \<longrightarrow> jsAdd x y = x + y)"
    using jsAdd_exact[of x y] by blast
  have c6: "(\<forall>e. find (\<lambda>item. userId_c item = userId_ic ins \<and> menuItemId_c item = menuItemId_ic ins)
                (Map_values (cartItems s)) = Some e \<longrightarrow>
              map cartKey (Map_values (cartItems (snd (Mem_addToCart s ins))))
                = map cartKey (Map_values (cartItems s)) \<and>
              (safeInteger (quantity_c e) \<longrightarrow> safeInteger (quantity_ic ins) \<longrightarrow>
                 fst (Mem_addToCart s ins) = Some (e\<lparr>quantity_c := jsAdd (quantity_c e) (quantity_ic ins)\<rparr>) \<and>
                 find (\<lambda>item. userId_c item = userId_ic ins \<and> menuItemId_c item = menuItemId_ic ins)
                   (Map_values (cartItems (snd (Mem_addToCart s ins)))) = Some (e\<lparr>quantity_c := jsAdd (quantity_c e) (quantity_ic ins)\<rparr>)))"
    using Mem_addToCart_present[OF Mem_reachable_inv[OF assms(1)], of ins] by blast
  have c7: "(\<forall>e. find (\<lambda>row. userId_c row = userId_ic ins \<and> menuItemId_c row = menuItemId_ic ins)
                (cartItems_t d) = Some e \<longrightarrow>
              map cartKey (cartItems_t (snd (Db_addToCart d ins))) = map cartKey (cartItems_t d) \<and>
              (safeInteger (quantity_c e) \<longrightarrow> safeInteger (quantity_ic ins) \<longrightarrow>
                 (int4 (jsAdd (quantity_c e) (quantity_ic ins)) \<longrightarrow>
                    fst (Db_addToCart d ins) = Inr (Some (e\<lparr>quantity_c := jsAdd (quantity_c e) (quantity_ic ins)\<rparr>)) \<and>
                    find (\<lambda>row. userId_c row = userId_ic ins \<and> menuItemId_c row = menuItemId_ic ins)
                      (cartItems_t (snd (Db_addToCart d ins))) = Some (e\<lparr>quantity_c := jsAdd (quantity_c e) (quantity_ic ins)\<rparr>)) \<and>
                 (\<not> int4 (jsAdd (quantity_c e) (quantity_ic ins)) \<longrightarrow>
                    Db_addToCart d ins = (Inl IntegerOutOfRange, d))))"
    using Db_addToCart_present[of ins d] Db_addToCart_merges[of ins d]
      Db_addToCart_answers[OF assms(2), of ins]
    by blast
  have c8: "(\<forall>user menuItem e.
              findUserByNumericId db (userId_ic mins) = Some user \<longrightarrow>
              findMenuItemByNumericId db (menuItemId_ic mins) = Some menuItem \<longrightarrow>
              find (\<lambda>doc. userId_cd doc = oid_ud user \<and> menuItemId_cd doc = oid_md menuItem)
                (CartItem_c db) = Some e \<longrightarrow>
              map cartDocKey (CartItem_c (snd (Mongo_addToCart oid db mins)))
                = map cartDocKey (CartItem_c db) \<and>
              (connected db \<longrightarrow> safeInteger (quantity_cd e) \<longrightarrow>
               safeInteger (quantityOr1 (quantity_ic mins)) \<longrightarrow>
                 fst (Mongo_addToCart oid db mins) = Inr (convertCartItemDocToType (e\<lparr>quantity_cd := jsAdd (quantity_cd e) (quantityOr1 (quantity_ic mins))\<rparr>)) \<and>
                 find (\<lambda>doc. userId_cd doc = oid_ud user \<and> menuItemId_cd doc = oid_md menuItem)
                   (CartItem_c (snd (Mongo_addToCart oid db mins))) = Some (e\<lparr>quantity_cd := jsAdd (quantity_cd e) (quantityOr1 (quantity_ic mins))\<rparr>)))"
    using Mongo_addToCart_present[of db mins _ _ _ oid]
      Mongo_addToCart_merges(1)[OF assms(3), of mins _ _ _ oid]
      Mongo_addToCart_merges(2)[OF assms(3), of mins _ _ _ oid]
    by blast
  show ?thesis
    by (intro conjI c1 c2 c3 c4 c5 c6 c7 c8)
qed

theorem cart_one_row_per_pair_witness:
  "Mem_reachable memSample \<and> Db_reachable dbSample \<and> Mongo_reachable mongoCartSample \<and>
   Mongo_session mongoCartSample \<and>
   map cartKey (Map_values (cartItems memSample)) = [(1, 1)] \<and>
   map cartKey (map convertCartItemDocToType (CartItem_c mongoCartSample))
     = [(Num 4427793, Num 4427794)] \<and>
   jsAdd 2 2 = 4 \<and> int4 (jsAdd 2 2) \<and>
   fst (Mem_addToCart memSample sampleCartItem)
     = Some \<lparr>id_c = 1, userId_c = 1, menuItemId_c = 1, quantity_c = 4\<rparr> \<and>
   Map_values (cartItems (snd (Mem_addToCart memSample sampleCartItem)))
     = [\<lparr>id_c = 1, userId_c = 1, menuItemId_c = 1, quantity_c = 4\<rparr>] \<and>
   cartItems_t (snd (Db_addToCart dbSample sampleCartItem))
     = [\<lparr>id_c = 1, userId_c = 1, menuItemId_c = 1, quantity_c = 4\<rparr>] \<and>
   map cartDocKey (CartItem_c (snd (Mongo_addToCart ''507f1f77bcf86cd799439014'' mongoCartSample mongoCartItem)))
     = [(''507f1f77bcf86cd799439011'', ''507f1f77bcf86cd799439012'')] \<and>
   map quantity_cd (CartItem_c (snd (Mongo_addToCart ''507f1f77bcf86cd799439014'' mongoCartSample mongoCartItem)))
     = [4]"
proof -
  have f1: "find (\<lambda>item. userId_c item = userId_ic sampleCartItem \<and>
                        menuItemId_c item = menuItemId_ic sampleCartItem)
              (Map_values (cartItems memSample))
            = Some \<lparr>id_c = 1, userId_c = 1, menuItemId_c = 1, quantity_c = 2\<rparr>"
    by (simp add: memSample_eval Map_values_def sampleCartItem_def)
  have f2: "find (\<lambda>row. userId_c row = userId_ic sampleCartItem \<and>
                        menuItemId_c row = menuItemId_ic sampleCartItem)
              (cartItems_t dbSample)
            = Some \<lparr>id_c = 1, userId_c = 1, menuItemId_c = 1, quantity_c = 2\<rparr>"
    by (simp add: dbSample_eval sampleCartItem_def)
  have k1: "map cartKey (Map_values (cartItems memSample)) = [(1, 1)]"
    by (simp add: memSample_eval Map_values_def cartKey_def)
  have k3: "map cartDocKey (CartItem_c mongoCartSample)
              = [(''507f1f77bcf86cd799439011'', ''507f1f77bcf86cd799439012'')]"
    by (simp add: mongoCartSample_eval cartDocKey_def)
  have k4: "map cartKey (map convertCartItemDocToType (CartItem_c mongoCartSample))
              = [(Num 4427793, Num 4427794)]"
    by (simp add: mongoCartSample_eval cartKey_def convertCartItemDocToType_def oid_numeric
        oid_numeric2)
  note t = cart_one_row_per_pair[OF memSample_reachable dbSample_reachable mongoCartSample_reachable,
      of 2 2 sampleCartItem mongoCartItem "''507f1f77bcf86cd799439014''"]
  have j: "jsAdd 2 2 = 4" using t by simp
  have i4: "int4 (jsAdd 2 2)" by (simp add: j int4_def)
  have q: "quantity_ic sampleCartItem = 2" by (simp add: sampleCartItem_def)
  have m: "fst (Mem_addToCart memSample sampleCartItem)
            = Some \<lparr>id_c = 1, userId_c = 1, menuItemId_c = 1, quantity_c = 4\<rparr>"
    using t f1 by (simp add: q j safeInteger_def)
  have m2: "Map_values (cartItems (snd (Mem_addToCart memSample sampleCartItem)))
     = [\<lparr>id_c = 1, userId_c = 1, menuItemId_c = 1, quantity_c = 4\<rparr>]"
    by (simp add: memSample_eval Mem_addToCart_def Mem_updateCartItemQuantity_def sampleCartItem_def
        Map_values_def Map_get_def Map_set_def Let_def j)
  have q2: "cartItems_t (snd (Db_addToCart dbSample sampleCartItem))
     = [\<lparr>id_c = 1, userId_c = 1, menuItemId_c = 1, quantity_c = 4\<rparr>]"
    using i4 by (simp add: dbSample_eval Db_addToCart_def Db_updateCartItemQuantity_def sampleCartItem_def
        Let_def j)
  have q3: "CartItem_c (snd (Mongo_addToCart ''507f1f77bcf86cd799439014''
              mongoCartSample mongoCartItem))
            = [\<lparr>oid_cd = ''507f1f77bcf86cd799439013'',
      userId_cd = ''507f1f77bcf86cd799439011'', menuItemId_cd = ''507f1f77bcf86cd799439012'',
      quantity_cd = 4\<rparr>]"
    by (simp add: mongoCartSample_eval mongoSample_eval Mongo_addToCart_def mongoCartItem_def
        findUserByNumericId_def findMenuItemByNumericId_def oid_numeric oid_numeric2 strictEq_def
        quantityOr1_def Let_def j)
  show ?thesis
    using k1 k4 j i4 m m2 q2 memSample_reachable dbSample_reachable
      mongoCartSample_reachable mongoCartSample_session
    by (simp add: q3 cartDocKey_def)
qed

section \<open>Orders and menu edits\<close>

lemma Mem_orders_menu_edit:
  "orders (snd (Mem_updateMenuItem s i m)) = orders s \<and> orders (snd (Mem_deleteMenuItem s i)) = orders s"
  by (simp add: Mem_updateMenuItem_def Mem_deleteMenuItem_def Let_def split: option.splits)

lemma Mem_quantities:
  "orders s' = orders s \<Longrightarrow>
   map orderItemQuantities (Mem_getOrdersByUserId s' u) = map orderItemQuantities (Mem_getOrdersByUserId s u)"
  by (simp add: Mem_getOrdersByUserId_def orderItemQuantities_def comp_def)

lemma Db_orders_menu_edit:
  "orders_t (snd (Db_updateMenuItem d i m)) = orders_t d \<and> orders_t (snd (Db_deleteMenuItem d i)) = orders_t d"
  by (simp add: Db_updateMenuItem_def Db_deleteMenuItem_def Let_def)

lemma Db_getMenuItemById_update:
  "Db_getMenuItemById (snd (Db_updateMenuItem d i m)) j
     = map_option (\<lambda>row. if id_m row = i then spreadMenuItem row m else row) (Db_getMenuItemById d j)"
proof -
  have "\<And>x. (id_m (if id_m x = i then spreadMenuItem x m else x) = j) = (id_m x = j)" by simp
  then show ?thesis
    by (simp add: Db_getMenuItemById_def Db_updateMenuItem_def Let_def find_map_preserve)
qed

lemma map_filter_quantities:
  assumes "\<And>j. (look' j = None) = (look j = None)"
  shows "map quantity_d (List.map_filter (\<lambda>item. case look' (menuItemId_oi item) of None \<Rightarrow> None
            | Some menuItem \<Rightarrow> Some \<lparr>menuItem_d = Some menuItem, quantity_d = quantity_oi item\<rparr>) items)
       = map quantity_d (List.map_filter (\<lambda>item. case look (menuItemId_oi item) of None \<Rightarrow> None
            | Some menuItem \<Rightarrow> Some \<lparr>menuItem_d = Some menuItem, quantity_d = quantity_oi item\<rparr>) items)"
proof (induction items)
  case Nil
  show ?case by (simp add: List.map_filter_simps)
next
  case (Cons a items)
  show ?case using Cons assms[of "menuItemId_oi a"]
    by (cases "look (menuItemId_oi a)"; cases "look' (menuItemId_oi a)")
       (auto simp: List.map_filter_simps)
qed

lemma Db_quantities_update:
  "map orderItemQuantities (Db_getOrdersByUserId (snd (Db_updateMenuItem d i m)) u)
     = map orderItemQuantities (Db_getOrdersByUserId d u)"
proof -
  let ?d' = "snd (Db_updateMenuItem d i m)"
  have n: "\<And>j. (Db_getMenuItemById ?d' j = None) = (Db_getMenuItemById d j = None)"
    by (simp add: Db_getMenuItemById_update)
  have o: "orders_t ?d' = orders_t d" by (simp add: Db_orders_menu_edit)
  show ?thesis
    unfolding Db_getOrdersByUserId_def orderItemQuantities_def o
    by (simp add: comp_def map_filter_quantities[of "Db_getMenuItemById ?d'" "Db_getMenuItemById d", OF n])
qed

lemma Mem_live_lookup:
  "map (\<lambda>w. map menuItem_d (items_w w)) (Mem_getOrdersByUserId s u)
     = map (\<lambda>ord. map (\<lambda>item. Mem_getMenuItemById s (menuItemId_oi item)) (items_o ord))
         (filter (\<lambda>ord. userId_o ord = u) (Mem_getAllOrders s))"
  by (simp add: Mem_getOrdersByUserId_def Mem_getAllOrders_def comp_def)

lemma map_filter_lookup:
  "map menuItem_d (List.map_filter (\<lambda>item. case look (menuItemId_oi item) of None \<Rightarrow> None
            | Some menuItem \<Rightarrow> Some \<lparr>menuItem_d = Some menuItem, quantity_d = quantity_oi item\<rparr>) items)
   = filter (\<lambda>r. r \<noteq> None) (map (\<lambda>item. look (menuItemId_oi item)) items)"
  by (induction items) (auto simp: List.map_filter_simps split: option.splits)

lemma Db_live_lookup:
  "map (\<lambda>w. map menuItem_d (items_w w)) (Db_getOrdersByUserId d u)
     = map (\<lambda>ord. filter (\<lambda>r. r \<noteq> None)
                      (map (\<lambda>item. Db_getMenuItemById d (menuItemId_oi item)) (items_o ord)))
         (filter (\<lambda>ord. userId_o ord = u) (Db_getAllOrders d))"
  by (simp add: Db_getOrdersByUserId_def Db_getAllOrders_def comp_def map_filter_lookup)

text \<open>
  Claim C3, as the code has it.  \<open>updateMenuItem\<close> and \<open>deleteMenuItem\<close>
  leave every stored order as it is: \<open>getOrderById\<close> answers the same order, with
  its items and its total.  The quantities \<open>getOrdersByUserId\<close> reports per item
  are the same after \<open>updateMenuItem\<close> (both backends) and after
  \<open>deleteMenuItem\<close> (in-memory backend).  The menu item attached to each item, and
  with it the price, is what \<open>getMenuItemById\<close> finds for the stored id in the
  menu as it is when \<open>getOrdersByUserId\<close> runs; the relational backend leaves
  out the items it does not find.
\<close>

theorem order_snapshot:
  "Mem_getOrderById (snd (Mem_updateMenuItem s i m)) j = Mem_getOrderById s j \<and>
   Mem_getOrderById (snd (Mem_deleteMenuItem s i)) j = Mem_getOrderById s j \<and>
   map orderItemQuantities (Mem_getOrdersByUserId (snd (Mem_updateMenuItem s i m)) u)
     = map orderItemQuantities (Mem_getOrdersByUserId s u) \<and>
   map orderItemQuantities (Mem_getOrdersByUserId (snd (Mem_deleteMenuItem s i)) u)
     = map orderItemQuantities (Mem_getOrdersByUserId s u) \<and>
   Db_getOrderById (snd (Db_updateMenuItem d i m)) j = Db_getOrderById d j \<and>
   Db_getOrderById (snd (Db_deleteMenuItem d i)) j = Db_getOrderById d j \<and>
   map orderItemQuantities (Db_getOrdersByUserId (snd (Db_updateMenuItem d i m)) u)
     = map orderItemQuantities (Db_getOrdersByUserId d u) \<and>
   map (\<lambda>w. map menuItem_d (items_w w)) (Mem_getOrdersByUserId s u)
     = map (\<lambda>ord. map (\<lambda>item. Mem_getMenuItemById s (menuItemId_oi item)) (items_o ord))
         (filter (\<lambda>ord. userId_o ord = u) (Mem_getAllOrders s)) \<and>
   map (\<lambda>w. map menuItem_d (items_w w)) (Db_getOrdersByUserId d u)
     = map (\<lambda>ord. filter (\<lambda>r. r \<noteq> None)
                      (map (\<lambda>item. Db_getMenuItemById d (menuItemId_oi item)) (items_o ord)))
         (filter (\<lambda>ord. userId_o ord = u) (Db_getAllOrders d))"
  using Mem_orders_menu_edit[of s i m] Db_orders_menu_edit[of d i m]
    Mem_quantities[of "snd (Mem_updateMenuItem s i m)" s u]
    Mem_quantities[of "snd (Mem_deleteMenuItem s i)" s u]
    Db_quantities_update[of d i m u] Mem_live_lookup[of s u] Db_live_lookup[of d u]
  by (simp add: Mem_getOrderById_def Db_getOrderById_def)

text \<open>Claim C3 fails on the prices: they follow the menu, and a deleted item loses its
  menu item (in-memory) or its line (relational).\<close>

theorem order_snapshot_counterexample:
  "map orderItemPrices (Mem_getOrdersByUserId memSample 1) = [[Some 12.99]] \<and>
   map orderItemPrices (Mem_getOrdersByUserId (snd (Mem_updateMenuItem memSample 1 margheritaPizza)) 1)
     = [[Some 11.99]] \<and>
   map orderItemPrices (Mem_getOrdersByUserId (snd (Mem_deleteMenuItem memSample 1)) 1) = [[None]] \<and>
   map orderItemPrices (Db_getOrdersByUserId dbSample 1) = [[Some 12.99]] \<and>
   map orderItemPrices (Db_getOrdersByUserId (snd (Db_updateMenuItem dbSample 1 margheritaPizza)) 1)
     = [[Some 11.99]] \<and>
   map orderItemQuantities (Db_getOrdersByUserId dbSample 1) = [[2]] \<and>
   map orderItemQuantities (Db_getOrdersByUserId (snd (Db_deleteMenuItem dbSample 1)) 1) = [[]]"
  by (simp add: memSample_eval dbSample_eval Mem_getOrdersByUserId_def Mem_updateMenuItem_def
      Mem_deleteMenuItem_def Mem_getMenuItemById_def Db_getOrdersByUserId_def Db_updateMenuItem_def
      Db_deleteMenuItem_def Db_getMenuItemById_def orderItemPrices_def orderItemQuantities_def
      Map_get_def Map_set_def Map_delete_def Map_values_def spreadMenuItem_def margheritaPizza_def
      Let_def List.map_filter_simps)

section \<open>Matching by name and category\<close>






section \<open>Create, then read\<close>


lemma Db_create_read:
  assumes "Db_inv d"
  shows "Db_getMenuItemById (snd (Db_createMenuItem d m)) (id_m (fst (Db_createMenuItem d m)))
           = Some (fst (Db_createMenuItem d m))"
    and "Db_getOrderById (snd (Db_createOrder now d ord)) (id_o (fst (Db_createOrder now d ord)))
           = Some (fst (Db_createOrder now d ord))"
    and "Db_createUser d u = (Inr r, d') \<Longrightarrow> Db_getUser d' (id_u r) = Some r"
proof -
  have m: "list_all (\<lambda>row. \<not> id_m row = menuItems_id_seq d) (menuItems_t d)"
    and o: "list_all (\<lambda>row. \<not> id_o row = orders_id_seq d) (orders_t d)"
    and us: "list_all (\<lambda>row. \<not> id_u row = users_id_seq d) (users_t d)"
    using assms by (auto simp: Db_inv_def list_all_iff)
  show "Db_getMenuItemById (snd (Db_createMenuItem d m)) (id_m (fst (Db_createMenuItem d m)))
           = Some (fst (Db_createMenuItem d m))"
    using m by (simp add: Db_getMenuItemById_def Db_createMenuItem_def Let_def find_append_new)
  show "Db_getOrderById (snd (Db_createOrder now d ord)) (id_o (fst (Db_createOrder now d ord)))
           = Some (fst (Db_createOrder now d ord))"
    using o by (simp add: Db_getOrderById_def Db_createOrder_def Let_def find_append_new)
  show "Db_createUser d u = (Inr r, d') \<Longrightarrow> Db_getUser d' (id_u r) = Some r"
    using us by (auto simp: Db_getUser_def Db_createUser_def Let_def find_append_new split: if_splits)
qed

text \<open>
  Claim C5 at an input where the code misses it.  The document store saves a menu item
  under the identifier the driver generates and answers the numeric id of its last six
  digits; \<open>getMenuItemById\<close> with that id looks for the zero-padded identifier and
  finds nothing.  \<open>createOrder\<close> and \<open>getOrderById\<close> likewise.
\<close>

theorem Mongo_create_then_read_misses:
  "(\<exists>r db'. Mongo_createMenuItem ''507f1f77bcf86cd799439012'' (Some 0) Mongo_empty pepperoniPizza
              = (Inr r, db') \<and>
      id_m r = Num 4427794 \<and> MenuItem_c db' \<noteq> [] \<and> Mongo_getMenuItemById db' (id_m r) = None) \<and>
   (\<exists>r db'. Mongo_createOrder ''507f1f77bcf86cd799439013'' 1000 mongoSample mongoOrder = (Inr r, db') \<and>
      id_o r = Num 4427795 \<and> Order_c db' \<noteq> [] \<and> Mongo_getOrderById db' (id_o r) = None)"
  by (simp add: Mongo_createMenuItem_def Mongo_empty_def convertMenuItemDocToType_def oid_numeric2
      Mongo_getMenuItemById_def Mongo_getMenuItemById_try_def toStringId_4427794 cast_439012
      Mongo_createOrder_def mongoSample_eval mongoOrder_def toStringId_4427793 cast_439011
      convertOrderDocToType_def oid_numeric3 Mongo_getOrderById_def toStringId_4427795 cast_439013
      pepperoniPizza_def Let_def)

section \<open>Failures and fallbacks of the document store\<close>

lemma Mongo_down:
  assumes "\<not> connected db"
  shows "Mongo_getUser db i = None" "Mongo_getUserByUsername db n = None"
    "Mongo_getAllMenuItems db = []" "Mongo_getMenuItemById db i = None"
    "Mongo_getMenuItemsByCategory db n = []" "Mongo_getCartItems db i = []"
    "Mongo_getCartItemsWithDetails render db i = []"
    "Mongo_getOrderById db i = None" "Mongo_getOrdersByUserId db i = []"
    "Mongo_getAllOrders db = []"
    "Mongo_updateMenuItem db i m = (None, db)" "Mongo_deleteMenuItem db i = (False, db)"
    "Mongo_removeFromCart db i u = (False, db)" "Mongo_updateCartItemQuantity db i u q = (None, db)"
    "Mongo_clearCart db u = (False, db)" "Mongo_updateOrderStatus db i st = (None, db)"
    "Mongo_createUser oid db iu = (Inl StoreError, db)"
    "Mongo_createMenuItem oid r db m = (Inl StoreError, db)"
    "Mongo_addToCart oid db ic = (Inl StoreError, db)"
    "Mongo_createOrder oid t db io = (Inl StoreError, db)"
  using assms
  by (simp_all add: Mongo_getUser_def Mongo_getUser_try_def Mongo_getUserByUsername_def
        Mongo_getAllMenuItems_def Mongo_getMenuItemById_def Mongo_getMenuItemById_try_def
        Mongo_getMenuItemsByCategory_def Mongo_getCartItems_def Mongo_getCartItems_try_def
        Mongo_getCartItemsWithDetails_def Mongo_getOrdersByUserId_def Mongo_getAllOrders_def
        Mongo_getOrderById_def Mongo_updateMenuItem_def Mongo_deleteMenuItem_def
        Mongo_removeFromCart_def Mongo_updateCartItemQuantity_def Mongo_clearCart_def
        Mongo_updateOrderStatus_def Mongo_createUser_def Mongo_createMenuItem_def
        Mongo_addToCart_def Mongo_createOrder_def Let_def)

lemma Mongo_cast_fails:
  assumes "connected db" "castObjectId (toStringId i) = Inl CastError"
  shows "Mongo_getUser db i = None" "Mongo_getMenuItemById db i = None"
    "Mongo_getCartItems db i = []" "Mongo_getOrderById db i = None"
    "Mongo_getOrdersByUserId db i = []"
    "Mongo_updateMenuItem db i m = (None, db)" "Mongo_deleteMenuItem db i = (False, db)"
    "Mongo_updateOrderStatus db i st = (None, db)"
    "Mongo_createOrder oid t db (io\<lparr>userId_io := i\<rparr>) = (Inl CastError, db)"
  using assms
  by (simp_all add: Mongo_getUser_def Mongo_getUser_try_def Mongo_getMenuItemById_def
        Mongo_getMenuItemById_try_def Mongo_getCartItems_def Mongo_getCartItems_try_def
        Mongo_getOrderById_def Mongo_getOrdersByUserId_def Mongo_updateMenuItem_def
        Mongo_deleteMenuItem_def Mongo_updateOrderStatus_def Mongo_createOrder_def Let_def)

lemma Mongo_lookup_misses:
  assumes "connected db" "castObjectId (toStringId i) = Inr sid"
  shows "(Mongo_getMenuItemById db i = None) = (\<not> list_ex (\<lambda>doc. oid_md doc = sid) (MenuItem_c db))"
    and "(Mongo_getOrderById db i = None) = (\<not> list_ex (\<lambda>doc. oid_od doc = sid) (Order_c db))"
    and "(Mongo_getUser db i = None) =
           (\<not> list_ex (\<lambda>doc. oid_ud doc = sid) (User_c db) \<and>
            \<not> list_ex (\<lambda>doc. strictEq (objectIdToNumericId (oid_ud doc)) i) (User_c db))"
proof -
  have fn: "\<And>P xs. (find P xs = None) = (\<not> list_ex P xs)"
    by (auto simp: find_None_iff list_ex_iff)
  show "(Mongo_getMenuItemById db i = None) = (\<not> list_ex (\<lambda>doc. oid_md doc = sid) (MenuItem_c db))"
    using assms by (simp add: Mongo_getMenuItemById_def Mongo_getMenuItemById_try_def fn)
  show "(Mongo_getOrderById db i = None) = (\<not> list_ex (\<lambda>doc. oid_od doc = sid) (Order_c db))"
    using assms by (simp add: Mongo_getOrderById_def fn)
  show "(Mongo_getUser db i = None) =
           (\<not> list_ex (\<lambda>doc. oid_ud doc = sid) (User_c db) \<and>
            \<not> list_ex (\<lambda>doc. strictEq (objectIdToNumericId (oid_ud doc)) i) (User_c db))"
    using assms
    by (auto simp: Mongo_getUser_def Mongo_getUser_try_def findUserByNumericId_def fn Let_def
        list_ex_iff split: option.splits dest: find_Some_P)
qed

lemma Mongo_orders_partial:
  assumes "connected db" "castObjectId (toStringId i) = Inr sid"
  shows "map (\<lambda>w. map menuItem_d (items_w w)) (Mongo_getOrdersByUserId db i)
         = map (\<lambda>doc. filter (\<lambda>r. r \<noteq> None)
                         (map (\<lambda>item. Mongo_getMenuItemById db
                                         (parseInt16 (substring (menuItemId_oi item)
                                            (length (menuItemId_oi item) - 6))))
                            (items_od doc)))
             (sortNewestFirst (filter (\<lambda>doc. userId_od doc = sid) (Order_c db)))"
  using assms
  by (simp add: Mongo_getOrdersByUserId_def comp_def
      map_filter_lookup[of "\<lambda>k. Mongo_getMenuItemById db (parseInt16 (substring k (length k - 6)))"])

lemma Mongo_cart_details_partial:
  "list_all (\<lambda>w. menuItem_wd w \<noteq> None) (Mongo_getCartItemsWithDetails render db i)"
  by (auto simp: Mongo_getCartItemsWithDetails_def list_all_iff List.map_filter_def Let_def
      split: option.splits)

text \<open>
  Claim C6, as the code has it.  While the store is not connected, every reading call of
  the document store answers its failure value (\<open>undefined\<close> or the empty list),
  every updating call answers \<open>undefined\<close> or \<open>false\<close> and leaves the
  state as it is, and every creating call rethrows and leaves the state as it is.  When
  the store is connected and the identifier string does not cast, the calls that look a
  document up by that string answer the failure value and change nothing, and
  \<open>createOrder\<close> rethrows.  When the string casts, \<open>getMenuItemById\<close> and
  \<open>getOrderById\<close> answer \<open>undefined\<close> exactly when no document has that
  identifier, while \<open>getUser\<close> answers \<open>undefined\<close> only when, in
  addition, no user's numeric id is the wanted one: it falls back on a scan of all users.
  \<open>getOrdersByUserId\<close> reports, per order, the items for which
  \<open>getMenuItemById\<close> answers a menu item and leaves the others out;
  \<open>getCartItemsWithDetails\<close> answers only cart items that have a menu item.
\<close>

theorem Mongo_failures:
  "(\<not> connected db \<longrightarrow>
      Mongo_getUser db i = None \<and> Mongo_getUserByUsername db n = None \<and>
      Mongo_getAllMenuItems db = [] \<and> Mongo_getMenuItemById db i = None \<and>
      Mongo_getMenuItemsByCategory db n = [] \<and> Mongo_getCartItems db i = [] \<and>
      Mongo_getCartItemsWithDetails render db i = [] \<and>
      Mongo_getOrderById db i = None \<and> Mongo_getOrdersByUserId db i = [] \<and>
      Mongo_getAllOrders db = [] \<and>
      Mongo_updateMenuItem db i m = (None, db) \<and> Mongo_deleteMenuItem db i = (False, db) \<and>
      Mongo_removeFromCart db i u = (False, db) \<and> Mongo_updateCartItemQuantity db i u q = (None, db) \<and>
      Mongo_clearCart db u = (False, db) \<and> Mongo_updateOrderStatus db i st = (None, db) \<and>
      Mongo_createUser oid db iu = (Inl StoreError, db) \<and>
      Mongo_createMenuItem oid r db m = (Inl StoreError, db) \<and>
      Mongo_addToCart oid db ic = (Inl StoreError, db) \<and>
      Mongo_createOrder oid t db io = (Inl StoreError, db)) \<and>
   (connected db \<longrightarrow> castObjectId (toStringId i) = Inl CastError \<longrightarrow>
      Mongo_getUser db i = None \<and> Mongo_getMenuItemById db i = None \<and>
      Mongo_getCartItems db i = [] \<and> Mongo_getOrderById db i = None \<and>
      Mongo_getOrdersByUserId db i = [] \<and>
      Mongo_updateMenuItem db i m = (None, db) \<and> Mongo_deleteMenuItem db i = (False, db) \<and>
      Mongo_updateOrderStatus db i st = (None, db) \<and>
      Mongo_createOrder oid t db (io\<lparr>userId_io := i\<rparr>) = (Inl CastError, db)) \<and>
   (connected db \<longrightarrow> castObjectId (toStringId i) = Inr sid \<longrightarrow>
      (Mongo_getMenuItemById db i = None) = (\<not> list_ex (\<lambda>doc. oid_md doc = sid) (MenuItem_c db)) \<and>
      (Mongo_getOrderById db i = None) = (\<not> list_ex (\<lambda>doc. oid_od doc = sid) (Order_c db)) \<and>
      (Mongo_getUser db i = None) =
        (\<not> list_ex (\<lambda>doc. oid_ud doc = sid) (User_c db) \<and>
         \<not> list_ex (\<lambda>doc. strictEq (objectIdToNumericId (oid_ud doc)) i) (User_c db)) \<and>
      map (\<lambda>w. map menuItem_d (items_w w)) (Mongo_getOrdersByUserId db i)
        = map (\<lambda>doc. filter (\<lambda>r. r \<noteq> None)
                        (map (\<lambda>item. Mongo_getMenuItemById db
                                        (parseInt16 (substring (menuItemId_oi item)
                                           (length (menuItemId_oi item) - 6))))
                           (items_od doc)))
            (sortNewestFirst (filter (\<lambda>doc. userId_od doc = sid) (Order_c db)))) \<and>
   list_all (\<lambda>w. menuItem_wd w \<noteq> None) (Mongo_getCartItemsWithDetails render db i)"
proof -
  have a: "\<not> connected db \<longrightarrow>
      Mongo_getUser db i = None \<and> Mongo_getUserByUsername db n = None \<and>
      Mongo_getAllMenuItems db = [] \<and> Mongo_getMenuItemById db i = None \<and>
      Mongo_getMenuItemsByCategory db n = [] \<and> Mongo_getCartItems db i = [] \<and>
      Mongo_getCartItemsWithDetails render db i = [] \<and>
      Mongo_getOrderById db i = None \<and> Mongo_getOrdersByUserId db i = [] \<and>
      Mongo_getAllOrders db = [] \<and>
      Mongo_updateMenuItem db i m = (None, db) \<and> Mongo_deleteMenuItem db i = (False, db) \<and>
      Mongo_removeFromCart db i u = (False, db) \<and> Mongo_updateCartItemQuantity db i u q = (None, db) \<and>
      Mongo_clearCart db u = (False, db) \<and> Mongo_updateOrderStatus db i st = (None, db) \<and>
      Mongo_createUser oid db iu = (Inl StoreError, db) \<and>
      Mongo_createMenuItem oid r db m = (Inl StoreError, db) \<and>
      Mongo_addToCart oid db ic = (Inl StoreError, db) \<and>
      Mongo_createOrder oid t db io = (Inl StoreError, db)"
    by (intro impI conjI Mongo_down)
  have b: "connected db \<longrightarrow> castObjectId (toStringId i) = Inl CastError \<longrightarrow>
      Mongo_getUser db i = None \<and> Mongo_getMenuItemById db i = None \<and>
      Mongo_getCartItems db i = [] \<and> Mongo_getOrderById db i = None \<and>
      Mongo_getOrdersByUserId db i = [] \<and>
      Mongo_updateMenuItem db i m = (None, db) \<and> Mongo_deleteMenuItem db i = (False, db) \<and>
      Mongo_updateOrderStatus db i st = (None, db) \<and>
      Mongo_createOrder oid t db (io\<lparr>userId_io := i\<rparr>) = (Inl CastError, db)"
    by (intro impI conjI Mongo_cast_fails)
  have c: "connected db \<longrightarrow> castObjectId (toStringId i) = Inr sid \<longrightarrow>
      (Mongo_getMenuItemById db i = None) = (\<not> list_ex (\<lambda>doc. oid_md doc = sid) (MenuItem_c db)) \<and>
      (Mongo_getOrderById db i = None) = (\<not> list_ex (\<lambda>doc. oid_od doc = sid) (Order_c db)) \<and>
      (Mongo_getUser db i = None) =
        (\<not> list_ex (\<lambda>doc. oid_ud doc = sid) (User_c db) \<and>
         \<not> list_ex (\<lambda>doc. strictEq (objectIdToNumericId (oid_ud doc)) i) (User_c db)) \<and>
      map (\<lambda>w. map menuItem_d (items_w w)) (Mongo_getOrdersByUserId db i)
        = map (\<lambda>doc. filter (\<lambda>r. r \<noteq> None)
                        (map (\<lambda>item. Mongo_getMenuItemById db
                                        (parseInt16 (substring (menuItemId_oi item)
                                           (length (menuItemId_oi item) - 6))))
                           (items_od doc)))
            (sortNewestFirst (filter (\<lambda>doc. userId_od doc = sid) (Order_c db)))"
    by (intro impI conjI Mongo_lookup_misses Mongo_orders_partial)
  show ?thesis by (intro conjI a b c Mongo_cart_details_partial)
qed

theorem Mongo_failures_witness:
  "\<not> connected mongoDown \<and> Mongo_getUser mongoDown (Num 4427793) = None \<and>
   Mongo_getAllMenuItems mongoDown = [] \<and> Mongo_getCartItems mongoDown (Num 4427793) = [] \<and>
   Mongo_getOrdersByUserId mongoDown (Num 4427793) = [] \<and>
   Mongo_createMenuItem ''507f1f77bcf86cd799439015'' (Some 0) mongoDown margheritaPizza
     = (Inl StoreError, mongoDown) \<and>
   connected mongoSample \<and> castObjectId (toStringId (Num (- 5))) = Inl CastError \<and>
   Mongo_getMenuItemById mongoSample (Num (- 5)) = None \<and>
   Mongo_deleteMenuItem mongoSample (Num (- 5)) = (False, mongoSample) \<and>
   castObjectId (toStringId (Num 4427793)) = Inr ''000000000000000000439011'' \<and>
   Mongo_getMenuItemById mongoSample (Num 4427793) = None \<and>
   Mongo_getUser mongoSample (Num 4427793) \<noteq> None"
proof -
  have c0: "\<not> connected mongoDown" by (simp add: mongoDown_def)
  have c1: "connected mongoSample" by (simp add: mongoSample_eval)
  have k1: "castObjectId (toStringId (Num (- 5))) = Inl CastError"
    by (simp add: toStringId_minus5 castObjectId_def isHexChar_def hexVal_def)
  have k2: "castObjectId (toStringId (Num 4427793)) = Inr ''000000000000000000439011''"
    by (simp add: toStringId_4427793 cast_439011)
  have l1: "\<not> list_ex (\<lambda>doc. oid_md doc = ''000000000000000000439011'') (MenuItem_c mongoSample)"
    by (simp add: mongoSample_eval)
  have l2: "list_ex (\<lambda>doc. strictEq (objectIdToNumericId (oid_ud doc)) (Num 4427793)) (User_c mongoSample)"
    by (simp add: mongoSample_eval oid_numeric strictEq_def)
  note a = Mongo_failures[where db = mongoDown and i = "Num 4427793" and m = margheritaPizza
      and oid = "''507f1f77bcf86cd799439015''" and r = "Some 0"]
  note b = Mongo_failures[where db = mongoSample and i = "Num (- 5)"]
  note c = Mongo_failures[where db = mongoSample and i = "Num 4427793"
      and sid = "''000000000000000000439011''"]
  have r1: "Mongo_getUser mongoDown (Num 4427793) = None \<and>
   Mongo_getAllMenuItems mongoDown = [] \<and> Mongo_getCartItems mongoDown (Num 4427793) = [] \<and>
   Mongo_getOrdersByUserId mongoDown (Num 4427793) = [] \<and>
   Mongo_createMenuItem ''507f1f77bcf86cd799439015'' (Some 0) mongoDown margheritaPizza
     = (Inl StoreError, mongoDown)"
    using a c0 by simp
  have r2: "Mongo_getMenuItemById mongoSample (Num (- 5)) = None \<and>
            Mongo_deleteMenuItem mongoSample (Num (- 5)) = (False, mongoSample)"
    using b c1 k1 by simp
  have r3: "Mongo_getMenuItemById mongoSample (Num 4427793) = None \<and>
            Mongo_getUser mongoSample (Num 4427793) \<noteq> None"
    using c c1 k2 l1 l2 by simp
  show ?thesis using c0 c1 k1 k2 r1 r2 r3 by simp
qed

text \<open>Claim C6 fails on \<open>getUser\<close>: the lookup by the padded identifier finds
  nothing, and the call answers the user all the same.\<close>

theorem Mongo_getUser_fallback_counterexample:
  "castObjectId (toStringId (Num 4427793)) = Inr ''000000000000000000439011'' \<and>
   find (\<lambda>doc. oid_ud doc = ''000000000000000000439011'') (User_c mongoSample) = None \<and>
   map_option username_u (Mongo_getUser mongoSample (Num 4427793)) = Some ''admin''"
  by (simp add: toStringId_4427793 cast_439011 mongoSample_eval Mongo_getUser_def
      Mongo_getUser_try_def findUserByNumericId_def oid_numeric strictEq_def
      convertUserDocToType_def)

section \<open>Menu item update\<close>

lemma fieldsReplaced_spread: "fieldsReplaced e m (spreadMenuItem e m)"
  by (simp add: fieldsReplaced_def spreadMenuItem_def)

lemma Mem_updateMenuItem_absent:
  "Mem_getMenuItemById s i = None \<Longrightarrow> Mem_updateMenuItem s i m = (None, s)"
  by (simp add: Mem_getMenuItemById_def Mem_updateMenuItem_def)

lemma Mem_updateMenuItem_present:
  assumes "Mem_inv s" "Mem_getMenuItemById s i = Some e"
  shows "\<exists>s'. Mem_updateMenuItem s i m = (Some (spreadMenuItem e m), s') \<and>
           id_m (spreadMenuItem e m) = i \<and>
           Mem_getMenuItemById s' i = Some (spreadMenuItem e m) \<and>
           (\<forall>j. j \<noteq> i \<longrightarrow> Mem_getMenuItemById s' j = Mem_getMenuItemById s j) \<and>
           users s' = users s \<and> cartItems s' = cartItems s \<and> orders s' = orders s"
proof -
  have "id_m e = i" using assms keyed_get[of "menuItems s" id_m "menuItemIdCounter s" i e]
    by (simp add: Mem_inv_def Mem_getMenuItemById_def)
  then show ?thesis using assms(2)
    by (simp add: Mem_getMenuItemById_def Mem_updateMenuItem_def Map_get_set Let_def)
qed

lemma Db_updateMenuItem_absent:
  "Db_getMenuItemById d i = None \<Longrightarrow> Db_updateMenuItem d i m = (None, d)"
  by (simp add: Db_getMenuItemById_def Db_updateMenuItem_def find_None_map_id Let_def)

lemma Db_updateMenuItem_present:
  assumes "Db_getMenuItemById d i = Some e"
  shows "\<exists>d'. Db_updateMenuItem d i m = (Some (spreadMenuItem e m), d') \<and>
           id_m (spreadMenuItem e m) = i \<and>
           Db_getMenuItemById d' i = Some (spreadMenuItem e m) \<and>
           (\<forall>j. j \<noteq> i \<longrightarrow> Db_getMenuItemById d' j = Db_getMenuItemById d j) \<and>
           users_t d' = users_t d \<and> cartItems_t d' = cartItems_t d \<and> orders_t d' = orders_t d"
proof -
  let ?g = "\<lambda>row. if id_m row = i then spreadMenuItem row m else row"
  have pres: "\<And>j x. (id_m (?g x) = j) = (id_m x = j)" by simp
  have f: "\<And>j. find (\<lambda>row. id_m row = j) (map ?g (menuItems_t d))
              = map_option ?g (find (\<lambda>row. id_m row = j) (menuItems_t d))"
    by (rule find_map_preserve) (rule pres)
  have ide: "id_m e = i" using assms by (auto simp: Db_getMenuItemById_def dest: find_Some_P)
  have other: "\<And>j. j \<noteq> i \<Longrightarrow> map_option ?g (find (\<lambda>row. id_m row = j) (menuItems_t d))
                 = find (\<lambda>row. id_m row = j) (menuItems_t d)"
  proof -
    fix j assume "j \<noteq> i"
    then show "map_option ?g (find (\<lambda>row. id_m row = j) (menuItems_t d))
                 = find (\<lambda>row. id_m row = j) (menuItems_t d)"
      by (cases "find (\<lambda>row. id_m row = j) (menuItems_t d)") (auto dest: find_Some_P)
  qed
  show ?thesis using assms ide other
    by (simp add: Db_getMenuItemById_def Db_updateMenuItem_def Let_def f)
qed

text \<open>
  Claim C7.  \<open>updateMenuItem\<close> on an id that is absent answers \<open>undefined\<close>
  and leaves the store as it is.  On an id that is present it answers the item under that
  id with the fields of the insert value in place, stores it, and leaves every menu item
  with another id, the users, the cart and the orders as they are.  In the in-memory and
  in the relational backend.
\<close>

theorem updateMenuItem_frame:
  assumes "Mem_reachable s"
  shows "(Mem_getMenuItemById s i = None \<longrightarrow> Mem_updateMenuItem s i m = (None, s)) \<and>
         (\<forall>e. Mem_getMenuItemById s i = Some e \<longrightarrow>
            (\<exists>r s'. Mem_updateMenuItem s i m = (Some r, s') \<and> id_m r = i \<and> fieldsReplaced e m r \<and>
               Mem_getMenuItemById s' i = Some r \<and>
               (\<forall>j. j \<noteq> i \<longrightarrow> Mem_getMenuItemById s' j = Mem_getMenuItemById s j) \<and>
               users s' = users s \<and> cartItems s' = cartItems s \<and> orders s' = orders s)) \<and>
         (Db_getMenuItemById d i = None \<longrightarrow> Db_updateMenuItem d i m = (None, d)) \<and>
         (\<forall>e. Db_getMenuItemById d i = Some e \<longrightarrow>
            (\<exists>r d'. Db_updateMenuItem d i m = (Some r, d') \<and> id_m r = i \<and> fieldsReplaced e m r \<and>
               Db_getMenuItemById d' i = Some r \<and>
               (\<forall>j. j \<noteq> i \<longrightarrow> Db_getMenuItemById d' j = Db_getMenuItemById d j) \<and>
               users_t d' = users_t d \<and> cartItems_t d' = cartItems_t d \<and> orders_t d' = orders_t d))"
proof -
  have a: "\<And>e. Mem_getMenuItemById s i = Some e \<Longrightarrow>
            (\<exists>r s'. Mem_updateMenuItem s i m = (Some r, s') \<and> id_m r = i \<and> fieldsReplaced e m r \<and>
               Mem_getMenuItemById s' i = Some r \<and>
               (\<forall>j. j \<noteq> i \<longrightarrow> Mem_getMenuItemById s' j = Mem_getMenuItemById s j) \<and>
               users s' = users s \<and> cartItems s' = cartItems s \<and> orders s' = orders s)"
    using Mem_updateMenuItem_present[OF Mem_reachable_inv[OF assms], of i _ m] fieldsReplaced_spread
    by blast
  have b: "\<And>e. Db_getMenuItemById d i = Some e \<Longrightarrow>
            (\<exists>r d'. Db_updateMenuItem d i m = (Some r, d') \<and> id_m r = i \<and> fieldsReplaced e m r \<and>
               Db_getMenuItemById d' i = Some r \<and>
               (\<forall>j. j \<noteq> i \<longrightarrow> Db_getMenuItemById d' j = Db_getMenuItemById d j) \<and>
               users_t d' = users_t d \<and> cartItems_t d' = cartItems_t d \<and> orders_t d' = orders_t d)"
    using Db_updateMenuItem_present[of d i _ m] fieldsReplaced_spread by blast
  show ?thesis
    using a b Mem_updateMenuItem_absent[of s i m] Db_updateMenuItem_absent[of d i m] by blast
qed

theorem updateMenuItem_frame_witness:
  "Mem_reachable memSample \<and>
   Mem_getMenuItemById memSample 7 = None \<and> Mem_updateMenuItem memSample 7 margheritaPizza = (None, memSample) \<and>
   Db_getMenuItemById dbSample 7 = None \<and> Db_updateMenuItem dbSample 7 margheritaPizza = (None, dbSample) \<and>
   (\<exists>r s'. Mem_updateMenuItem memSample 1 margheritaPizza = (Some r, s') \<and> id_m r = 1 \<and>
      name_m r = ''Margherita Pizza'' \<and> cartItems s' = cartItems memSample) \<and>
   (\<exists>r d'. Db_updateMenuItem dbSample 1 margheritaPizza = (Some r, d') \<and> id_m r = 1 \<and>
      name_m r = ''Margherita Pizza'' \<and> cartItems_t d' = cartItems_t dbSample)"
proof -
  note t = updateMenuItem_frame[OF memSample_reachable]
  have n1: "Mem_getMenuItemById memSample 7 = None"
    by (simp add: memSample_eval Mem_getMenuItemById_def Map_get_def)
  have n2: "Db_getMenuItemById dbSample 7 = None"
    by (simp add: dbSample_eval Db_getMenuItemById_def)
  have p1: "\<exists>e. Mem_getMenuItemById memSample 1 = Some e"
    by (simp add: memSample_eval Mem_getMenuItemById_def Map_get_def)
  have p2: "\<exists>e. Db_getMenuItemById dbSample 1 = Some e"
    by (simp add: dbSample_eval Db_getMenuItemById_def)
  have nm: "name_im margheritaPizza = ''Margherita Pizza''" by (simp add: margheritaPizza_def)
  have a: "Mem_updateMenuItem memSample 7 margheritaPizza = (None, memSample)"
    using t[of 7 margheritaPizza dbSample] n1 by blast
  have b: "Db_updateMenuItem dbSample 7 margheritaPizza = (None, dbSample)"
    using t[of 7 margheritaPizza dbSample] n2 by blast
  have c: "\<exists>r s'. Mem_updateMenuItem memSample 1 margheritaPizza = (Some r, s') \<and> id_m r = 1 \<and>
      name_m r = ''Margherita Pizza'' \<and> cartItems s' = cartItems memSample"
    using t[of 1 margheritaPizza dbSample] p1 nm unfolding fieldsReplaced_def by metis
  have d: "\<exists>r d'. Db_updateMenuItem dbSample 1 margheritaPizza = (Some r, d') \<and> id_m r = 1 \<and>
      name_m r = ''Margherita Pizza'' \<and> cartItems_t d' = cartItems_t dbSample"
    using t[of 1 margheritaPizza dbSample] p2 nm unfolding fieldsReplaced_def by metis
  show ?thesis using memSample_reachable n1 n2 a b c d by blast
qed

section \<open>Order status\<close>

















section \<open>Removing a cart row\<close>

lemma Mem_removeFromCart_guarded:
  "fst (Mem_removeFromCart s i u) = (\<exists>c. Map_get (cartItems s) i = Some c \<and> userId_c c = u) \<and>
   (\<not> fst (Mem_removeFromCart s i u) \<longrightarrow> snd (Mem_removeFromCart s i u) = s)"
  by (auto simp: Mem_removeFromCart_def split: option.splits)

text \<open>
  Claim C9 at an input where the code misses it.  The relational \<open>removeFromCart\<close>
  answers \<open>true\<close> for the cart row of another user, and on an empty cart; it
  deletes nothing there.
\<close>

theorem Db_removeFromCart_reports_true:
  "Db_getCartItems dbSample 2 = [] \<and> Db_removeFromCart dbSample 1 2 = (True, dbSample) \<and>
   Db_removeFromCart Db_empty 1 1 = (True, Db_empty)"
  by (simp add: dbSample_eval Db_getCartItems_def Db_removeFromCart_def Db_empty_def)

section \<open>Clearing a cart\<close>

lemma Mem_clearCart_filter:
  assumes "Mem_inv s"
  shows "cartItems (snd (Mem_clearCart s u)) = filter (\<lambda>(k, v). userId_c v \<noteq> u) (cartItems s)"
proof -
  have k: "keyed (cartItems s) id_c (cartItemIdCounter s)" using assms by (simp add: Mem_inv_def)
  have "filter (\<lambda>(k, v). k \<notin> id_c ` set (Mem_getCartItems s u)) (cartItems s)
        = filter (\<lambda>(k, v). userId_c v \<noteq> u) (cartItems s)"
  proof (rule filter_cong[OF refl], clarify)
    fix a b assume in1: "(a, b) \<in> set (cartItems s)"
    have ida: "id_c b = a" using k in1 by (auto simp: keyed_def list_all_iff)
    show "(a \<notin> id_c ` set (Mem_getCartItems s u)) = (userId_c b \<noteq> u)"
    proof
      assume nin: "a \<notin> id_c ` set (Mem_getCartItems s u)"
      show "userId_c b \<noteq> u"
      proof
        assume "userId_c b = u"
        then have "b \<in> set (Mem_getCartItems s u)"
          using in1 by (force simp: Mem_getCartItems_def Map_values_def)
        then show False using nin ida by blast
      qed
    next
      assume ne: "userId_c b \<noteq> u"
      show "a \<notin> id_c ` set (Mem_getCartItems s u)"
      proof
        assume "a \<in> id_c ` set (Mem_getCartItems s u)"
        then obtain b2 k2 where b2: "(k2, b2) \<in> set (cartItems s)" "userId_c b2 = u" "id_c b2 = a"
          by (auto simp: Mem_getCartItems_def Map_values_def)
        then have "k2 = a" using k by (auto simp: keyed_def list_all_iff)
        then have "b2 = b" using k in1 b2(1) by (auto simp: keyed_def dest: eq_key_imp_eq_value)
        then show False using ne b2(2) by simp
      qed
    qed
  qed
  then show ?thesis by (simp add: Mem_clearCart_def foldl_Map_delete)
qed

lemma Mem_clearCart_frame:
  assumes "Mem_inv s"
  shows "fst (Mem_clearCart s u) \<and>
         Mem_getCartItems (snd (Mem_clearCart s u)) u = [] \<and>
         (\<forall>u'. u' \<noteq> u \<longrightarrow> Mem_getCartItems (snd (Mem_clearCart s u)) u' = Mem_getCartItems s u') \<and>
         users (snd (Mem_clearCart s u)) = users s \<and>
         menuItems (snd (Mem_clearCart s u)) = menuItems s \<and>
         orders (snd (Mem_clearCart s u)) = orders s"
proof -
  note f = Mem_clearCart_filter[OF assms, of u]
  have a: "Mem_getCartItems (snd (Mem_clearCart s u)) u = []"
    by (auto simp: Mem_getCartItems_def f Map_values_def filter_empty_conv)
  have b: "\<And>u'. u' \<noteq> u \<Longrightarrow>
             Mem_getCartItems (snd (Mem_clearCart s u)) u' = Mem_getCartItems s u'"
    unfolding Mem_getCartItems_def f Map_values_def filter_map filter_filter
    by (rule arg_cong[where f="map snd"], rule filter_cong) auto
  show ?thesis using a b by (simp add: Mem_clearCart_def)
qed

lemma Db_clearCart_frame:
  "fst (Db_clearCart d u) \<and>
   Db_getCartItems (snd (Db_clearCart d u)) u = [] \<and>
   (\<forall>u'. u' \<noteq> u \<longrightarrow> Db_getCartItems (snd (Db_clearCart d u)) u' = Db_getCartItems d u') \<and>
   users_t (snd (Db_clearCart d u)) = users_t d \<and>
   menuItems_t (snd (Db_clearCart d u)) = menuItems_t d \<and>
   orders_t (snd (Db_clearCart d u)) = orders_t d"
proof -
  have "\<And>u'. u' \<noteq> u \<Longrightarrow> filter (\<lambda>row. userId_c row \<noteq> u \<and> userId_c row = u') (cartItems_t d)
                 = filter (\<lambda>row. userId_c row = u') (cartItems_t d)"
    by (rule filter_cong) auto
  then show ?thesis
    by (auto simp: Db_clearCart_def Db_getCartItems_def filter_empty_conv)
qed

text \<open>
  Claim C10.  \<open>clearCart\<close> answers \<open>true\<close>, leaves the user no cart item,
  and leaves the cart items of every other user, the users, the menu items and the orders
  as they are.  In the in-memory and in the relational backend.
\<close>

theorem clearCart_frame:
  assumes "Mem_reachable s"
  shows "fst (Mem_clearCart s u) \<and>
         Mem_getCartItems (snd (Mem_clearCart s u)) u = [] \<and>
         (\<forall>u'. u' \<noteq> u \<longrightarrow> Mem_getCartItems (snd (Mem_clearCart s u)) u' = Mem_getCartItems s u') \<and>
         users (snd (Mem_clearCart s u)) = users s \<and>
         menuItems (snd (Mem_clearCart s u)) = menuItems s \<and>
         orders (snd (Mem_clearCart s u)) = orders s \<and>
         fst (Db_clearCart d u) \<and>
         Db_getCartItems (snd (Db_clearCart d u)) u = [] \<and>
         (\<forall>u'. u' \<noteq> u \<longrightarrow> Db_getCartItems (snd (Db_clearCart d u)) u' = Db_getCartItems d u') \<and>
         users_t (snd (Db_clearCart d u)) = users_t d \<and>
         menuItems_t (snd (Db_clearCart d u)) = menuItems_t d \<and>
         orders_t (snd (Db_clearCart d u)) = orders_t d"
  using Mem_clearCart_frame[OF Mem_reachable_inv[OF assms], of u] Db_clearCart_frame[of d u]
  by blast

theorem clearCart_frame_witness:
  "Mem_reachable memSample \<and> Mem_getCartItems memSample 1 \<noteq> [] \<and>
   fst (Mem_clearCart memSample 1) \<and> Mem_getCartItems (snd (Mem_clearCart memSample 1)) 1 = [] \<and>
   Mem_getCartItems (snd (Mem_clearCart memSample 2)) 1 = Mem_getCartItems memSample 1 \<and>
   orders (snd (Mem_clearCart memSample 1)) = orders memSample \<and>
   Db_getCartItems dbSample 1 \<noteq> [] \<and>
   fst (Db_clearCart dbSample 1) \<and> Db_getCartItems (snd (Db_clearCart dbSample 1)) 1 = [] \<and>
   Db_getCartItems (snd (Db_clearCart dbSample 2)) 1 = Db_getCartItems dbSample 1"
proof -
  have ne: "Mem_getCartItems memSample 1 \<noteq> []" "Db_getCartItems dbSample 1 \<noteq> []"
    by (simp_all add: memSample_eval dbSample_eval Mem_getCartItems_def Db_getCartItems_def
        Map_values_def)
  have d: "(1::int) \<noteq> 2" by simp
  show ?thesis
    using clearCart_frame[OF memSample_reachable, of 1 dbSample]
      clearCart_frame[OF memSample_reachable, of 2 dbSample] ne d memSample_reachable
    by metis
qed

end
